theory Spec2Isabelle
  imports Complex_Main
begin

section \<open>The tab component controller of src/tabs.js and src/unnamed/part_000\<close>

text \<open>
  Both files hold the same controller: \<open>initTabsComponent(component)\<close> closes over a
  handful of variables (\<open>currentActiveIndex\<close>, the autoplay variables, ...) and over the
  DOM elements of one component, and every handler mutates them. The model passes one
  record of that state through every function. tabs.js is the classic variant;
  part_000 is the variant that caches arrays, batches DOM writes, records its listeners
  and has a \<open>cleanup\<close>. Functions of part_000 whose body differs from tabs.js carry the
  suffix \<open>_opt\<close>; a function defined once has the same body in both files (up to the
  selector strings and the name \<open>tabLinksArray\<close>).

  Left out of the state: scrolling (\<open>scrollTo\<close>, \<open>scrollIntoView\<close>, which read layout metrics
  and change only the scroll position), \<open>focus()\<close>, \<open>preventDefault()\<close>. No code of the
  controller reads them back. JavaScript numbers are exact here: indices and
  timestamps are \<open>int\<close>, the autoplay duration (seconds) and timer delays are \<open>rat\<close>.
\<close>

subsection \<open>The DOM of one component\<close>

record tab_link =
  link_id :: string                       \<comment> \<open>\<open>link.id\<close>\<close>
  aria_selected :: bool                   \<comment> \<open>attribute \<open>aria-selected\<close> is \<open>"true"\<close>\<close>
  cc_active :: bool                       \<comment> \<open>class \<open>cc-active\<close>\<close>
  overlay_tabindex :: "string option"     \<comment> \<open>\<open>None\<close>: no \<open>[data-tabs-link-button]\<close> child;
                                              \<open>Some v\<close>: its \<open>tabindex\<close> attribute\<close>
  link_name :: "string option"            \<comment> \<open>attribute \<open>data-tab-link-name\<close>\<close>
  textContent :: string
  progress_animation :: "string option"   \<comment> \<open>\<open>None\<close>: no progress bar child;
                                              \<open>Some v\<close>: its \<open>style.animation\<close>\<close>

record tab_pane =
  aria_hidden :: bool                     \<comment> \<open>attribute \<open>aria-hidden\<close> is \<open>"true"\<close>\<close>

subsection \<open>The window: timers, listeners, animation frames\<close>

datatype timer_callback = AutoAdvance | ResizeSettle

datatype listener =
    DropdownToggleClick | DocumentClick | DocumentKeydown
  | ComponentMouseEnter | ComponentMouseLeave | AutoplayToggleClick
  | OverlayKeydown nat | OverlayClick nat
  | WindowResize | WindowHashChange

datatype raf_callback = RafOuter nat | RafInner nat

text \<open>What a handler reads from the browser when it runs.\<close>

record environment =
  now :: int                    \<comment> \<open>\<open>Date.now()\<close>\<close>
  location_hash :: string       \<comment> \<open>\<open>window.location.hash\<close>: empty, or \<open>#\<close> and the fragment\<close>
  innerWidth :: int             \<comment> \<open>\<open>window.innerWidth\<close>\<close>

subsection \<open>The state of one mounted component\<close>

record state =
  \<comment> \<open>DOM\<close>
  tabLinks :: "tab_link list"
  tabPanes :: "tab_pane list"
  menu_cc_open :: bool                       \<comment> \<open>\<open>dropdownMenu\<close> has class \<open>cc-open\<close>\<close>
  toggle_cc_open :: bool                     \<comment> \<open>\<open>dropdownToggle\<close> has class \<open>cc-open\<close>\<close>
  toggle_aria_expanded :: "string option"
  toggle_aria_haspopup :: "string option"
  dropdownText_content :: string
  component_autoplay_paused :: bool          \<comment> \<open>component has class \<open>autoplay-paused\<close>\<close>
  toggleButton_label :: "string option"      \<comment> \<open>\<open>aria-label\<close> of the autoplay toggle\<close>
  css_autoplay_duration :: "rat option"      \<comment> \<open>\<open>--autoplay-duration\<close>, in seconds\<close>
  \<comment> \<open>closure variables\<close>
  currentActiveIndex :: int
  dropdownToggle :: bool                     \<comment> \<open>the element exists\<close>
  dropdownText :: bool
  isMobileDropdown :: bool
  toggleButton :: bool                       \<comment> \<open>the autoplay toggle element exists\<close>
  autoplayEnabled :: bool
  autoplayDuration :: rat
  autoplayHoverPause :: bool
  autoplayTimer :: "nat option"
  autoplayObserver :: bool                   \<comment> \<open>the observer object exists (not \<open>null\<close>)\<close>
  isAutoplayPaused :: bool
  autoplayStartTime :: "int option"
  autoplayElapsedTime :: int
  \<comment> \<open>window\<close>
  pending :: "(nat \<times> timer_callback \<times> rat) list"  \<comment> \<open>this component's live timeouts:
                                                            handle, callback, delay in ms\<close>
  timer_counter :: nat                       \<comment> \<open>the last handle the window gave out\<close>
  registered :: "listener list"              \<comment> \<open>this component's registered listeners\<close>
  observing :: bool                          \<comment> \<open>the intersection observer observes the component\<close>
  \<comment> \<open>part_000 only\<close>
  cachedWindowWidth :: int
  resizeTimer :: "nat option"
  eventListeners :: "listener list"
  rafQueue :: "raf_callback list"

subsection \<open>Browser primitives\<close>

text \<open>\<open>setTimeout\<close> returns a fresh handle greater than zero; \<open>clearTimeout\<close> of
  \<open>null\<close> or of a handle that is not live does nothing.\<close>

definition setTimeout :: "timer_callback \<Rightarrow> rat \<Rightarrow> state \<Rightarrow> nat \<times> state" where
  "setTimeout cb delay s =
     (let h = Suc (timer_counter s)
      in (h, s\<lparr>pending := pending s @ [(h, cb, delay)], timer_counter := h\<rparr>))"

definition clearTimeout :: "nat option \<Rightarrow> state \<Rightarrow> state" where
  "clearTimeout h s =
     (case h of None \<Rightarrow> s
      | Some i \<Rightarrow> s\<lparr>pending := filter (\<lambda>t. fst t \<noteq> i) (pending s)\<rparr>)"

text \<open>\<open>if (autoplayTimer)\<close>: \<open>null\<close> and \<open>0\<close> are falsy.\<close>

definition truthy :: "nat option \<Rightarrow> bool" where
  "truthy h = (case h of None \<Rightarrow> False | Some i \<Rightarrow> i \<noteq> 0)"

text \<open>\<open>Array.prototype.findIndex\<close>: the first position that satisfies, or \<open>-1\<close>.\<close>

fun findIndex :: "('a \<Rightarrow> bool) \<Rightarrow> 'a list \<Rightarrow> int" where
  "findIndex P [] = -1"
| "findIndex P (x # xs) =
     (if P x then 0 else (let r = findIndex P xs in if r = -1 then -1 else r + 1))"

text \<open>The \<open>%\<close> of JavaScript on integers takes the sign of the dividend. (A zero divisor
  gives \<open>NaN\<close> there; the only divisor here is the number of links of a mounted
  component, which is positive.)\<close>

definition js_rem :: "int \<Rightarrow> int \<Rightarrow> int" where
  "js_rem a b = (if a < 0 then - ((- a) mod \<bar>b\<bar>) else a mod \<bar>b\<bar>)"

text \<open>\<open>a || b\<close> on an attribute value: \<open>null\<close> and the empty string are falsy.\<close>

definition or_else :: "string option \<Rightarrow> string \<Rightarrow> string" where
  "or_else a b = (case a of None \<Rightarrow> b | Some v \<Rightarrow> if v = [] then b else v)"

subsection \<open>Dropdown\<close>

definition openDropdown :: "state \<Rightarrow> state" where
  "openDropdown s =
     (if \<not> dropdownToggle s then s
      else s\<lparr>menu_cc_open := True, toggle_cc_open := True,
             toggle_aria_expanded := Some ''true''\<rparr>)"

definition closeDropdown :: "state \<Rightarrow> state" where
  "closeDropdown s =
     (if \<not> dropdownToggle s then s
      else s\<lparr>menu_cc_open := False, toggle_cc_open := False,
             toggle_aria_expanded := Some ''false''\<rparr>)"

definition toggleDropdown :: "state \<Rightarrow> state" where
  "toggleDropdown s = (if menu_cc_open s then closeDropdown s else openDropdown s)"

subsection \<open>Autoplay engine\<close>

definition stopAutoplay :: "state \<Rightarrow> state" where
  "stopAutoplay s =
     (let s1 = (if truthy (autoplayTimer s)
                then (clearTimeout (autoplayTimer s) s)\<lparr>autoplayTimer := None\<rparr>
                else s)
      in s1\<lparr>autoplayStartTime := None\<rparr>)"

definition startAutoplay :: "environment \<Rightarrow> state \<Rightarrow> state" where
  "startAutoplay env s =
     (if \<not> autoplayEnabled s \<or> isAutoplayPaused s then s
      else
        let s1 = stopAutoplay s;
            remainingTime = autoplayDuration s1 * 1000 - of_int (autoplayElapsedTime s1);
            s2 = s1\<lparr>autoplayStartTime := Some (now env)\<rparr>;
            (h, s3) = setTimeout AutoAdvance remainingTime s2
        in s3\<lparr>autoplayTimer := Some h\<rparr>)"

text \<open>"Remove and re-add animation to restart it". tabs.js: the animation is
  cleared, a reflow is forced, and the animation is restored, all within the call.
  \<open>tabLinks[currentActiveIndex]\<close> is defined at the only call site (\<open>setActiveTab\<close>, after
  its range check).\<close>

definition restartAnimation :: "state \<Rightarrow> state" where
  "restartAnimation s =
     (let i = nat (currentActiveIndex s);
          activeLink = tabLinks s ! i
      in case progress_animation activeLink of
           None \<Rightarrow> s
         | Some _ \<Rightarrow>
             s\<lparr>tabLinks := (tabLinks s)[i := activeLink\<lparr>progress_animation := Some []\<rparr>]\<rparr>)"

text \<open>part_000: the animation is cleared now and restored two animation frames later.\<close>

definition restartAnimation_opt :: "state \<Rightarrow> state" where
  "restartAnimation_opt s =
     (let i = nat (currentActiveIndex s);
          activeLink = tabLinks s ! i
      in case progress_animation activeLink of
           None \<Rightarrow> s
         | Some _ \<Rightarrow>
             s\<lparr>tabLinks := (tabLinks s)[i := activeLink\<lparr>progress_animation := Some ''none''\<rparr>],
               rafQueue := rafQueue s @ [RafOuter i]\<rparr>)"

definition restartAutoplay :: "environment \<Rightarrow> state \<Rightarrow> state" where
  "restartAutoplay env s =
     (if \<not> autoplayEnabled s then s
      else
        let s1 = s\<lparr>autoplayElapsedTime := 0\<rparr>;
            s2 = restartAnimation s1
        in startAutoplay env s2)"

definition restartAutoplay_opt :: "environment \<Rightarrow> state \<Rightarrow> state" where
  "restartAutoplay_opt env s =
     (if \<not> autoplayEnabled s then s
      else
        let s1 = s\<lparr>autoplayElapsedTime := 0\<rparr>;
            s2 = restartAnimation_opt s1
        in startAutoplay env s2)"

definition updateToggleButton :: "state \<Rightarrow> state" where
  "updateToggleButton s =
     (if \<not> toggleButton s then s
      else if isAutoplayPaused s then s\<lparr>toggleButton_label := Some ''Play autoplay''\<rparr>
      else s\<lparr>toggleButton_label := Some ''Pause autoplay''\<rparr>)"

definition pauseAutoplay :: "environment \<Rightarrow> state \<Rightarrow> state" where
  "pauseAutoplay env s =
     (if \<not> autoplayEnabled s then s
      else
        let s1 = (case autoplayStartTime s of
                    None \<Rightarrow> s
                  | Some t \<Rightarrow> s\<lparr>autoplayElapsedTime := autoplayElapsedTime s + (now env - t)\<rparr>);
            s2 = s1\<lparr>isAutoplayPaused := True, component_autoplay_paused := True\<rparr>;
            s3 = stopAutoplay s2
        in updateToggleButton s3)"

definition resumeAutoplay :: "environment \<Rightarrow> state \<Rightarrow> state" where
  "resumeAutoplay env s =
     (if \<not> autoplayEnabled s then s
      else
        let s1 = s\<lparr>isAutoplayPaused := False, component_autoplay_paused := False\<rparr>;
            s2 = startAutoplay env s1
        in updateToggleButton s2)"

subsection \<open>Activation engine\<close>

text \<open>tabs.js, "Update tab links and overlays": one \<open>forEach\<close> over the links.\<close>

definition updateTabLinks :: "int \<Rightarrow> tab_link list \<Rightarrow> tab_link list" where
  "updateTabLinks index links =
     map (\<lambda>(i, link).
            let isActive = (int i = index)
            in link\<lparr>aria_selected := isActive, cc_active := isActive,
                    overlay_tabindex :=
                      (case overlay_tabindex link of
                         None \<Rightarrow> None
                       | Some _ \<Rightarrow> Some (if isActive then ''0'' else ''-1''))\<rparr>)
         (enumerate 0 links)"

text \<open>tabs.js, "Update tab panes".\<close>

definition updateTabPanes :: "int \<Rightarrow> tab_pane list \<Rightarrow> tab_pane list" where
  "updateTabPanes index panes =
     map (\<lambda>(i, pane). pane\<lparr>aria_hidden := \<not> (int i = index)\<rparr>) (enumerate 0 panes)"

text \<open>part_000, "Phase 1: Read from DOM": the loop pushes onto two arrays. An entry of
  \<open>overlays\<close> is the overlay element of the link, or \<open>null\<close>.\<close>

definition phase1 :: "int \<Rightarrow> tab_link list \<Rightarrow> string option list \<times> bool list" where
  "phase1 index links =
     foldl (\<lambda>(overlays, isActiveStates) i.
              (overlays @ [overlay_tabindex (links ! i)], isActiveStates @ [int i = index]))
           ([], []) [0..<length links]"

text \<open>part_000, "Phase 2: Write to DOM": the loop writes link \<open>i\<close> from the arrays.\<close>

definition phase2 :: "string option list \<Rightarrow> bool list \<Rightarrow> tab_link list \<Rightarrow> tab_link list" where
  "phase2 overlays isActiveStates links =
     foldl (\<lambda>ls i.
              let link = ls ! i; isActive = isActiveStates ! i
              in ls[i := link\<lparr>aria_selected := isActive, cc_active := isActive,
                              overlay_tabindex :=
                                (if overlays ! i \<noteq> None
                                 then Some (if isActive then ''0'' else ''-1'')
                                 else overlay_tabindex link)\<rparr>])
           links [0..<length links]"

definition updateTabLinks_opt :: "int \<Rightarrow> tab_link list \<Rightarrow> tab_link list" where
  "updateTabLinks_opt index links =
     (let (overlays, isActiveStates) = phase1 index links
      in phase2 overlays isActiveStates links)"

definition updateTabPanes_opt :: "int \<Rightarrow> tab_pane list \<Rightarrow> tab_pane list" where
  "updateTabPanes_opt index panes =
     foldl (\<lambda>ps i. ps[i := (ps ! i)\<lparr>aria_hidden := (int i \<noteq> index)\<rparr>])
           panes [0..<length panes]"

text \<open>"Update dropdown toggle text if it exists" and "Close dropdown if open".\<close>

definition updateDropdownText :: "int \<Rightarrow> state \<Rightarrow> state" where
  "updateDropdownText index s =
     (if dropdownText s \<and> isMobileDropdown s
      then let link = tabLinks s ! nat index
           in s\<lparr>dropdownText_content := or_else (link_name link) (textContent link)\<rparr>
      else s)"

definition closeDropdownIfOpen :: "state \<Rightarrow> state" where
  "closeDropdownIfOpen s =
     (if dropdownToggle s \<and> menu_cc_open s then closeDropdown s else s)"

definition setActiveTab :: "environment \<Rightarrow> int \<Rightarrow> state \<Rightarrow> state" where
  "setActiveTab env index s =
     (if index < 0 \<or> index \<ge> int (length (tabLinks s)) then s
      else
        let s1 = s\<lparr>tabLinks := updateTabLinks index (tabLinks s)\<rparr>;
            s2 = s1\<lparr>tabPanes := updateTabPanes index (tabPanes s1)\<rparr>;
            s3 = s2\<lparr>currentActiveIndex := index\<rparr>;
            s4 = updateDropdownText index s3;
            s5 = closeDropdownIfOpen s4
        in if autoplayEnabled s5
           then (if isAutoplayPaused s5 then s5\<lparr>autoplayElapsedTime := 0\<rparr>
                 else restartAutoplay env s5)
           else s5)"

definition setActiveTab_opt :: "environment \<Rightarrow> int \<Rightarrow> state \<Rightarrow> state" where
  "setActiveTab_opt env index s =
     (if index < 0 \<or> index \<ge> int (length (tabLinks s)) then s
      else
        let s1 = s\<lparr>tabLinks := updateTabLinks_opt index (tabLinks s)\<rparr>;
            s2 = s1\<lparr>tabPanes := updateTabPanes_opt index (tabPanes s1)\<rparr>;
            s3 = s2\<lparr>currentActiveIndex := index\<rparr>;
            s4 = updateDropdownText index s3;
            s5 = closeDropdownIfOpen s4
        in if autoplayEnabled s5
           then (if isAutoplayPaused s5 then s5\<lparr>autoplayElapsedTime := 0\<rparr>
                 else restartAutoplay_opt env s5)
           else s5)"

subsection \<open>Handlers\<close>

text \<open>The callback of the autoplay timer.\<close>

definition autoAdvance :: "environment \<Rightarrow> state \<Rightarrow> state" where
  "autoAdvance env s =
     setActiveTab env (js_rem (currentActiveIndex s + 1) (int (length (tabLinks s)))) s"

definition autoAdvance_opt :: "environment \<Rightarrow> state \<Rightarrow> state" where
  "autoAdvance_opt env s =
     setActiveTab_opt env (js_rem (currentActiveIndex s + 1) (int (length (tabLinks s)))) s"

text \<open>The callback of the intersection observer: one call with a list of entries, each
  with its \<open>isIntersecting\<close>.\<close>

definition observerCallback :: "environment \<Rightarrow> bool list \<Rightarrow> state \<Rightarrow> state" where
  "observerCallback env entries s =
     foldl (\<lambda>s isIntersecting.
              if isIntersecting then resumeAutoplay env s else pauseAutoplay env s)
           s entries"

definition toggleHandler :: "environment \<Rightarrow> state \<Rightarrow> state" where
  "toggleHandler env s =
     (if isAutoplayPaused s then resumeAutoplay env s else pauseAutoplay env s)"

text \<open>The new index of the keydown handler; \<open>None\<close> is the \<open>default: return\<close>.\<close>

definition keyIndex :: "string \<Rightarrow> state \<Rightarrow> int option" where
  "keyIndex key s =
     (let n = int (length (tabLinks s)); cur = currentActiveIndex s
      in if key = ''ArrowLeft'' then Some (if cur > 0 then cur - 1 else n - 1)
         else if key = ''ArrowRight'' then Some (if cur < n - 1 then cur + 1 else 0)
         else if key = ''Home'' then Some 0
         else if key = ''End'' then Some (n - 1)
         else None)"

definition keydownHandler :: "environment \<Rightarrow> string \<Rightarrow> state \<Rightarrow> state" where
  "keydownHandler env key s =
     (case keyIndex key s of None \<Rightarrow> s | Some newIndex \<Rightarrow> setActiveTab env newIndex s)"

definition keydownHandler_opt :: "environment \<Rightarrow> string \<Rightarrow> state \<Rightarrow> state" where
  "keydownHandler_opt env key s =
     (case keyIndex key s of None \<Rightarrow> s | Some newIndex \<Rightarrow> setActiveTab_opt env newIndex s)"

definition clickHandler :: "environment \<Rightarrow> nat \<Rightarrow> state \<Rightarrow> state" where
  "clickHandler env index s = setActiveTab env (int index) s"

definition clickHandler_opt :: "environment \<Rightarrow> nat \<Rightarrow> state \<Rightarrow> state" where
  "clickHandler_opt env index s = setActiveTab_opt env (int index) s"

definition hashChangeHandler :: "environment \<Rightarrow> state \<Rightarrow> state" where
  "hashChangeHandler env s =
     (if location_hash env \<noteq> []
      then let hash = drop 1 (location_hash env);
               matchIndex = findIndex (\<lambda>link. link_id link = hash) (tabLinks s)
           in if matchIndex \<noteq> -1 then setActiveTab env matchIndex s else s
      else s)"

definition hashChangeHandler_opt :: "environment \<Rightarrow> state \<Rightarrow> state" where
  "hashChangeHandler_opt env s =
     (if location_hash env \<noteq> []
      then let hash = drop 1 (location_hash env);
               matchIndex = findIndex (\<lambda>link. link_id link = hash) (tabLinks s)
           in if matchIndex \<noteq> -1 then setActiveTab_opt env matchIndex s else s
      else s)"

text \<open>The document click handler; \<open>inside\<close> is \<open>component.contains(e.target)\<close>.\<close>

definition outsideClickHandler :: "bool \<Rightarrow> state \<Rightarrow> state" where
  "outsideClickHandler inside s = (if \<not> inside then closeDropdown s else s)"

definition escapeHandler :: "string \<Rightarrow> state \<Rightarrow> state" where
  "escapeHandler key s =
     (if key = ''Escape'' \<and> menu_cc_open s then closeDropdown s else s)"

text \<open>part_000 only: the debounced resize handler and its timer callback.\<close>

definition resizeHandler :: "state \<Rightarrow> state" where
  "resizeHandler s =
     (let s1 = clearTimeout (resizeTimer s) s;
          (h, s2) = setTimeout ResizeSettle 150 s1
      in s2\<lparr>resizeTimer := Some h\<rparr>)"

definition resizeSettle :: "environment \<Rightarrow> state \<Rightarrow> state" where
  "resizeSettle env s = s\<lparr>cachedWindowWidth := innerWidth env\<rparr>"

text \<open>part_000 only: the two nested \<open>requestAnimationFrame\<close> callbacks of
  \<open>restartAutoplay\<close>, for the progress bar of link \<open>i\<close>.\<close>

fun runRaf :: "raf_callback \<Rightarrow> state \<Rightarrow> state" where
  "runRaf (RafOuter i) s = s\<lparr>rafQueue := rafQueue s @ [RafInner i]\<rparr>"
| "runRaf (RafInner i) s =
     s\<lparr>tabLinks := (tabLinks s)[i := (tabLinks s ! i)\<lparr>progress_animation := Some []\<rparr>]\<rparr>"

subsection \<open>Registering listeners\<close>

text \<open>A listener is registered once; removing one that is not registered does nothing.
  \<open>pushListener\<close> is \<open>eventListeners.push(...)\<close> of part_000.\<close>

definition addEventListener :: "listener \<Rightarrow> state \<Rightarrow> state" where
  "addEventListener l s =
     (if l \<in> set (registered s) then s else s\<lparr>registered := registered s @ [l]\<rparr>)"

definition removeEventListener :: "listener \<Rightarrow> state \<Rightarrow> state" where
  "removeEventListener l s = s\<lparr>registered := removeAll l (registered s)\<rparr>"

definition pushListener :: "listener \<Rightarrow> state \<Rightarrow> state" where
  "pushListener l s = s\<lparr>eventListeners := eventListeners s @ [l]\<rparr>"

subsection \<open>Setup\<close>

text \<open>The link whose name the dropdown shows at first: the first link selected in the
  markup, else the first with the active class, else \<open>tabLinks[0]\<close>.\<close>

definition initialActiveLink :: "tab_link list \<Rightarrow> tab_link option" where
  "initialActiveLink links =
     (case find aria_selected links of
        Some l \<Rightarrow> Some l
      | None \<Rightarrow>
          (case find cc_active links of
             Some l \<Rightarrow> Some l
           | None \<Rightarrow> (case links of [] \<Rightarrow> None | l # _ \<Rightarrow> Some l)))"

definition setupDropdownLabel :: "state \<Rightarrow> state" where
  "setupDropdownLabel s =
     (let s1 = s\<lparr>toggle_aria_haspopup := Some ''true'', toggle_aria_expanded := Some ''false''\<rparr>
      in case initialActiveLink (tabLinks s1) of
           None \<Rightarrow> s1
         | Some activeLink \<Rightarrow>
             if dropdownText s1
             then s1\<lparr>dropdownText_content :=
                       or_else (link_name activeLink) (textContent activeLink)\<rparr>
             else s1)"

definition setupMobileDropdown :: "state \<Rightarrow> state" where
  "setupMobileDropdown s =
     (if \<not> isMobileDropdown s \<or> \<not> dropdownToggle s then s
      else
        let s1 = setupDropdownLabel s;
            s2 = addEventListener DropdownToggleClick s1;
            s3 = addEventListener DocumentClick s2
        in addEventListener DocumentKeydown s3)"

definition setupMobileDropdown_opt :: "state \<Rightarrow> state" where
  "setupMobileDropdown_opt s =
     (if \<not> isMobileDropdown s \<or> \<not> dropdownToggle s then s
      else
        let s1 = setupDropdownLabel s;
            s2 = pushListener DropdownToggleClick (addEventListener DropdownToggleClick s1);
            s3 = pushListener DocumentClick (addEventListener DocumentClick s2)
        in pushListener DocumentKeydown (addEventListener DocumentKeydown s3))"

definition setupAutoplayProgressBars :: "state \<Rightarrow> state" where
  "setupAutoplayProgressBars s =
     (if \<not> autoplayEnabled s then s
      else s\<lparr>css_autoplay_duration := Some (autoplayDuration s)\<rparr>)"

definition setupAutoplayObserver :: "state \<Rightarrow> state" where
  "setupAutoplayObserver s =
     (if \<not> autoplayEnabled s then s
      else s\<lparr>autoplayObserver := True, observing := True\<rparr>)"

definition setupAutoplayHoverPause :: "state \<Rightarrow> state" where
  "setupAutoplayHoverPause s =
     (if \<not> autoplayEnabled s \<or> \<not> autoplayHoverPause s then s
      else addEventListener ComponentMouseLeave (addEventListener ComponentMouseEnter s))"

definition setupAutoplayHoverPause_opt :: "state \<Rightarrow> state" where
  "setupAutoplayHoverPause_opt s =
     (if \<not> autoplayEnabled s \<or> \<not> autoplayHoverPause s then s
      else
        let s1 = addEventListener ComponentMouseEnter s;
            s2 = addEventListener ComponentMouseLeave s1;
            s3 = pushListener ComponentMouseEnter s2
        in pushListener ComponentMouseLeave s3)"

definition setupAutoplayToggle :: "state \<Rightarrow> state" where
  "setupAutoplayToggle s =
     (if \<not> autoplayEnabled s then s
      else if \<not> toggleButton s then s
      else addEventListener AutoplayToggleClick s)"

definition setupAutoplayToggle_opt :: "state \<Rightarrow> state" where
  "setupAutoplayToggle_opt s =
     (if \<not> autoplayEnabled s \<or> \<not> toggleButton s then s
      else pushListener AutoplayToggleClick (addEventListener AutoplayToggleClick s))"

text \<open>The hash branch returns early on a match; \<open>None\<close> is falling through it.\<close>

definition findInitialActiveIndex :: "environment \<Rightarrow> tab_link list \<Rightarrow> int" where
  "findInitialActiveIndex env links =
     (let hashMatch =
            (if location_hash env \<noteq> []
             then let hash = drop 1 (location_hash env);
                      matchIndex = findIndex (\<lambda>link. link_id link = hash) links
                  in if matchIndex \<noteq> -1 then Some matchIndex else None
             else None)
      in case hashMatch of
           Some matchIndex \<Rightarrow> matchIndex
         | None \<Rightarrow>
             let customActiveIndex = findIndex cc_active links
             in if customActiveIndex \<noteq> -1 then customActiveIndex else 0)"

definition setupKeyboardNav :: "state \<Rightarrow> state" where
  "setupKeyboardNav s =
     foldl (\<lambda>s (i, link).
              if overlay_tabindex link = None then s
              else addEventListener (OverlayKeydown i) s)
           s (enumerate 0 (tabLinks s))"

definition setupKeyboardNav_opt :: "state \<Rightarrow> state" where
  "setupKeyboardNav_opt s =
     foldl (\<lambda>s (i, link).
              if overlay_tabindex link = None then s
              else pushListener (OverlayKeydown i) (addEventListener (OverlayKeydown i) s))
           s (enumerate 0 (tabLinks s))"

definition setupClickHandlers :: "state \<Rightarrow> state" where
  "setupClickHandlers s =
     foldl (\<lambda>s (i, link).
              if overlay_tabindex link = None then s
              else addEventListener (OverlayClick i) s)
           s (enumerate 0 (tabLinks s))"

definition setupClickHandlers_opt :: "state \<Rightarrow> state" where
  "setupClickHandlers_opt s =
     foldl (\<lambda>s (i, link).
              if overlay_tabindex link = None then s
              else pushListener (OverlayClick i) (addEventListener (OverlayClick i) s))
           s (enumerate 0 (tabLinks s))"

definition setupResizeHandler :: "state \<Rightarrow> state" where
  "setupResizeHandler s = pushListener WindowResize (addEventListener WindowResize s)"

subsection \<open>init, mount and cleanup\<close>

definition init :: "environment \<Rightarrow> state \<Rightarrow> state" where
  "init env s =
     (let s1 = setupMobileDropdown s;
          s2 = setupAutoplayProgressBars s1;
          s3 = setupAutoplayObserver s2;
          s4 = setupAutoplayHoverPause s3;
          s5 = setupAutoplayToggle s4;
          initialIndex = findInitialActiveIndex env (tabLinks s5);
          s6 = setActiveTab env initialIndex s5;
          s7 = setupClickHandlers s6;
          s8 = setupKeyboardNav s7;
          s9 = (if autoplayEnabled s8 then startAutoplay env s8 else s8)
      in addEventListener WindowHashChange s9)"

definition init_opt :: "environment \<Rightarrow> state \<Rightarrow> state" where
  "init_opt env s =
     (let s1 = setupMobileDropdown_opt s;
          s2 = setupAutoplayProgressBars s1;
          s3 = setupAutoplayObserver s2;
          s4 = setupAutoplayHoverPause_opt s3;
          s5 = setupAutoplayToggle_opt s4;
          initialIndex = findInitialActiveIndex env (tabLinks s5);
          s6 = setActiveTab_opt env initialIndex s5;
          s7 = setupClickHandlers_opt s6;
          s8 = setupKeyboardNav_opt s7;
          s9 = setupResizeHandler s8;
          s10 = (if autoplayEnabled s9 then startAutoplay env s9 else s9)
      in pushListener WindowHashChange (addEventListener WindowHashChange s10))"

text \<open>What \<open>initTabsComponent\<close> finds under the component: which elements exist, and the
  configuration attributes of the menu. \<open>attr_autoplay_duration\<close> is the result of
  \<open>parseFloat\<close>, with \<open>None\<close> for \<open>NaN\<close>.\<close>

record attrs =
  has_tabMenu :: bool
  has_dropdownMenu :: bool
  has_tabMenuWrapper :: bool
  has_dropdownToggle :: bool
  has_dropdownText :: bool
  has_toggleButton :: bool
  attr_mobile_dropdown :: "string option"
  attr_autoplay :: "string option"
  attr_autoplay_duration :: "rat option"
  attr_hover_pause :: "string option"

text \<open>The declarations at the head of \<open>initTabsComponent\<close>. The DOM fields and the
  window's timer counter are those of the page, \<open>s0\<close>. The result is \<open>None\<close> when the
  function returns before mounting.\<close>

definition declare_state :: "attrs \<Rightarrow> state \<Rightarrow> state" where
  "declare_state a s0 =
     s0\<lparr>currentActiveIndex := 0,
        dropdownToggle := has_dropdownToggle a,
        dropdownText := (has_dropdownToggle a \<and> has_dropdownText a),
        isMobileDropdown := (attr_mobile_dropdown a = Some ''true''),
        toggleButton := has_toggleButton a,
        autoplayEnabled := (attr_autoplay a = Some ''true''),
        autoplayDuration :=
          (case attr_autoplay_duration a of None \<Rightarrow> 5 | Some d \<Rightarrow> if d = 0 then 5 else d),
        autoplayHoverPause := (attr_hover_pause a = Some ''true''),
        autoplayTimer := None,
        autoplayObserver := False,
        isAutoplayPaused := False,
        autoplayStartTime := None,
        autoplayElapsedTime := 0,
        pending := [], registered := [], observing := False\<rparr>"

definition mountable :: "attrs \<Rightarrow> state \<Rightarrow> bool" where
  "mountable a s0 =
     (has_tabMenu a \<and> has_dropdownMenu a \<and> has_tabMenuWrapper a
      \<and> tabLinks s0 \<noteq> [] \<and> tabPanes s0 \<noteq> [])"

definition initTabsComponent :: "environment \<Rightarrow> attrs \<Rightarrow> state \<Rightarrow> state option" where
  "initTabsComponent env a s0 =
     (if \<not> mountable a s0 then None else Some (init env (declare_state a s0)))"

definition initTabsComponent_opt :: "environment \<Rightarrow> attrs \<Rightarrow> state \<Rightarrow> state option" where
  "initTabsComponent_opt env a s0 =
     (if \<not> mountable a s0 then None
      else Some (init_opt env
             ((declare_state a s0)\<lparr>cachedWindowWidth := innerWidth env, resizeTimer := None,
                                    eventListeners := [], rafQueue := []\<rparr>)))"

text \<open>part_000 only.\<close>

definition cleanup :: "state \<Rightarrow> state" where
  "cleanup s =
     (let s1 = foldl (\<lambda>s l. removeEventListener l s) s (eventListeners s);
          s2 = (if autoplayObserver s1 then s1\<lparr>observing := False\<rparr> else s1);
          s3 = stopAutoplay s2
      in clearTimeout (resizeTimer s3) s3)"

subsection \<open>Events\<close>

text \<open>The element an event is dispatched at: the overlay of link \<open>i\<close>, the dropdown
  toggle, the autoplay toggle, another element inside the component, or one outside.
  \<open>TimerFire cb k\<close>: the \<open>k\<close>-th live timer with callback \<open>cb\<close> expires. \<open>Intersect\<close>: the
  observer delivers its entries. A click and a keydown bubble from the element to the
  document, unless a handler stops them.\<close>

datatype target = OverlayEl nat | DropdownToggleEl | AutoplayToggleEl | InsideEl | OutsideEl

datatype event =
    Click target | KeyDown target string | MouseEnter | MouseLeave
  | Intersect "bool list" | TimerFire timer_callback nat
  | HashChange | Resize | AnimationFrame

definition on :: "listener \<Rightarrow> (state \<Rightarrow> state) \<Rightarrow> state \<Rightarrow> state" where
  "on l h s = (if l \<in> set (registered s) then h s else s)"

definition fire :: "timer_callback \<Rightarrow> nat \<Rightarrow> (state \<Rightarrow> state) \<Rightarrow> state \<Rightarrow> state" where
  "fire cb k run s =
     (let ts = filter (\<lambda>t. fst (snd t) = cb) (pending s)
      in if k < length ts
         then run (s\<lparr>pending := filter (\<lambda>t. fst t \<noteq> fst (ts ! k)) (pending s)\<rparr>)
         else s)"

text \<open>An animation frame runs the callbacks requested before it; what they request
  runs in the next frame.\<close>

definition animationFrame :: "state \<Rightarrow> state" where
  "animationFrame s = foldl (\<lambda>s cb. runRaf cb s) (s\<lparr>rafQueue := []\<rparr>) (rafQueue s)"

text \<open>tabs.js sets no resize timer, listens to no resize and requests no animation
  frame: these events reach none of its code.\<close>

fun handle :: "environment \<Rightarrow> event \<Rightarrow> state \<Rightarrow> state" where
  "handle env (Click (OverlayEl i)) s =
     on DocumentClick (outsideClickHandler True) (on (OverlayClick i) (clickHandler env i) s)"
| "handle env (Click DropdownToggleEl) s =
     (if DropdownToggleClick \<in> set (registered s) then toggleDropdown s
      else on DocumentClick (outsideClickHandler True) s)"
| "handle env (Click AutoplayToggleEl) s =
     on DocumentClick (outsideClickHandler True) (on AutoplayToggleClick (toggleHandler env) s)"
| "handle env (Click InsideEl) s = on DocumentClick (outsideClickHandler True) s"
| "handle env (Click OutsideEl) s = on DocumentClick (outsideClickHandler False) s"
| "handle env (KeyDown (OverlayEl i) key) s =
     on DocumentKeydown (escapeHandler key) (on (OverlayKeydown i) (keydownHandler env key) s)"
| "handle env (KeyDown _ key) s = on DocumentKeydown (escapeHandler key) s"
| "handle env MouseEnter s = on ComponentMouseEnter (pauseAutoplay env) s"
| "handle env MouseLeave s = on ComponentMouseLeave (resumeAutoplay env) s"
| "handle env (Intersect entries) s =
     (if observing s then observerCallback env entries s else s)"
| "handle env (TimerFire AutoAdvance k) s = fire AutoAdvance k (autoAdvance env) s"
| "handle env (TimerFire ResizeSettle k) s = s"
| "handle env HashChange s = on WindowHashChange (hashChangeHandler env) s"
| "handle env Resize s = s"
| "handle env AnimationFrame s = s"

fun handle_opt :: "environment \<Rightarrow> event \<Rightarrow> state \<Rightarrow> state" where
  "handle_opt env (Click (OverlayEl i)) s =
     on DocumentClick (outsideClickHandler True) (on (OverlayClick i) (clickHandler_opt env i) s)"
| "handle_opt env (Click DropdownToggleEl) s =
     (if DropdownToggleClick \<in> set (registered s) then toggleDropdown s
      else on DocumentClick (outsideClickHandler True) s)"
| "handle_opt env (Click AutoplayToggleEl) s =
     on DocumentClick (outsideClickHandler True) (on AutoplayToggleClick (toggleHandler env) s)"
| "handle_opt env (Click InsideEl) s = on DocumentClick (outsideClickHandler True) s"
| "handle_opt env (Click OutsideEl) s = on DocumentClick (outsideClickHandler False) s"
| "handle_opt env (KeyDown (OverlayEl i) key) s =
     on DocumentKeydown (escapeHandler key)
       (on (OverlayKeydown i) (keydownHandler_opt env key) s)"
| "handle_opt env (KeyDown _ key) s = on DocumentKeydown (escapeHandler key) s"
| "handle_opt env MouseEnter s = on ComponentMouseEnter (pauseAutoplay env) s"
| "handle_opt env MouseLeave s = on ComponentMouseLeave (resumeAutoplay env) s"
| "handle_opt env (Intersect entries) s =
     (if observing s then observerCallback env entries s else s)"
| "handle_opt env (TimerFire AutoAdvance k) s = fire AutoAdvance k (autoAdvance_opt env) s"
| "handle_opt env (TimerFire ResizeSettle k) s = fire ResizeSettle k (resizeSettle env) s"
| "handle_opt env HashChange s = on WindowHashChange (hashChangeHandler_opt env) s"
| "handle_opt env Resize s = on WindowResize resizeHandler s"
| "handle_opt env AnimationFrame s = animationFrame s"

text \<open>A run: the events in order, each with what the browser shows when it is handled.\<close>

fun run :: "(environment \<times> event) list \<Rightarrow> state \<Rightarrow> state" where
  "run [] s = s"
| "run ((env, ev) # evs) s = run evs (handle env ev s)"

fun run_opt :: "(environment \<times> event) list \<Rightarrow> state \<Rightarrow> state" where
  "run_opt [] s = s"
| "run_opt ((env, ev) # evs) s = run_opt evs (handle_opt env ev s)"

text \<open>The states a mounted component can be in: tabs.js after any events; part_000
  after any events and calls of \<open>cleanup\<close>.\<close>

inductive reachable :: "state \<Rightarrow> bool" where
  mounted: "initTabsComponent env a s0 = Some s \<Longrightarrow> reachable s"
| event: "reachable s \<Longrightarrow> reachable (handle env ev s)"

inductive reachable_opt :: "state \<Rightarrow> bool" where
  mounted_opt: "initTabsComponent_opt env a s0 = Some s \<Longrightarrow> reachable_opt s"
| event_opt: "reachable_opt s \<Longrightarrow> reachable_opt (handle_opt env ev s)"
| cleaned: "reachable_opt s \<Longrightarrow> reachable_opt (cleanup s)"

subsection \<open>What the properties speak of\<close>

text \<open>The positions of a list whose element satisfies \<open>P\<close>, in order.\<close>

definition positions :: "('a \<Rightarrow> bool) \<Rightarrow> 'a list \<Rightarrow> nat list" where
  "positions P xs = filter (\<lambda>j. P (xs ! j)) [0..<length xs]"

definition selected_links :: "state \<Rightarrow> nat list" where
  "selected_links s = positions aria_selected (tabLinks s)"

definition active_links :: "state \<Rightarrow> nat list" where
  "active_links s = positions cc_active (tabLinks s)"

definition shown_panes :: "state \<Rightarrow> nat list" where
  "shown_panes s = positions (\<lambda>pane. \<not> aria_hidden pane) (tabPanes s)"

text \<open>\<open>i\<close> is the first position of \<open>xs\<close> that satisfies \<open>P\<close>.\<close>

definition first_index :: "('a \<Rightarrow> bool) \<Rightarrow> 'a list \<Rightarrow> nat \<Rightarrow> bool" where
  "first_index P xs i = (i < length xs \<and> P (xs ! i) \<and> \<not> list_ex P (take i xs))"

text \<open>The live timers of one callback, and the delay of each.\<close>

definition timers_of :: "timer_callback \<Rightarrow> state \<Rightarrow> (nat \<times> timer_callback \<times> rat) list" where
  "timers_of cb s = filter (\<lambda>t. fst (snd t) = cb) (pending s)"

definition auto_delays :: "state \<Rightarrow> rat list" where
  "auto_delays s = map (\<lambda>t. snd (snd t)) (timers_of AutoAdvance s)"

definition durationMs :: "state \<Rightarrow> rat" where
  "durationMs s = autoplayDuration s * 1000"

text \<open>The abstract state of the specification: active index, paused flag, elapsed time.\<close>

definition view :: "state \<Rightarrow> int \<times> bool \<times> int" where
  "view s = (currentActiveIndex s, isAutoplayPaused s, autoplayElapsedTime s)"

text \<open>The bookkeeping of timers that every reachable state keeps: live handles are
  positive, distinct and not beyond the counter; a live autoplay timer is the one in
  \<open>autoplayTimer\<close>, a live resize timer the one in \<open>resizeTimer\<close>; \<open>autoplayTimer\<close> is never
  0; while paused \<open>autoplayTimer\<close> is \<open>null\<close> and no autoplay timer is live.\<close>

definition timers_ok :: "state \<Rightarrow> bool" where
  "timers_ok s =
     ((\<forall>t \<in> set (pending s).
         0 < fst t \<and> fst t \<le> timer_counter s
         \<and> (fst (snd t) = AutoAdvance \<longrightarrow> autoplayTimer s = Some (fst t))
         \<and> (fst (snd t) = ResizeSettle \<longrightarrow> resizeTimer s = Some (fst t)))
      \<and> distinct (map fst (pending s))
      \<and> autoplayTimer s \<noteq> Some 0
      \<and> (isAutoplayPaused s \<longrightarrow> autoplayTimer s = None \<and> timers_of AutoAdvance s = []))"

text \<open>A mounted component has a link, and its active index is a position of a link.\<close>

definition index_ok :: "state \<Rightarrow> bool" where
  "index_ok s = (0 \<le> currentActiveIndex s \<and> currentActiveIndex s < int (length (tabLinks s)))"

text \<open>part_000 records every listener it registers, and holds the observer that
  observes.\<close>

definition listeners_recorded :: "state \<Rightarrow> bool" where
  "listeners_recorded s =
     (set (registered s) \<subseteq> set (eventListeners s) \<and> (observing s \<longrightarrow> autoplayObserver s))"

text \<open>The events of timers, listeners and the observer: all but the animation frame,
  which runs callbacks that \<open>cleanup\<close> has no handle on.\<close>

fun ui_event :: "event \<Rightarrow> bool" where
  "ui_event AnimationFrame = False"
| "ui_event _ = True"

subsection \<open>The pause sources of the specification\<close>

text \<open>The specification names three sources of pause and says the paused flag is
  their disjunction. The code keeps no such flags; these definitions follow the
  specification's words, to compare them with \<open>isAutoplayPaused\<close>. A source is read off
  the events: out of viewport after an observer entry that does not intersect, hovered
  between pointer enter and pointer leave (a source only with hover pause configured),
  manually off after a click on the autoplay toggle that paused.\<close>

record pause_sources =
  out_of_viewport :: bool
  hovered :: bool
  manually_off :: bool

definition no_sources :: pause_sources where
  "no_sources = \<lparr>out_of_viewport = False, hovered = False, manually_off = False\<rparr>"

fun track :: "state \<Rightarrow> event \<Rightarrow> pause_sources \<Rightarrow> pause_sources" where
  "track s (Intersect entries) p =
     (if entries = [] then p else p\<lparr>out_of_viewport := \<not> last entries\<rparr>)"
| "track s MouseEnter p = p\<lparr>hovered := True\<rparr>"
| "track s MouseLeave p = p\<lparr>hovered := False\<rparr>"
| "track s (Click AutoplayToggleEl) p =
     (if AutoplayToggleClick \<in> set (registered s)
      then p\<lparr>manually_off := \<not> isAutoplayPaused s\<rparr> else p)"
| "track s _ p = p"

definition sources_paused :: "state \<Rightarrow> pause_sources \<Rightarrow> bool" where
  "sources_paused s p =
     (out_of_viewport p \<or> (hovered p \<and> autoplayHoverPause s) \<or> manually_off p)"

fun run_tracked ::
  "(environment \<times> event) list \<Rightarrow> state \<times> pause_sources \<Rightarrow> state \<times> pause_sources" where
  "run_tracked [] sp = sp"
| "run_tracked ((env, ev) # evs) (s, p) = run_tracked evs (handle env ev s, track s ev p)"

fun run_tracked_opt ::
  "(environment \<times> event) list \<Rightarrow> state \<times> pause_sources \<Rightarrow> state \<times> pause_sources" where
  "run_tracked_opt [] sp = sp"
| "run_tracked_opt ((env, ev) # evs) (s, p) =
     run_tracked_opt evs (handle_opt env ev s, track s ev p)"

text \<open>What the code does instead: the flag is what the last call of \<open>pauseAutoplay\<close> or
  \<open>resumeAutoplay\<close> wrote, whichever source made it. \<open>last_write env ev s\<close> is the value an
  event writes in state \<open>s\<close>, or \<open>None\<close> when it writes none.\<close>

fun last_write :: "event \<Rightarrow> state \<Rightarrow> bool option" where
  "last_write (Intersect entries) s =
     (if observing s \<and> entries \<noteq> [] then Some (\<not> last entries) else None)"
| "last_write MouseEnter s =
     (if ComponentMouseEnter \<in> set (registered s) then Some True else None)"
| "last_write MouseLeave s =
     (if ComponentMouseLeave \<in> set (registered s) then Some False else None)"
| "last_write (Click AutoplayToggleEl) s =
     (if AutoplayToggleClick \<in> set (registered s) then Some (\<not> isAutoplayPaused s) else None)"
| "last_write _ s = None"

subsection \<open>A page to run the code on\<close>

definition demo_link :: "string \<Rightarrow> tab_link" where
  "demo_link n =
     \<lparr>link_id = n, aria_selected = False, cc_active = False, overlay_tabindex = Some [],
      link_name = None, textContent = n, progress_animation = Some []\<rparr>"

definition demo_page :: "tab_link list \<Rightarrow> tab_pane list \<Rightarrow> state" where
  "demo_page links panes =
     \<lparr>tabLinks = links, tabPanes = panes,
      menu_cc_open = False, toggle_cc_open = False, toggle_aria_expanded = None,
      toggle_aria_haspopup = None, dropdownText_content = [],
      component_autoplay_paused = False, toggleButton_label = None,
      css_autoplay_duration = None,
      currentActiveIndex = 0, dropdownToggle = False, dropdownText = False,
      isMobileDropdown = False, toggleButton = False, autoplayEnabled = False,
      autoplayDuration = 0, autoplayHoverPause = False, autoplayTimer = None,
      autoplayObserver = False, isAutoplayPaused = False, autoplayStartTime = None,
      autoplayElapsedTime = 0,
      pending = [], timer_counter = 0, registered = [], observing = False,
      cachedWindowWidth = 0, resizeTimer = None, eventListeners = [], rafQueue = []\<rparr>"

text \<open>Three tabs with a pane each; two tabs with one pane between them.\<close>

definition three_tabs :: state where
  "three_tabs =
     demo_page [demo_link ''a'', demo_link ''b'', demo_link ''c'']
               [\<lparr>aria_hidden = True\<rparr>, \<lparr>aria_hidden = True\<rparr>, \<lparr>aria_hidden = True\<rparr>]"

definition two_tabs_one_pane :: state where
  "two_tabs_one_pane =
     demo_page [demo_link ''a'', demo_link ''b''] [\<lparr>aria_hidden = True\<rparr>]"

text \<open>Autoplay of five seconds with hover pause and a toggle button; no autoplay.\<close>

definition autoplay_attrs :: attrs where
  "autoplay_attrs =
     \<lparr>has_tabMenu = True, has_dropdownMenu = True, has_tabMenuWrapper = True,
      has_dropdownToggle = True, has_dropdownText = True, has_toggleButton = True,
      attr_mobile_dropdown = None, attr_autoplay = Some ''true'',
      attr_autoplay_duration = Some 5, attr_hover_pause = Some ''true''\<rparr>"

definition plain_attrs :: attrs where
  "plain_attrs =
     \<lparr>has_tabMenu = True, has_dropdownMenu = True, has_tabMenuWrapper = True,
      has_dropdownToggle = False, has_dropdownText = False, has_toggleButton = False,
      attr_mobile_dropdown = None, attr_autoplay = None,
      attr_autoplay_duration = None, attr_hover_pause = None\<rparr>"

definition at_time :: "int \<Rightarrow> environment" where
  "at_time t = \<lparr>now = t, location_hash = [], innerWidth = 1024\<rparr>"

definition at_hash :: "string \<Rightarrow> environment" where
  "at_hash h = \<lparr>now = 0, location_hash = h, innerWidth = 1024\<rparr>"

text \<open>The mounted demo components.\<close>

definition demo_mounted :: "attrs \<Rightarrow> state \<Rightarrow> state" where
  "demo_mounted a s0 = init (at_time 0) (declare_state a s0)"

definition demo_mounted_opt :: "attrs \<Rightarrow> state \<Rightarrow> state" where
  "demo_mounted_opt a s0 =
     init_opt (at_time 0)
       ((declare_state a s0)\<lparr>cachedWindowWidth := 1024, resizeTimer := None,
                              eventListeners := [], rafQueue := []\<rparr>)"

text \<open>The links without the animation of their progress bars, the one thing of a link
  that the two files write at different times.\<close>

definition strip_animation :: "tab_link list \<Rightarrow> tab_link list" where
  "strip_animation links = map (\<lambda>link. link\<lparr>progress_animation := None\<rparr>) links"

text \<open>The first position of \<open>xs\<close> that satisfies \<open>P\<close> (the length of \<open>xs\<close> when none does).\<close>

definition first_pos :: "('a \<Rightarrow> bool) \<Rightarrow> 'a list \<Rightarrow> nat" where
  "first_pos P xs = length (takeWhile (\<lambda>x. \<not> P x) xs)"

text \<open>Three tabs, the third marked active in the markup.\<close>

definition three_tabs_third_active :: state where
  "three_tabs_third_active =
     demo_page [demo_link ''a'', demo_link ''b'', (demo_link ''c'')\<lparr>cc_active := True\<rparr>]
               [\<lparr>aria_hidden = True\<rparr>, \<lparr>aria_hidden = True\<rparr>, \<lparr>aria_hidden = True\<rparr>]"

subsection \<open>Comparing the two files\<close>

text \<open>What the two files are to agree on: the links up to the animation of their
  progress bars, the panes, the active index, the autoplay variables and
  configuration, whether the observer observes, the delays of the live autoplay
  timers, and the registered listeners other than the resize listener (which only
  part_000 has).\<close>

definition core ::
  "state \<Rightarrow> (tab_link list \<times> tab_pane list \<times> int) \<times> (bool \<times> int \<times> int option)
     \<times> (bool \<times> rat \<times> bool \<times> bool \<times> bool \<times> bool) \<times> bool \<times> rat list \<times> listener set" where
  "core s =
     ((strip_animation (tabLinks s), tabPanes s, currentActiveIndex s),
      (isAutoplayPaused s, autoplayElapsedTime s, autoplayStartTime s),
      (autoplayEnabled s, autoplayDuration s, autoplayHoverPause s,
       isMobileDropdown s, dropdownToggle s, toggleButton s),
      observing s, auto_delays s, set (registered s) - {WindowResize})"

text \<open>In part_000 the handle in \<open>resizeTimer\<close> was given out by the window and is not the
  handle of a live autoplay timer.\<close>

definition handles_ok :: "state \<Rightarrow> bool" where
  "handles_ok s =
     (\<forall>i. resizeTimer s = Some i \<longrightarrow>
        i \<le> timer_counter s
        \<and> (\<forall>t \<in> set (pending s). fst (snd t) = AutoAdvance \<longrightarrow> fst t \<noteq> i))"

definition sim :: "state \<Rightarrow> state \<Rightarrow> bool" where
  "sim c opt = (core c = core opt \<and> timers_ok c \<and> timers_ok opt \<and> handles_ok opt)"

text \<open>A session on the autoplaying demo page: keyboard navigation, hovering, a click
  on a tab, the autoplay timer firing, animation frames, a resize with its settle
  timer, and the autoplay toggle.\<close>

definition demo_session :: "(environment \<times> event) list" where
  "demo_session =
     [(at_time 1000, KeyDown (OverlayEl 0) ''ArrowRight''),
      (at_time 1010, AnimationFrame),
      (at_time 2000, MouseEnter),
      (at_time 2500, Click (OverlayEl 2)),
      (at_time 3000, MouseLeave),
      (at_time 3020, AnimationFrame),
      (at_time 8000, TimerFire AutoAdvance 0),
      (at_time 9000, Resize),
      (at_time 9250, TimerFire ResizeSettle 0),
      (at_time 9500, Click AutoplayToggleEl)]"

section \<open>Properties\<close>

subsection \<open>The two loops over the links and panes write the same\<close>

lemma length_updateTabLinks [simp]: "length (updateTabLinks index links) = length links"
  by (simp add: updateTabLinks_def)

lemma length_updateTabPanes [simp]: "length (updateTabPanes index panes) = length panes"
  by (simp add: updateTabPanes_def)

lemma nth_updateTabLinks:
  "j < length links \<Longrightarrow>
   updateTabLinks index links ! j =
     (links ! j)\<lparr>aria_selected := (int j = index), cc_active := (int j = index),
                 overlay_tabindex :=
                   (case overlay_tabindex (links ! j) of
                      None \<Rightarrow> None
                    | Some _ \<Rightarrow> Some (if int j = index then ''0'' else ''-1''))\<rparr>"
  unfolding updateTabLinks_def by (simp add: nth_enumerate_eq Let_def)

lemma nth_updateTabPanes:
  "j < length panes \<Longrightarrow>
   updateTabPanes index panes ! j = (panes ! j)\<lparr>aria_hidden := (int j \<noteq> index)\<rparr>"
  unfolding updateTabPanes_def by (simp add: nth_enumerate_eq)

text \<open>A loop \<open>for (i = 0; i < k; i++) xs[i] = g(i, xs[i])\<close> has written the first
  \<open>k\<close> positions.\<close>

lemma loop_update:
  "k \<le> length xs \<Longrightarrow>
   length (foldl (\<lambda>ls i. ls[i := g i (ls ! i)]) xs [0..<k]) = length xs \<and>
   (\<forall>j < length xs.
      foldl (\<lambda>ls i. ls[i := g i (ls ! i)]) xs [0..<k] ! j
        = (if j < k then g j (xs ! j) else xs ! j))"
proof (induction k)
  case 0
  then show ?case by simp
next
  case (Suc k)
  then have ih: "length (foldl (\<lambda>ls i. ls[i := g i (ls ! i)]) xs [0..<k]) = length xs"
    "\<And>j. j < length xs \<Longrightarrow>
       foldl (\<lambda>ls i. ls[i := g i (ls ! i)]) xs [0..<k] ! j
         = (if j < k then g j (xs ! j) else xs ! j)"
    by simp_all
  from Suc.prems have k: "k < length xs" by simp
  show ?case
    using ih k by (auto simp: nth_list_update less_Suc_eq)
qed

lemma phase1_arrays:
  "foldl (\<lambda>(overlays, isActiveStates) i.
            (overlays @ [overlay_tabindex (links ! i)], isActiveStates @ [int i = index]))
         ([], []) [0..<k]
   = (map (\<lambda>i. overlay_tabindex (links ! i)) [0..<k], map (\<lambda>i. int i = index) [0..<k])"
  by (induction k) simp_all

lemma phase1_eq:
  "phase1 index links = (map overlay_tabindex links, map (\<lambda>i. int i = index) [0..<length links])"
proof -
  have "map (\<lambda>i. overlay_tabindex (links ! i)) [0..<length links] = map overlay_tabindex links"
    by (rule nth_equalityI) simp_all
  then show ?thesis
    unfolding phase1_def phase1_arrays by simp
qed

lemma updateTabLinks_opt_eq: "updateTabLinks_opt index links = updateTabLinks index links"
proof (rule nth_equalityI)
  let ?ov = "map overlay_tabindex links"
  let ?st = "map (\<lambda>i. int i = index) [0..<length links]"
  let ?g = "\<lambda>i link. link\<lparr>aria_selected := ?st ! i, cc_active := ?st ! i,
              overlay_tabindex :=
                (if ?ov ! i \<noteq> None then Some (if ?st ! i then ''0'' else ''-1'')
                 else overlay_tabindex link)\<rparr>"
  have opt: "updateTabLinks_opt index links
               = foldl (\<lambda>ls i. ls[i := ?g i (ls ! i)]) links [0..<length links]"
    by (simp add: updateTabLinks_opt_def phase1_eq phase2_def Let_def)
  have loop: "length (foldl (\<lambda>ls i. ls[i := ?g i (ls ! i)]) links [0..<length links])
                = length links"
    "\<And>j. j < length links \<Longrightarrow>
       foldl (\<lambda>ls i. ls[i := ?g i (ls ! i)]) links [0..<length links] ! j = ?g j (links ! j)"
    using loop_update [of "length links" links ?g] by simp_all
  show len: "length (updateTabLinks_opt index links) = length (updateTabLinks index links)"
    using loop(1) by (simp add: opt)
  fix j assume "j < length (updateTabLinks_opt index links)"
  then have j: "j < length links" by (simp add: len)
  show "updateTabLinks_opt index links ! j = updateTabLinks index links ! j"
    using j loop(2) [OF j]
    by (cases "overlay_tabindex (links ! j)") (simp_all add: opt nth_updateTabLinks)
qed

lemma updateTabPanes_opt_eq: "updateTabPanes_opt index panes = updateTabPanes index panes"
proof (rule nth_equalityI)
  let ?g = "\<lambda>i (pane :: tab_pane). pane\<lparr>aria_hidden := (int i \<noteq> index)\<rparr>"
  have loop: "length (foldl (\<lambda>ps i. ps[i := ?g i (ps ! i)]) panes [0..<length panes])
                = length panes"
    "\<And>j. j < length panes \<Longrightarrow>
       foldl (\<lambda>ps i. ps[i := ?g i (ps ! i)]) panes [0..<length panes] ! j = ?g j (panes ! j)"
    using loop_update [of "length panes" panes ?g] by simp_all
  show len: "length (updateTabPanes_opt index panes) = length (updateTabPanes index panes)"
    using loop(1) by (simp add: updateTabPanes_opt_def)
  fix j assume "j < length (updateTabPanes_opt index panes)"
  then have j: "j < length panes" by (simp add: len)
  show "updateTabPanes_opt index panes ! j = updateTabPanes index panes ! j"
    using j loop(2) [OF j] by (simp add: updateTabPanes_opt_def nth_updateTabPanes)
qed

subsection \<open>Positions\<close>

lemma filter_eq_upt: "filter (\<lambda>j. j = i) [0..<n] = (if i < n then [i] else [])"
  by (induction n) auto

lemma positions_only:
  assumes "\<And>j. j < length xs \<Longrightarrow> P (xs ! j) = (j = i)"
  shows "positions P xs = (if i < length xs then [i] else [])"
proof -
  have "filter (\<lambda>j. P (xs ! j)) [0..<length xs] = filter (\<lambda>j. j = i) [0..<length xs]"
    using assms by (intro filter_cong) auto
  then show ?thesis by (simp add: positions_def filter_eq_upt)
qed

subsection \<open>What each function leaves as it is\<close>

lemma stopAutoplay_frame [simp]:
  "tabLinks (stopAutoplay s) = tabLinks s"
  "tabPanes (stopAutoplay s) = tabPanes s"
  "currentActiveIndex (stopAutoplay s) = currentActiveIndex s"
  "autoplayEnabled (stopAutoplay s) = autoplayEnabled s"
  "autoplayDuration (stopAutoplay s) = autoplayDuration s"
  "autoplayHoverPause (stopAutoplay s) = autoplayHoverPause s"
  "dropdownToggle (stopAutoplay s) = dropdownToggle s"
  "dropdownText (stopAutoplay s) = dropdownText s"
  "isMobileDropdown (stopAutoplay s) = isMobileDropdown s"
  "toggleButton (stopAutoplay s) = toggleButton s"
  "autoplayObserver (stopAutoplay s) = autoplayObserver s"
  "isAutoplayPaused (stopAutoplay s) = isAutoplayPaused s"
  "autoplayElapsedTime (stopAutoplay s) = autoplayElapsedTime s"
  "timer_counter (stopAutoplay s) = timer_counter s"
  "registered (stopAutoplay s) = registered s"
  "observing (stopAutoplay s) = observing s"
  "resizeTimer (stopAutoplay s) = resizeTimer s"
  "eventListeners (stopAutoplay s) = eventListeners s"
  "rafQueue (stopAutoplay s) = rafQueue s"
  "cachedWindowWidth (stopAutoplay s) = cachedWindowWidth s"
  "menu_cc_open (stopAutoplay s) = menu_cc_open s"
  by (simp_all add: stopAutoplay_def clearTimeout_def Let_def split: option.splits)

lemma stopAutoplay_startTime [simp]: "autoplayStartTime (stopAutoplay s) = None"
  by (simp add: stopAutoplay_def Let_def)

lemma startAutoplay_frame [simp]:
  "tabLinks (startAutoplay env s) = tabLinks s"
  "tabPanes (startAutoplay env s) = tabPanes s"
  "currentActiveIndex (startAutoplay env s) = currentActiveIndex s"
  "autoplayEnabled (startAutoplay env s) = autoplayEnabled s"
  "autoplayDuration (startAutoplay env s) = autoplayDuration s"
  "autoplayHoverPause (startAutoplay env s) = autoplayHoverPause s"
  "dropdownToggle (startAutoplay env s) = dropdownToggle s"
  "dropdownText (startAutoplay env s) = dropdownText s"
  "isMobileDropdown (startAutoplay env s) = isMobileDropdown s"
  "toggleButton (startAutoplay env s) = toggleButton s"
  "autoplayObserver (startAutoplay env s) = autoplayObserver s"
  "isAutoplayPaused (startAutoplay env s) = isAutoplayPaused s"
  "autoplayElapsedTime (startAutoplay env s) = autoplayElapsedTime s"
  "registered (startAutoplay env s) = registered s"
  "observing (startAutoplay env s) = observing s"
  "resizeTimer (startAutoplay env s) = resizeTimer s"
  "eventListeners (startAutoplay env s) = eventListeners s"
  "rafQueue (startAutoplay env s) = rafQueue s"
  "cachedWindowWidth (startAutoplay env s) = cachedWindowWidth s"
  "menu_cc_open (startAutoplay env s) = menu_cc_open s"
  by (simp_all add: startAutoplay_def setTimeout_def Let_def)

lemma startAutoplay_startTime:
  "autoplayStartTime (startAutoplay env s) =
     (if autoplayEnabled s \<and> \<not> isAutoplayPaused s then Some (now env) else autoplayStartTime s)"
  by (simp add: startAutoplay_def setTimeout_def Let_def)

lemma closeDropdown_frame [simp]:
  "tabLinks (closeDropdown s) = tabLinks s"
  "tabPanes (closeDropdown s) = tabPanes s"
  "currentActiveIndex (closeDropdown s) = currentActiveIndex s"
  "autoplayEnabled (closeDropdown s) = autoplayEnabled s"
  "autoplayDuration (closeDropdown s) = autoplayDuration s"
  "autoplayHoverPause (closeDropdown s) = autoplayHoverPause s"
  "dropdownToggle (closeDropdown s) = dropdownToggle s"
  "dropdownText (closeDropdown s) = dropdownText s"
  "isMobileDropdown (closeDropdown s) = isMobileDropdown s"
  "toggleButton (closeDropdown s) = toggleButton s"
  "autoplayTimer (closeDropdown s) = autoplayTimer s"
  "autoplayObserver (closeDropdown s) = autoplayObserver s"
  "isAutoplayPaused (closeDropdown s) = isAutoplayPaused s"
  "autoplayStartTime (closeDropdown s) = autoplayStartTime s"
  "autoplayElapsedTime (closeDropdown s) = autoplayElapsedTime s"
  "pending (closeDropdown s) = pending s"
  "timer_counter (closeDropdown s) = timer_counter s"
  "registered (closeDropdown s) = registered s"
  "observing (closeDropdown s) = observing s"
  "resizeTimer (closeDropdown s) = resizeTimer s"
  "eventListeners (closeDropdown s) = eventListeners s"
  "rafQueue (closeDropdown s) = rafQueue s"
  "cachedWindowWidth (closeDropdown s) = cachedWindowWidth s"
  by (simp_all add: closeDropdown_def)

lemma openDropdown_frame [simp]:
  "tabLinks (openDropdown s) = tabLinks s"
  "tabPanes (openDropdown s) = tabPanes s"
  "currentActiveIndex (openDropdown s) = currentActiveIndex s"
  "autoplayEnabled (openDropdown s) = autoplayEnabled s"
  "autoplayDuration (openDropdown s) = autoplayDuration s"
  "autoplayHoverPause (openDropdown s) = autoplayHoverPause s"
  "dropdownToggle (openDropdown s) = dropdownToggle s"
  "dropdownText (openDropdown s) = dropdownText s"
  "isMobileDropdown (openDropdown s) = isMobileDropdown s"
  "toggleButton (openDropdown s) = toggleButton s"
  "autoplayTimer (openDropdown s) = autoplayTimer s"
  "autoplayObserver (openDropdown s) = autoplayObserver s"
  "isAutoplayPaused (openDropdown s) = isAutoplayPaused s"
  "autoplayStartTime (openDropdown s) = autoplayStartTime s"
  "autoplayElapsedTime (openDropdown s) = autoplayElapsedTime s"
  "pending (openDropdown s) = pending s"
  "timer_counter (openDropdown s) = timer_counter s"
  "registered (openDropdown s) = registered s"
  "observing (openDropdown s) = observing s"
  "resizeTimer (openDropdown s) = resizeTimer s"
  "eventListeners (openDropdown s) = eventListeners s"
  "rafQueue (openDropdown s) = rafQueue s"
  "cachedWindowWidth (openDropdown s) = cachedWindowWidth s"
  by (simp_all add: openDropdown_def)

lemma toggleDropdown_frame [simp]:
  "tabLinks (toggleDropdown s) = tabLinks s"
  "tabPanes (toggleDropdown s) = tabPanes s"
  "currentActiveIndex (toggleDropdown s) = currentActiveIndex s"
  "autoplayEnabled (toggleDropdown s) = autoplayEnabled s"
  "autoplayDuration (toggleDropdown s) = autoplayDuration s"
  "autoplayHoverPause (toggleDropdown s) = autoplayHoverPause s"
  "dropdownToggle (toggleDropdown s) = dropdownToggle s"
  "dropdownText (toggleDropdown s) = dropdownText s"
  "isMobileDropdown (toggleDropdown s) = isMobileDropdown s"
  "toggleButton (toggleDropdown s) = toggleButton s"
  "autoplayTimer (toggleDropdown s) = autoplayTimer s"
  "autoplayObserver (toggleDropdown s) = autoplayObserver s"
  "isAutoplayPaused (toggleDropdown s) = isAutoplayPaused s"
  "autoplayStartTime (toggleDropdown s) = autoplayStartTime s"
  "autoplayElapsedTime (toggleDropdown s) = autoplayElapsedTime s"
  "pending (toggleDropdown s) = pending s"
  "timer_counter (toggleDropdown s) = timer_counter s"
  "registered (toggleDropdown s) = registered s"
  "observing (toggleDropdown s) = observing s"
  "resizeTimer (toggleDropdown s) = resizeTimer s"
  "eventListeners (toggleDropdown s) = eventListeners s"
  "rafQueue (toggleDropdown s) = rafQueue s"
  "cachedWindowWidth (toggleDropdown s) = cachedWindowWidth s"
  by (simp_all add: toggleDropdown_def)

lemma closeDropdownIfOpen_frame [simp]:
  "tabLinks (closeDropdownIfOpen s) = tabLinks s"
  "tabPanes (closeDropdownIfOpen s) = tabPanes s"
  "currentActiveIndex (closeDropdownIfOpen s) = currentActiveIndex s"
  "autoplayEnabled (closeDropdownIfOpen s) = autoplayEnabled s"
  "autoplayDuration (closeDropdownIfOpen s) = autoplayDuration s"
  "autoplayHoverPause (closeDropdownIfOpen s) = autoplayHoverPause s"
  "dropdownToggle (closeDropdownIfOpen s) = dropdownToggle s"
  "dropdownText (closeDropdownIfOpen s) = dropdownText s"
  "isMobileDropdown (closeDropdownIfOpen s) = isMobileDropdown s"
  "toggleButton (closeDropdownIfOpen s) = toggleButton s"
  "autoplayTimer (closeDropdownIfOpen s) = autoplayTimer s"
  "autoplayObserver (closeDropdownIfOpen s) = autoplayObserver s"
  "isAutoplayPaused (closeDropdownIfOpen s) = isAutoplayPaused s"
  "autoplayStartTime (closeDropdownIfOpen s) = autoplayStartTime s"
  "autoplayElapsedTime (closeDropdownIfOpen s) = autoplayElapsedTime s"
  "pending (closeDropdownIfOpen s) = pending s"
  "timer_counter (closeDropdownIfOpen s) = timer_counter s"
  "registered (closeDropdownIfOpen s) = registered s"
  "observing (closeDropdownIfOpen s) = observing s"
  "resizeTimer (closeDropdownIfOpen s) = resizeTimer s"
  "eventListeners (closeDropdownIfOpen s) = eventListeners s"
  "rafQueue (closeDropdownIfOpen s) = rafQueue s"
  "cachedWindowWidth (closeDropdownIfOpen s) = cachedWindowWidth s"
  by (simp_all add: closeDropdownIfOpen_def)

lemma updateDropdownText_frame [simp]:
  "tabLinks (updateDropdownText index s) = tabLinks s"
  "tabPanes (updateDropdownText index s) = tabPanes s"
  "currentActiveIndex (updateDropdownText index s) = currentActiveIndex s"
  "autoplayEnabled (updateDropdownText index s) = autoplayEnabled s"
  "autoplayDuration (updateDropdownText index s) = autoplayDuration s"
  "autoplayHoverPause (updateDropdownText index s) = autoplayHoverPause s"
  "dropdownToggle (updateDropdownText index s) = dropdownToggle s"
  "dropdownText (updateDropdownText index s) = dropdownText s"
  "isMobileDropdown (updateDropdownText index s) = isMobileDropdown s"
  "toggleButton (updateDropdownText index s) = toggleButton s"
  "autoplayTimer (updateDropdownText index s) = autoplayTimer s"
  "autoplayObserver (updateDropdownText index s) = autoplayObserver s"
  "isAutoplayPaused (updateDropdownText index s) = isAutoplayPaused s"
  "autoplayStartTime (updateDropdownText index s) = autoplayStartTime s"
  "autoplayElapsedTime (updateDropdownText index s) = autoplayElapsedTime s"
  "pending (updateDropdownText index s) = pending s"
  "timer_counter (updateDropdownText index s) = timer_counter s"
  "registered (updateDropdownText index s) = registered s"
  "observing (updateDropdownText index s) = observing s"
  "resizeTimer (updateDropdownText index s) = resizeTimer s"
  "eventListeners (updateDropdownText index s) = eventListeners s"
  "rafQueue (updateDropdownText index s) = rafQueue s"
  "cachedWindowWidth (updateDropdownText index s) = cachedWindowWidth s"
  "menu_cc_open (updateDropdownText index s) = menu_cc_open s"
  by (simp_all add: updateDropdownText_def Let_def)

lemma updateToggleButton_frame [simp]:
  "tabLinks (updateToggleButton s) = tabLinks s"
  "tabPanes (updateToggleButton s) = tabPanes s"
  "currentActiveIndex (updateToggleButton s) = currentActiveIndex s"
  "autoplayEnabled (updateToggleButton s) = autoplayEnabled s"
  "autoplayDuration (updateToggleButton s) = autoplayDuration s"
  "autoplayHoverPause (updateToggleButton s) = autoplayHoverPause s"
  "dropdownToggle (updateToggleButton s) = dropdownToggle s"
  "dropdownText (updateToggleButton s) = dropdownText s"
  "isMobileDropdown (updateToggleButton s) = isMobileDropdown s"
  "toggleButton (updateToggleButton s) = toggleButton s"
  "autoplayTimer (updateToggleButton s) = autoplayTimer s"
  "autoplayObserver (updateToggleButton s) = autoplayObserver s"
  "isAutoplayPaused (updateToggleButton s) = isAutoplayPaused s"
  "autoplayStartTime (updateToggleButton s) = autoplayStartTime s"
  "autoplayElapsedTime (updateToggleButton s) = autoplayElapsedTime s"
  "pending (updateToggleButton s) = pending s"
  "timer_counter (updateToggleButton s) = timer_counter s"
  "registered (updateToggleButton s) = registered s"
  "observing (updateToggleButton s) = observing s"
  "resizeTimer (updateToggleButton s) = resizeTimer s"
  "eventListeners (updateToggleButton s) = eventListeners s"
  "rafQueue (updateToggleButton s) = rafQueue s"
  "cachedWindowWidth (updateToggleButton s) = cachedWindowWidth s"
  "menu_cc_open (updateToggleButton s) = menu_cc_open s"
  by (simp_all add: updateToggleButton_def)

lemma restartAnimation_frame [simp]:
  "tabPanes (restartAnimation s) = tabPanes s"
  "currentActiveIndex (restartAnimation s) = currentActiveIndex s"
  "autoplayEnabled (restartAnimation s) = autoplayEnabled s"
  "autoplayDuration (restartAnimation s) = autoplayDuration s"
  "autoplayHoverPause (restartAnimation s) = autoplayHoverPause s"
  "dropdownToggle (restartAnimation s) = dropdownToggle s"
  "dropdownText (restartAnimation s) = dropdownText s"
  "isMobileDropdown (restartAnimation s) = isMobileDropdown s"
  "toggleButton (restartAnimation s) = toggleButton s"
  "autoplayTimer (restartAnimation s) = autoplayTimer s"
  "autoplayObserver (restartAnimation s) = autoplayObserver s"
  "isAutoplayPaused (restartAnimation s) = isAutoplayPaused s"
  "autoplayStartTime (restartAnimation s) = autoplayStartTime s"
  "autoplayElapsedTime (restartAnimation s) = autoplayElapsedTime s"
  "pending (restartAnimation s) = pending s"
  "timer_counter (restartAnimation s) = timer_counter s"
  "registered (restartAnimation s) = registered s"
  "observing (restartAnimation s) = observing s"
  "resizeTimer (restartAnimation s) = resizeTimer s"
  "eventListeners (restartAnimation s) = eventListeners s"
  "rafQueue (restartAnimation s) = rafQueue s"
  "cachedWindowWidth (restartAnimation s) = cachedWindowWidth s"
  "menu_cc_open (restartAnimation s) = menu_cc_open s"
  by (simp_all add: restartAnimation_def Let_def split: option.splits)

lemma restartAnimation_opt_frame [simp]:
  "tabPanes (restartAnimation_opt s) = tabPanes s"
  "currentActiveIndex (restartAnimation_opt s) = currentActiveIndex s"
  "autoplayEnabled (restartAnimation_opt s) = autoplayEnabled s"
  "autoplayDuration (restartAnimation_opt s) = autoplayDuration s"
  "autoplayHoverPause (restartAnimation_opt s) = autoplayHoverPause s"
  "dropdownToggle (restartAnimation_opt s) = dropdownToggle s"
  "dropdownText (restartAnimation_opt s) = dropdownText s"
  "isMobileDropdown (restartAnimation_opt s) = isMobileDropdown s"
  "toggleButton (restartAnimation_opt s) = toggleButton s"
  "autoplayTimer (restartAnimation_opt s) = autoplayTimer s"
  "autoplayObserver (restartAnimation_opt s) = autoplayObserver s"
  "isAutoplayPaused (restartAnimation_opt s) = isAutoplayPaused s"
  "autoplayStartTime (restartAnimation_opt s) = autoplayStartTime s"
  "autoplayElapsedTime (restartAnimation_opt s) = autoplayElapsedTime s"
  "pending (restartAnimation_opt s) = pending s"
  "timer_counter (restartAnimation_opt s) = timer_counter s"
  "registered (restartAnimation_opt s) = registered s"
  "observing (restartAnimation_opt s) = observing s"
  "resizeTimer (restartAnimation_opt s) = resizeTimer s"
  "eventListeners (restartAnimation_opt s) = eventListeners s"
  "cachedWindowWidth (restartAnimation_opt s) = cachedWindowWidth s"
  "menu_cc_open (restartAnimation_opt s) = menu_cc_open s"
  by (simp_all add: restartAnimation_opt_def Let_def split: option.splits)

lemma strip_update:
  "strip_animation (xs[i := (xs ! i)\<lparr>progress_animation := v\<rparr>]) = strip_animation xs"
proof (cases "i < length xs")
  case True
  then have "(map (\<lambda>link. link\<lparr>progress_animation := None\<rparr>) xs)
               [i := (xs ! i)\<lparr>progress_animation := None\<rparr>]
             = map (\<lambda>link. link\<lparr>progress_animation := None\<rparr>) xs"
    by (intro nth_equalityI) (simp_all add: nth_list_update)
  then show ?thesis by (simp add: strip_animation_def map_update)
next
  case False
  then show ?thesis by (simp add: list_update_beyond)
qed

lemma strip_restartAnimation [simp]:
  "strip_animation (tabLinks (restartAnimation s)) = strip_animation (tabLinks s)"
  "strip_animation (tabLinks (restartAnimation_opt s)) = strip_animation (tabLinks s)"
  by (simp_all add: restartAnimation_def restartAnimation_opt_def Let_def strip_update
        split: option.splits)

lemma restartAutoplay_frame [simp]:
  "tabPanes (restartAutoplay env s) = tabPanes s"
  "currentActiveIndex (restartAutoplay env s) = currentActiveIndex s"
  "autoplayEnabled (restartAutoplay env s) = autoplayEnabled s"
  "autoplayDuration (restartAutoplay env s) = autoplayDuration s"
  "autoplayHoverPause (restartAutoplay env s) = autoplayHoverPause s"
  "dropdownToggle (restartAutoplay env s) = dropdownToggle s"
  "dropdownText (restartAutoplay env s) = dropdownText s"
  "isMobileDropdown (restartAutoplay env s) = isMobileDropdown s"
  "toggleButton (restartAutoplay env s) = toggleButton s"
  "autoplayObserver (restartAutoplay env s) = autoplayObserver s"
  "isAutoplayPaused (restartAutoplay env s) = isAutoplayPaused s"
  "registered (restartAutoplay env s) = registered s"
  "observing (restartAutoplay env s) = observing s"
  "resizeTimer (restartAutoplay env s) = resizeTimer s"
  "eventListeners (restartAutoplay env s) = eventListeners s"
  "rafQueue (restartAutoplay env s) = rafQueue s"
  "cachedWindowWidth (restartAutoplay env s) = cachedWindowWidth s"
  "menu_cc_open (restartAutoplay env s) = menu_cc_open s"
  by (simp_all add: restartAutoplay_def Let_def)

lemma restartAutoplay_opt_frame [simp]:
  "tabPanes (restartAutoplay_opt env s) = tabPanes s"
  "currentActiveIndex (restartAutoplay_opt env s) = currentActiveIndex s"
  "autoplayEnabled (restartAutoplay_opt env s) = autoplayEnabled s"
  "autoplayDuration (restartAutoplay_opt env s) = autoplayDuration s"
  "autoplayHoverPause (restartAutoplay_opt env s) = autoplayHoverPause s"
  "dropdownToggle (restartAutoplay_opt env s) = dropdownToggle s"
  "dropdownText (restartAutoplay_opt env s) = dropdownText s"
  "isMobileDropdown (restartAutoplay_opt env s) = isMobileDropdown s"
  "toggleButton (restartAutoplay_opt env s) = toggleButton s"
  "autoplayObserver (restartAutoplay_opt env s) = autoplayObserver s"
  "isAutoplayPaused (restartAutoplay_opt env s) = isAutoplayPaused s"
  "registered (restartAutoplay_opt env s) = registered s"
  "observing (restartAutoplay_opt env s) = observing s"
  "resizeTimer (restartAutoplay_opt env s) = resizeTimer s"
  "eventListeners (restartAutoplay_opt env s) = eventListeners s"
  "cachedWindowWidth (restartAutoplay_opt env s) = cachedWindowWidth s"
  "menu_cc_open (restartAutoplay_opt env s) = menu_cc_open s"
  by (simp_all add: restartAutoplay_opt_def Let_def)

lemma pauseAutoplay_frame [simp]:
  "tabLinks (pauseAutoplay env s) = tabLinks s"
  "tabPanes (pauseAutoplay env s) = tabPanes s"
  "currentActiveIndex (pauseAutoplay env s) = currentActiveIndex s"
  "autoplayEnabled (pauseAutoplay env s) = autoplayEnabled s"
  "autoplayDuration (pauseAutoplay env s) = autoplayDuration s"
  "autoplayHoverPause (pauseAutoplay env s) = autoplayHoverPause s"
  "dropdownToggle (pauseAutoplay env s) = dropdownToggle s"
  "dropdownText (pauseAutoplay env s) = dropdownText s"
  "isMobileDropdown (pauseAutoplay env s) = isMobileDropdown s"
  "toggleButton (pauseAutoplay env s) = toggleButton s"
  "autoplayObserver (pauseAutoplay env s) = autoplayObserver s"
  "timer_counter (pauseAutoplay env s) = timer_counter s"
  "registered (pauseAutoplay env s) = registered s"
  "observing (pauseAutoplay env s) = observing s"
  "resizeTimer (pauseAutoplay env s) = resizeTimer s"
  "eventListeners (pauseAutoplay env s) = eventListeners s"
  "rafQueue (pauseAutoplay env s) = rafQueue s"
  "cachedWindowWidth (pauseAutoplay env s) = cachedWindowWidth s"
  "menu_cc_open (pauseAutoplay env s) = menu_cc_open s"
  by (simp_all add: pauseAutoplay_def Let_def split: option.splits)

lemma resumeAutoplay_frame [simp]:
  "tabLinks (resumeAutoplay env s) = tabLinks s"
  "tabPanes (resumeAutoplay env s) = tabPanes s"
  "currentActiveIndex (resumeAutoplay env s) = currentActiveIndex s"
  "autoplayEnabled (resumeAutoplay env s) = autoplayEnabled s"
  "autoplayDuration (resumeAutoplay env s) = autoplayDuration s"
  "autoplayHoverPause (resumeAutoplay env s) = autoplayHoverPause s"
  "dropdownToggle (resumeAutoplay env s) = dropdownToggle s"
  "dropdownText (resumeAutoplay env s) = dropdownText s"
  "isMobileDropdown (resumeAutoplay env s) = isMobileDropdown s"
  "toggleButton (resumeAutoplay env s) = toggleButton s"
  "autoplayObserver (resumeAutoplay env s) = autoplayObserver s"
  "autoplayElapsedTime (resumeAutoplay env s) = autoplayElapsedTime s"
  "registered (resumeAutoplay env s) = registered s"
  "observing (resumeAutoplay env s) = observing s"
  "resizeTimer (resumeAutoplay env s) = resizeTimer s"
  "eventListeners (resumeAutoplay env s) = eventListeners s"
  "rafQueue (resumeAutoplay env s) = rafQueue s"
  "cachedWindowWidth (resumeAutoplay env s) = cachedWindowWidth s"
  "menu_cc_open (resumeAutoplay env s) = menu_cc_open s"
  by (simp_all add: resumeAutoplay_def Let_def)

lemma setActiveTab_frame [simp]:
  "autoplayEnabled (setActiveTab env index s) = autoplayEnabled s"
  "autoplayDuration (setActiveTab env index s) = autoplayDuration s"
  "autoplayHoverPause (setActiveTab env index s) = autoplayHoverPause s"
  "dropdownToggle (setActiveTab env index s) = dropdownToggle s"
  "dropdownText (setActiveTab env index s) = dropdownText s"
  "isMobileDropdown (setActiveTab env index s) = isMobileDropdown s"
  "toggleButton (setActiveTab env index s) = toggleButton s"
  "autoplayObserver (setActiveTab env index s) = autoplayObserver s"
  "isAutoplayPaused (setActiveTab env index s) = isAutoplayPaused s"
  "registered (setActiveTab env index s) = registered s"
  "observing (setActiveTab env index s) = observing s"
  "resizeTimer (setActiveTab env index s) = resizeTimer s"
  "eventListeners (setActiveTab env index s) = eventListeners s"
  "rafQueue (setActiveTab env index s) = rafQueue s"
  "cachedWindowWidth (setActiveTab env index s) = cachedWindowWidth s"
  by (simp_all add: setActiveTab_def Let_def)

lemma setActiveTab_opt_frame [simp]:
  "autoplayEnabled (setActiveTab_opt env index s) = autoplayEnabled s"
  "autoplayDuration (setActiveTab_opt env index s) = autoplayDuration s"
  "autoplayHoverPause (setActiveTab_opt env index s) = autoplayHoverPause s"
  "dropdownToggle (setActiveTab_opt env index s) = dropdownToggle s"
  "dropdownText (setActiveTab_opt env index s) = dropdownText s"
  "isMobileDropdown (setActiveTab_opt env index s) = isMobileDropdown s"
  "toggleButton (setActiveTab_opt env index s) = toggleButton s"
  "autoplayObserver (setActiveTab_opt env index s) = autoplayObserver s"
  "isAutoplayPaused (setActiveTab_opt env index s) = isAutoplayPaused s"
  "registered (setActiveTab_opt env index s) = registered s"
  "observing (setActiveTab_opt env index s) = observing s"
  "resizeTimer (setActiveTab_opt env index s) = resizeTimer s"
  "eventListeners (setActiveTab_opt env index s) = eventListeners s"
  "cachedWindowWidth (setActiveTab_opt env index s) = cachedWindowWidth s"
  by (simp_all add: setActiveTab_opt_def Let_def)

subsection \<open>The bookkeeping of timers is kept\<close>

lemma timers_ok_cong:
  "pending s' = pending s \<Longrightarrow> timer_counter s' = timer_counter s \<Longrightarrow>
   autoplayTimer s' = autoplayTimer s \<Longrightarrow> resizeTimer s' = resizeTimer s \<Longrightarrow>
   isAutoplayPaused s' = isAutoplayPaused s \<Longrightarrow> timers_ok s' = timers_ok s"
  by (simp add: timers_ok_def timers_of_def)

lemma auto_delays_cong: "pending s' = pending s \<Longrightarrow> auto_delays s' = auto_delays s"
  by (simp add: auto_delays_def timers_of_def)

lemma timers_ok_stopAutoplay:
  "timers_ok s \<Longrightarrow>
   timers_ok (stopAutoplay s) \<and> timers_of AutoAdvance (stopAutoplay s) = []
   \<and> autoplayTimer (stopAutoplay s) = None"
  unfolding timers_ok_def timers_of_def stopAutoplay_def clearTimeout_def truthy_def Let_def
  by (auto simp: filter_empty_conv distinct_map_filter split: option.splits)

lemma timers_ok_startAutoplay: "timers_ok s \<Longrightarrow> timers_ok (startAutoplay env s)"
proof -
  assume ok: "timers_ok s"
  let ?s1 = "stopAutoplay s"
  have s1: "timers_ok ?s1" "timers_of AutoAdvance ?s1 = []"
    using timers_ok_stopAutoplay [OF ok] by simp_all
  show ?thesis
  proof (cases "\<not> autoplayEnabled s \<or> isAutoplayPaused s")
    case True
    then show ?thesis using ok by (auto simp: startAutoplay_def)
  next
    case False
    then show ?thesis
      using s1
      unfolding startAutoplay_def timers_ok_def timers_of_def setTimeout_def Let_def
      by (auto simp: filter_empty_conv)
  qed
qed

lemma auto_delays_startAutoplay:
  assumes "timers_ok s"
  shows "auto_delays (startAutoplay env s) =
           (if autoplayEnabled s \<and> \<not> isAutoplayPaused s
            then [durationMs s - of_int (autoplayElapsedTime s)] else auto_delays s)"
proof -
  have "timers_of AutoAdvance (stopAutoplay s) = []"
    using timers_ok_stopAutoplay [OF assms] by simp
  then show ?thesis
    unfolding startAutoplay_def auto_delays_def timers_of_def setTimeout_def Let_def durationMs_def
    by simp
qed

lemma timers_ok_restartAutoplay:
  assumes "timers_ok s"
  shows "timers_ok (restartAutoplay env s)" and "timers_ok (restartAutoplay_opt env s)"
proof -
  have "timers_ok (restartAnimation (s\<lparr>autoplayElapsedTime := 0\<rparr>)) = timers_ok s"
    by (rule timers_ok_cong) simp_all
  with assms show "timers_ok (restartAutoplay env s)"
    by (simp add: restartAutoplay_def Let_def timers_ok_startAutoplay)
  have "timers_ok (restartAnimation_opt (s\<lparr>autoplayElapsedTime := 0\<rparr>)) = timers_ok s"
    by (rule timers_ok_cong) simp_all
  with assms show "timers_ok (restartAutoplay_opt env s)"
    by (simp add: restartAutoplay_opt_def Let_def timers_ok_startAutoplay)
qed

lemma auto_delays_restartAutoplay:
  assumes "timers_ok s"
  shows "auto_delays (restartAutoplay env s) =
           (if autoplayEnabled s \<and> \<not> isAutoplayPaused s then [durationMs s]
            else auto_delays s)"
    and "auto_delays (restartAutoplay_opt env s) =
           (if autoplayEnabled s \<and> \<not> isAutoplayPaused s then [durationMs s]
            else auto_delays s)"
proof -
  let ?a = "restartAnimation (s\<lparr>autoplayElapsedTime := 0\<rparr>)"
  let ?b = "restartAnimation_opt (s\<lparr>autoplayElapsedTime := 0\<rparr>)"
  have ok: "timers_ok ?a" "timers_ok ?b"
    using assms timers_ok_cong [of ?a s] timers_ok_cong [of ?b s] by simp_all
  have same: "auto_delays ?a = auto_delays s" "auto_delays ?b = auto_delays s"
    by (rule auto_delays_cong, simp)+
  show "auto_delays (restartAutoplay env s) =
           (if autoplayEnabled s \<and> \<not> isAutoplayPaused s then [durationMs s]
            else auto_delays s)"
    using auto_delays_startAutoplay [OF ok(1), of env] same(1)
    by (simp add: restartAutoplay_def Let_def durationMs_def)
  show "auto_delays (restartAutoplay_opt env s) =
           (if autoplayEnabled s \<and> \<not> isAutoplayPaused s then [durationMs s]
            else auto_delays s)"
    using auto_delays_startAutoplay [OF ok(2), of env] same(2)
    by (simp add: restartAutoplay_opt_def Let_def durationMs_def)
qed

lemma timers_ok_pauseAutoplay: "timers_ok s \<Longrightarrow> timers_ok (pauseAutoplay env s)"
proof (cases "autoplayEnabled s")
  case False
  assume "timers_ok s"
  with False show ?thesis by (simp add: pauseAutoplay_def)
next
  case True
  assume ok: "timers_ok s"
  let ?s1 = "stopAutoplay s"
  have s1: "timers_ok ?s1" "timers_of AutoAdvance ?s1 = []" "autoplayTimer ?s1 = None"
    using timers_ok_stopAutoplay [OF ok] by simp_all
  have pend: "pending (pauseAutoplay env s) = pending ?s1"
    "timer_counter (pauseAutoplay env s) = timer_counter ?s1"
    "autoplayTimer (pauseAutoplay env s) = autoplayTimer ?s1"
    "resizeTimer (pauseAutoplay env s) = resizeTimer ?s1"
    using True
    by (simp_all add: pauseAutoplay_def updateToggleButton_def stopAutoplay_def clearTimeout_def
          Let_def split: option.splits)
  show ?thesis
    using s1 pend unfolding timers_ok_def timers_of_def by auto
qed

lemma paused_pauseAutoplay:
  "isAutoplayPaused (pauseAutoplay env s) = (autoplayEnabled s \<or> isAutoplayPaused s)"
  by (simp add: pauseAutoplay_def Let_def split: option.splits)

lemma auto_delays_pauseAutoplay:
  "timers_ok s \<Longrightarrow> autoplayEnabled s \<Longrightarrow> auto_delays (pauseAutoplay env s) = []"
  using timers_ok_pauseAutoplay [of s env]
  by (simp add: timers_ok_def auto_delays_def paused_pauseAutoplay)

lemma paused_resumeAutoplay:
  "isAutoplayPaused (resumeAutoplay env s) = (\<not> autoplayEnabled s \<and> isAutoplayPaused s)"
  by (simp add: resumeAutoplay_def Let_def)

lemma timers_ok_resumeAutoplay: "timers_ok s \<Longrightarrow> timers_ok (resumeAutoplay env s)"
proof -
  assume ok: "timers_ok s"
  let ?s1 = "s\<lparr>isAutoplayPaused := False, component_autoplay_paused := False\<rparr>"
  have "timers_ok ?s1" using ok by (simp add: timers_ok_def timers_of_def)
  then have "timers_ok (startAutoplay env ?s1)" by (rule timers_ok_startAutoplay)
  moreover have "timers_ok (updateToggleButton (startAutoplay env ?s1))
                   = timers_ok (startAutoplay env ?s1)"
    by (rule timers_ok_cong) simp_all
  ultimately show ?thesis
    using ok by (simp add: resumeAutoplay_def Let_def)
qed

lemma auto_delays_resumeAutoplay:
  assumes "timers_ok s" "autoplayEnabled s"
  shows "auto_delays (resumeAutoplay env s) = [durationMs s - of_int (autoplayElapsedTime s)]"
proof -
  let ?s1 = "s\<lparr>isAutoplayPaused := False, component_autoplay_paused := False\<rparr>"
  have "timers_ok ?s1" using assms(1) by (simp add: timers_ok_def timers_of_def)
  from auto_delays_startAutoplay [OF this, of env] assms(2)
  have "auto_delays (startAutoplay env ?s1) = [durationMs s - of_int (autoplayElapsedTime s)]"
    by (simp add: durationMs_def)
  moreover have "auto_delays (updateToggleButton (startAutoplay env ?s1))
                   = auto_delays (startAutoplay env ?s1)"
    by (rule auto_delays_cong) simp
  ultimately show ?thesis
    using assms(2) by (simp add: resumeAutoplay_def Let_def)
qed

subsection \<open>What setActiveTab writes\<close>

text \<open>The state after the DOM writes of \<open>setActiveTab\<close>, before its autoplay branch;
  by the two lemmas on the loops it is the same state in both files.\<close>

lemma setActiveTab_valid:
  assumes "0 \<le> index" "index < int (length (tabLinks s))"
  shows "setActiveTab env index s =
           (let s5 = closeDropdownIfOpen (updateDropdownText index
                       (s\<lparr>tabLinks := updateTabLinks index (tabLinks s),
                          tabPanes := updateTabPanes index (tabPanes s),
                          currentActiveIndex := index\<rparr>))
            in if autoplayEnabled s
               then (if isAutoplayPaused s then s5\<lparr>autoplayElapsedTime := 0\<rparr>
                     else restartAutoplay env s5)
               else s5)"
    and "setActiveTab_opt env index s =
           (let s5 = closeDropdownIfOpen (updateDropdownText index
                       (s\<lparr>tabLinks := updateTabLinks index (tabLinks s),
                          tabPanes := updateTabPanes index (tabPanes s),
                          currentActiveIndex := index\<rparr>))
            in if autoplayEnabled s
               then (if isAutoplayPaused s then s5\<lparr>autoplayElapsedTime := 0\<rparr>
                     else restartAutoplay_opt env s5)
               else s5)"
  using assms
  by (simp_all add: setActiveTab_def setActiveTab_opt_def Let_def
        updateTabLinks_opt_eq updateTabPanes_opt_eq)

lemma setActiveTab_invalid:
  "index < 0 \<or> int (length (tabLinks s)) \<le> index \<Longrightarrow> setActiveTab env index s = s"
  "index < 0 \<or> int (length (tabLinks s)) \<le> index \<Longrightarrow> setActiveTab_opt env index s = s"
  by (simp_all add: setActiveTab_def setActiveTab_opt_def)

lemma tabLinks_dropdown [simp]:
  "tabLinks (closeDropdownIfOpen s) = tabLinks s"
  "tabLinks (updateDropdownText index s) = tabLinks s"
  by simp_all

lemma elapsed_restartAutoplay:
  "autoplayElapsedTime (restartAutoplay env s)
     = (if autoplayEnabled s then 0 else autoplayElapsedTime s)"
  "autoplayElapsedTime (restartAutoplay_opt env s)
     = (if autoplayEnabled s then 0 else autoplayElapsedTime s)"
  by (simp_all add: restartAutoplay_def restartAutoplay_opt_def Let_def)

lemma strip_restartAutoplay [simp]:
  "strip_animation (tabLinks (restartAutoplay env s)) = strip_animation (tabLinks s)"
  "strip_animation (tabLinks (restartAutoplay_opt env s)) = strip_animation (tabLinks s)"
  by (simp_all add: restartAutoplay_def restartAutoplay_opt_def Let_def)

lemma index_setActiveTab:
  "currentActiveIndex (setActiveTab env index s)
     = (if 0 \<le> index \<and> index < int (length (tabLinks s)) then index else currentActiveIndex s)"
  "currentActiveIndex (setActiveTab_opt env index s)
     = (if 0 \<le> index \<and> index < int (length (tabLinks s)) then index else currentActiveIndex s)"
  by (cases "0 \<le> index \<and> index < int (length (tabLinks s))";
      auto simp: setActiveTab_valid setActiveTab_invalid Let_def)+

lemma elapsed_setActiveTab:
  "autoplayElapsedTime (setActiveTab env index s)
     = (if 0 \<le> index \<and> index < int (length (tabLinks s)) \<and> autoplayEnabled s then 0
        else autoplayElapsedTime s)"
  "autoplayElapsedTime (setActiveTab_opt env index s)
     = (if 0 \<le> index \<and> index < int (length (tabLinks s)) \<and> autoplayEnabled s then 0
        else autoplayElapsedTime s)"
  by (cases "0 \<le> index \<and> index < int (length (tabLinks s))";
      auto simp: setActiveTab_valid setActiveTab_invalid Let_def elapsed_restartAutoplay)+

lemma panes_setActiveTab:
  "tabPanes (setActiveTab env index s)
     = (if 0 \<le> index \<and> index < int (length (tabLinks s))
        then updateTabPanes index (tabPanes s) else tabPanes s)"
  "tabPanes (setActiveTab_opt env index s)
     = (if 0 \<le> index \<and> index < int (length (tabLinks s))
        then updateTabPanes index (tabPanes s) else tabPanes s)"
  by (cases "0 \<le> index \<and> index < int (length (tabLinks s))";
      auto simp: setActiveTab_valid setActiveTab_invalid Let_def)+

lemma strip_setActiveTab:
  "strip_animation (tabLinks (setActiveTab env index s))
     = (if 0 \<le> index \<and> index < int (length (tabLinks s))
        then strip_animation (updateTabLinks index (tabLinks s))
        else strip_animation (tabLinks s))"
  "strip_animation (tabLinks (setActiveTab_opt env index s))
     = (if 0 \<le> index \<and> index < int (length (tabLinks s))
        then strip_animation (updateTabLinks index (tabLinks s))
        else strip_animation (tabLinks s))"
  by (cases "0 \<le> index \<and> index < int (length (tabLinks s))";
      auto simp: setActiveTab_valid setActiveTab_invalid Let_def)+

lemma length_strip [simp]: "length (strip_animation links) = length links"
  by (simp add: strip_animation_def)

lemma length_links_setActiveTab [simp]:
  "length (tabLinks (setActiveTab env index s)) = length (tabLinks s)"
  "length (tabLinks (setActiveTab_opt env index s)) = length (tabLinks s)"
  using strip_setActiveTab [of env index s]
  by (metis length_strip length_updateTabLinks)+

lemma timers_ok_setActiveTab:
  assumes "timers_ok s"
  shows "timers_ok (setActiveTab env index s)" and "timers_ok (setActiveTab_opt env index s)"
proof -
  let ?s5 = "closeDropdownIfOpen (updateDropdownText index
               (s\<lparr>tabLinks := updateTabLinks index (tabLinks s),
                  tabPanes := updateTabPanes index (tabPanes s),
                  currentActiveIndex := index\<rparr>))"
  have s5: "timers_ok ?s5" "timers_ok (?s5\<lparr>autoplayElapsedTime := 0\<rparr>)"
    using assms timers_ok_cong [of ?s5 s] timers_ok_cong [of "?s5\<lparr>autoplayElapsedTime := 0\<rparr>" s]
    by simp_all
  show "timers_ok (setActiveTab env index s)"
    using assms s5 timers_ok_restartAutoplay(1) [OF s5(1), of env]
    by (cases "0 \<le> index \<and> index < int (length (tabLinks s))")
       (auto simp: setActiveTab_valid setActiveTab_invalid Let_def)
  show "timers_ok (setActiveTab_opt env index s)"
    using assms s5 timers_ok_restartAutoplay(2) [OF s5(1), of env]
    by (cases "0 \<le> index \<and> index < int (length (tabLinks s))")
       (auto simp: setActiveTab_valid setActiveTab_invalid Let_def)
qed

lemma auto_delays_setActiveTab:
  assumes "timers_ok s"
  shows "auto_delays (setActiveTab env index s)
           = (if 0 \<le> index \<and> index < int (length (tabLinks s))
                 \<and> autoplayEnabled s \<and> \<not> isAutoplayPaused s
              then [durationMs s] else auto_delays s)"
    and "auto_delays (setActiveTab_opt env index s)
           = (if 0 \<le> index \<and> index < int (length (tabLinks s))
                 \<and> autoplayEnabled s \<and> \<not> isAutoplayPaused s
              then [durationMs s] else auto_delays s)"
proof -
  let ?s5 = "closeDropdownIfOpen (updateDropdownText index
               (s\<lparr>tabLinks := updateTabLinks index (tabLinks s),
                  tabPanes := updateTabPanes index (tabPanes s),
                  currentActiveIndex := index\<rparr>))"
  have ok: "timers_ok ?s5"
    using assms timers_ok_cong [of ?s5 s] by simp
  have same: "auto_delays ?s5 = auto_delays s"
    "auto_delays (?s5\<lparr>autoplayElapsedTime := 0\<rparr>) = auto_delays s"
    by (rule auto_delays_cong, simp)+
  have dur: "durationMs ?s5 = durationMs s" by (simp add: durationMs_def)
  show "auto_delays (setActiveTab env index s)
           = (if 0 \<le> index \<and> index < int (length (tabLinks s))
                 \<and> autoplayEnabled s \<and> \<not> isAutoplayPaused s
              then [durationMs s] else auto_delays s)"
    using same dur auto_delays_restartAutoplay(1) [OF ok, of env]
    by (cases "0 \<le> index \<and> index < int (length (tabLinks s))")
       (auto simp: setActiveTab_valid setActiveTab_invalid Let_def)
  show "auto_delays (setActiveTab_opt env index s)
           = (if 0 \<le> index \<and> index < int (length (tabLinks s))
                 \<and> autoplayEnabled s \<and> \<not> isAutoplayPaused s
              then [durationMs s] else auto_delays s)"
    using same dur auto_delays_restartAutoplay(2) [OF ok, of env]
    by (cases "0 \<le> index \<and> index < int (length (tabLinks s))")
       (auto simp: setActiveTab_valid setActiveTab_invalid Let_def)
qed

subsection \<open>Out-of-range indices\<close>

text \<open>C7. For every integer index below zero or not below the number of tab links,
  \<open>setActiveTab(index)\<close> returns at its first line: the whole state (active index, every
  attribute of every link and pane, elapsed time, timer, everything else) is what it
  was. It returns normally; the model has no error to raise. This is so in tabs.js
  and in part_000.\<close>

theorem setActiveTab_out_of_range_noop:
  assumes "index < 0 \<or> int (length (tabLinks s)) \<le> index"
  shows "setActiveTab env index s = s \<and> setActiveTab_opt env index s = s"
  using assms by (simp add: setActiveTab_def setActiveTab_opt_def)

theorem setActiveTab_out_of_range_noop_witness:
  "setActiveTab (at_time 9) 3 (demo_mounted autoplay_attrs three_tabs)
     = demo_mounted autoplay_attrs three_tabs
   \<and> setActiveTab_opt (at_time 9) (- 1) (demo_mounted_opt autoplay_attrs three_tabs)
     = demo_mounted_opt autoplay_attrs three_tabs"
proof -
  have "int (length (tabLinks (demo_mounted autoplay_attrs three_tabs))) \<le> 3"
    by code_simp
  then show ?thesis
    using setActiveTab_out_of_range_noop
            [of 3 "demo_mounted autoplay_attrs three_tabs" "at_time 9"]
          setActiveTab_out_of_range_noop
            [of "- 1" "demo_mounted_opt autoplay_attrs three_tabs" "at_time 9"]
    by simp
qed

subsection \<open>Exactly one tab is marked\<close>

lemma positions_map: "positions P (map f xs) = positions (\<lambda>x. P (f x)) xs"
  by (auto simp: positions_def intro: filter_cong)

lemma positions_strip:
  "positions aria_selected (strip_animation xs) = positions aria_selected xs"
  "positions cc_active (strip_animation xs) = positions cc_active xs"
  by (simp_all add: strip_animation_def positions_map)

lemma marks_updateTabLinks:
  assumes "0 \<le> index" "index < int (length links)"
  shows "positions aria_selected (updateTabLinks index links) = [nat index]"
    and "positions cc_active (updateTabLinks index links) = [nat index]"
proof -
  have sel: "\<And>j. j < length (updateTabLinks index links) \<Longrightarrow>
               aria_selected (updateTabLinks index links ! j) = (j = nat index)"
    and act: "\<And>j. j < length (updateTabLinks index links) \<Longrightarrow>
               cc_active (updateTabLinks index links ! j) = (j = nat index)"
    using assms by (auto simp: nth_updateTabLinks)
  show "positions aria_selected (updateTabLinks index links) = [nat index]"
    using positions_only [OF sel] assms by simp
  show "positions cc_active (updateTabLinks index links) = [nat index]"
    using positions_only [OF act] assms by simp
qed

lemma shown_updateTabPanes:
  assumes "0 \<le> index"
  shows "positions (\<lambda>pane. \<not> aria_hidden pane) (updateTabPanes index panes)
           = (if nat index < length panes then [nat index] else [])"
proof -
  have "\<And>j. j < length (updateTabPanes index panes) \<Longrightarrow>
          (\<not> aria_hidden (updateTabPanes index panes ! j)) = (j = nat index)"
    using assms by (auto simp: nth_updateTabPanes)
  from positions_only [OF this] show ?thesis by simp
qed

text \<open>C1, as amended. For every valid index, after \<open>setActiveTab(index)\<close> the tab link at
  that position is the only one with \<open>aria-selected\<close> true and the only one with the
  active class. Every pane at a position other than \<open>index\<close> is hidden, and the pane at
  position \<open>index\<close> is the only one shown when the component has a pane there; when it
  has fewer panes than links and \<open>index\<close> is beyond them, every pane is hidden. This is
  so in tabs.js and in part_000.\<close>

theorem setActiveTab_marks_index:
  assumes "0 \<le> index" "index < int (length (tabLinks s))"
  shows "selected_links (setActiveTab env index s) = [nat index]
       \<and> active_links (setActiveTab env index s) = [nat index]
       \<and> shown_panes (setActiveTab env index s)
           = (if nat index < length (tabPanes s) then [nat index] else [])
       \<and> selected_links (setActiveTab_opt env index s) = [nat index]
       \<and> active_links (setActiveTab_opt env index s) = [nat index]
       \<and> shown_panes (setActiveTab_opt env index s)
           = (if nat index < length (tabPanes s) then [nat index] else [])"
proof -
  have links: "strip_animation (tabLinks (setActiveTab env index s))
                 = strip_animation (updateTabLinks index (tabLinks s))"
    "strip_animation (tabLinks (setActiveTab_opt env index s))
                 = strip_animation (updateTabLinks index (tabLinks s))"
    using assms by (simp_all add: strip_setActiveTab)
  have sel: "selected_links (setActiveTab env index s) = [nat index]"
    "selected_links (setActiveTab_opt env index s) = [nat index]"
    unfolding selected_links_def
    using positions_strip(1) [of "tabLinks (setActiveTab env index s)"]
          positions_strip(1) [of "tabLinks (setActiveTab_opt env index s)"]
          marks_updateTabLinks(1) [OF assms]
    by (simp_all add: links positions_strip)
  have act: "active_links (setActiveTab env index s) = [nat index]"
    "active_links (setActiveTab_opt env index s) = [nat index]"
    unfolding active_links_def
    using positions_strip(2) [of "tabLinks (setActiveTab env index s)"]
          positions_strip(2) [of "tabLinks (setActiveTab_opt env index s)"]
          marks_updateTabLinks(2) [OF assms]
    by (simp_all add: links positions_strip)
  have shown: "shown_panes (setActiveTab env index s)
                 = (if nat index < length (tabPanes s) then [nat index] else [])"
    "shown_panes (setActiveTab_opt env index s)
                 = (if nat index < length (tabPanes s) then [nat index] else [])"
    unfolding shown_panes_def
    using assms shown_updateTabPanes [OF assms(1), of "tabPanes s"]
    by (simp_all add: panes_setActiveTab)
  from sel act shown show ?thesis by simp
qed

theorem setActiveTab_marks_index_witness:
  "selected_links (setActiveTab (at_time 9) 2 (demo_mounted autoplay_attrs three_tabs)) = [2]
   \<and> active_links (setActiveTab (at_time 9) 2 (demo_mounted autoplay_attrs three_tabs)) = [2]
   \<and> shown_panes (setActiveTab (at_time 9) 2 (demo_mounted autoplay_attrs three_tabs)) = [2]
   \<and> selected_links (setActiveTab_opt (at_time 9) 2 (demo_mounted autoplay_attrs three_tabs)) = [2]
   \<and> active_links (setActiveTab_opt (at_time 9) 2 (demo_mounted autoplay_attrs three_tabs)) = [2]
   \<and> shown_panes (setActiveTab_opt (at_time 9) 2 (demo_mounted autoplay_attrs three_tabs)) = [2]"
proof -
  have len: "length (tabLinks (demo_mounted autoplay_attrs three_tabs)) = 3"
    "length (tabPanes (demo_mounted autoplay_attrs three_tabs)) = 3"
    by code_simp+
  show ?thesis
    using setActiveTab_marks_index
            [of 2 "demo_mounted autoplay_attrs three_tabs" "at_time 9"]
    by (simp add: len)
qed

text \<open>The claim as stated fails where the component has fewer panes than tab links,
  which it mounts all the same: with two links and one pane, \<open>setActiveTab(1)\<close> marks
  link 1 and leaves no pane shown.\<close>

theorem setActiveTab_no_pane_shown:
  "initTabsComponent (at_time 0) plain_attrs two_tabs_one_pane
     = Some (demo_mounted plain_attrs two_tabs_one_pane)
   \<and> (1 :: int) < int (length (tabLinks (demo_mounted plain_attrs two_tabs_one_pane)))
   \<and> selected_links (setActiveTab (at_time 9) 1 (demo_mounted plain_attrs two_tabs_one_pane)) = [1]
   \<and> shown_panes (setActiveTab (at_time 9) 1 (demo_mounted plain_attrs two_tabs_one_pane)) = []
   \<and> shown_panes (setActiveTab_opt (at_time 9) 1 (demo_mounted plain_attrs two_tabs_one_pane)) = []"
  by code_simp

subsection \<open>Keyboard navigation\<close>

lemma index_escapeHandler [simp]:
  "currentActiveIndex (escapeHandler key s) = currentActiveIndex s"
  by (simp add: escapeHandler_def)

lemma keyIndex_valid:
  assumes "index_ok s" "keyIndex key s = Some j"
  shows "0 \<le> j \<and> j < int (length (tabLinks s))"
proof -
  let ?n = "int (length (tabLinks s))" and ?cur = "currentActiveIndex s"
  from assms(2) have "j = (if ?cur > 0 then ?cur - 1 else ?n - 1)
      \<or> j = (if ?cur < ?n - 1 then ?cur + 1 else 0) \<or> j = 0 \<or> j = ?n - 1"
    unfolding keyIndex_def Let_def by (simp split: if_split_asm)
  with assms(1) show ?thesis
    unfolding index_ok_def by (auto split: if_splits)
qed

lemma index_keydownHandler:
  assumes "index_ok s"
  shows "currentActiveIndex (keydownHandler env key s)
           = (case keyIndex key s of None \<Rightarrow> currentActiveIndex s | Some i \<Rightarrow> i)"
    and "currentActiveIndex (keydownHandler_opt env key s)
           = (case keyIndex key s of None \<Rightarrow> currentActiveIndex s | Some i \<Rightarrow> i)"
  using keyIndex_valid [OF assms, of key]
  by (cases "keyIndex key s";
      simp add: keydownHandler_def keydownHandler_opt_def index_setActiveTab)+

text \<open>C9. In a component whose active index is a position of a link (so it has at least
  one link), a keydown on the overlay of a tab link that has one moves the active
  index: ArrowRight to the next position and from the last to 0, ArrowLeft to the
  previous position and from 0 to the last, Home to 0, End to the last. This is so in
  tabs.js and in part_000.\<close>

theorem arrow_keys_wrap:
  assumes "index_ok s" "OverlayKeydown i \<in> set (registered s)"
  shows "currentActiveIndex (handle env (KeyDown (OverlayEl i) ''ArrowRight'') s)
           = (if currentActiveIndex s = int (length (tabLinks s)) - 1 then 0
              else currentActiveIndex s + 1)
       \<and> currentActiveIndex (handle env (KeyDown (OverlayEl i) ''ArrowLeft'') s)
           = (if currentActiveIndex s = 0 then int (length (tabLinks s)) - 1
              else currentActiveIndex s - 1)
       \<and> currentActiveIndex (handle env (KeyDown (OverlayEl i) ''Home'') s) = 0
       \<and> currentActiveIndex (handle env (KeyDown (OverlayEl i) ''End'') s)
           = int (length (tabLinks s)) - 1
       \<and> currentActiveIndex (handle_opt env (KeyDown (OverlayEl i) ''ArrowRight'') s)
           = (if currentActiveIndex s = int (length (tabLinks s)) - 1 then 0
              else currentActiveIndex s + 1)
       \<and> currentActiveIndex (handle_opt env (KeyDown (OverlayEl i) ''ArrowLeft'') s)
           = (if currentActiveIndex s = 0 then int (length (tabLinks s)) - 1
              else currentActiveIndex s - 1)
       \<and> currentActiveIndex (handle_opt env (KeyDown (OverlayEl i) ''Home'') s) = 0
       \<and> currentActiveIndex (handle_opt env (KeyDown (OverlayEl i) ''End'') s)
           = int (length (tabLinks s)) - 1"
proof -
  have key: "\<And>key. currentActiveIndex (handle env (KeyDown (OverlayEl i) key) s)
                      = (case keyIndex key s of None \<Rightarrow> currentActiveIndex s | Some j \<Rightarrow> j)"
    "\<And>key. currentActiveIndex (handle_opt env (KeyDown (OverlayEl i) key) s)
                      = (case keyIndex key s of None \<Rightarrow> currentActiveIndex s | Some j \<Rightarrow> j)"
    using assms(2) index_keydownHandler [OF assms(1)]
    by (simp_all add: on_def)
  have idx: "keyIndex ''ArrowRight'' s
               = Some (if currentActiveIndex s = int (length (tabLinks s)) - 1 then 0
                       else currentActiveIndex s + 1)"
    "keyIndex ''ArrowLeft'' s
               = Some (if currentActiveIndex s = 0 then int (length (tabLinks s)) - 1
                       else currentActiveIndex s - 1)"
    "keyIndex ''Home'' s = Some 0"
    "keyIndex ''End'' s = Some (int (length (tabLinks s)) - 1)"
    using assms(1) by (auto simp: keyIndex_def index_ok_def Let_def)
  show ?thesis
    by (simp only: key idx option.case)
qed

theorem arrow_keys_wrap_witness:
  "currentActiveIndex (handle (at_time 9) (KeyDown (OverlayEl 0) ''ArrowRight'')
       (setActiveTab (at_time 8) 2 (demo_mounted autoplay_attrs three_tabs))) = 0
   \<and> currentActiveIndex (handle (at_time 9) (KeyDown (OverlayEl 0) ''ArrowLeft'')
       (demo_mounted autoplay_attrs three_tabs)) = 2
   \<and> currentActiveIndex (handle_opt (at_time 9) (KeyDown (OverlayEl 0) ''ArrowRight'')
       (setActiveTab (at_time 8) 2 (demo_mounted autoplay_attrs three_tabs))) = 0
   \<and> currentActiveIndex (handle_opt (at_time 9) (KeyDown (OverlayEl 0) ''ArrowLeft'')
       (demo_mounted autoplay_attrs three_tabs)) = 2"
proof -
  let ?s0 = "demo_mounted autoplay_attrs three_tabs"
  let ?s2 = "setActiveTab (at_time 8) 2 ?s0"
  have s0: "index_ok ?s0" "OverlayKeydown 0 \<in> set (registered ?s0)"
    "currentActiveIndex ?s0 = 0" "length (tabLinks ?s0) = 3"
    by code_simp+
  have s2: "index_ok ?s2" "OverlayKeydown 0 \<in> set (registered ?s2)"
    "currentActiveIndex ?s2 = 2" "length (tabLinks ?s2) = 3"
    by code_simp+
  show ?thesis
    using arrow_keys_wrap [OF s0(1,2), of "at_time 9"] arrow_keys_wrap [OF s2(1,2), of "at_time 9"]
    by (simp add: s0 s2)
qed

subsection \<open>What the setup functions leave as it is\<close>

lemma foldl_frame: "(\<And>s x. g (f s x) = g s) \<Longrightarrow> g (foldl f s xs) = g s"
  by (induction xs arbitrary: s) simp_all

lemma addEventListener_frame [simp]:
  "tabLinks (addEventListener l s) = tabLinks s"
  "tabPanes (addEventListener l s) = tabPanes s"
  "currentActiveIndex (addEventListener l s) = currentActiveIndex s"
  "autoplayEnabled (addEventListener l s) = autoplayEnabled s"
  "autoplayDuration (addEventListener l s) = autoplayDuration s"
  "autoplayHoverPause (addEventListener l s) = autoplayHoverPause s"
  "dropdownToggle (addEventListener l s) = dropdownToggle s"
  "dropdownText (addEventListener l s) = dropdownText s"
  "isMobileDropdown (addEventListener l s) = isMobileDropdown s"
  "toggleButton (addEventListener l s) = toggleButton s"
  "autoplayTimer (addEventListener l s) = autoplayTimer s"
  "autoplayObserver (addEventListener l s) = autoplayObserver s"
  "isAutoplayPaused (addEventListener l s) = isAutoplayPaused s"
  "autoplayStartTime (addEventListener l s) = autoplayStartTime s"
  "autoplayElapsedTime (addEventListener l s) = autoplayElapsedTime s"
  "pending (addEventListener l s) = pending s"
  "timer_counter (addEventListener l s) = timer_counter s"
  "observing (addEventListener l s) = observing s"
  "resizeTimer (addEventListener l s) = resizeTimer s"
  "eventListeners (addEventListener l s) = eventListeners s"
  "rafQueue (addEventListener l s) = rafQueue s"
  "cachedWindowWidth (addEventListener l s) = cachedWindowWidth s"
  "menu_cc_open (addEventListener l s) = menu_cc_open s"
  by (simp_all add: addEventListener_def)

lemma removeEventListener_frame [simp]:
  "tabLinks (removeEventListener l s) = tabLinks s"
  "tabPanes (removeEventListener l s) = tabPanes s"
  "currentActiveIndex (removeEventListener l s) = currentActiveIndex s"
  "autoplayEnabled (removeEventListener l s) = autoplayEnabled s"
  "autoplayDuration (removeEventListener l s) = autoplayDuration s"
  "autoplayHoverPause (removeEventListener l s) = autoplayHoverPause s"
  "dropdownToggle (removeEventListener l s) = dropdownToggle s"
  "dropdownText (removeEventListener l s) = dropdownText s"
  "isMobileDropdown (removeEventListener l s) = isMobileDropdown s"
  "toggleButton (removeEventListener l s) = toggleButton s"
  "autoplayTimer (removeEventListener l s) = autoplayTimer s"
  "autoplayObserver (removeEventListener l s) = autoplayObserver s"
  "isAutoplayPaused (removeEventListener l s) = isAutoplayPaused s"
  "autoplayStartTime (removeEventListener l s) = autoplayStartTime s"
  "autoplayElapsedTime (removeEventListener l s) = autoplayElapsedTime s"
  "pending (removeEventListener l s) = pending s"
  "timer_counter (removeEventListener l s) = timer_counter s"
  "observing (removeEventListener l s) = observing s"
  "resizeTimer (removeEventListener l s) = resizeTimer s"
  "eventListeners (removeEventListener l s) = eventListeners s"
  "rafQueue (removeEventListener l s) = rafQueue s"
  "cachedWindowWidth (removeEventListener l s) = cachedWindowWidth s"
  "menu_cc_open (removeEventListener l s) = menu_cc_open s"
  by (simp_all add: removeEventListener_def)

lemma pushListener_frame [simp]:
  "tabLinks (pushListener l s) = tabLinks s"
  "tabPanes (pushListener l s) = tabPanes s"
  "currentActiveIndex (pushListener l s) = currentActiveIndex s"
  "autoplayEnabled (pushListener l s) = autoplayEnabled s"
  "autoplayDuration (pushListener l s) = autoplayDuration s"
  "autoplayHoverPause (pushListener l s) = autoplayHoverPause s"
  "dropdownToggle (pushListener l s) = dropdownToggle s"
  "dropdownText (pushListener l s) = dropdownText s"
  "isMobileDropdown (pushListener l s) = isMobileDropdown s"
  "toggleButton (pushListener l s) = toggleButton s"
  "autoplayTimer (pushListener l s) = autoplayTimer s"
  "autoplayObserver (pushListener l s) = autoplayObserver s"
  "isAutoplayPaused (pushListener l s) = isAutoplayPaused s"
  "autoplayStartTime (pushListener l s) = autoplayStartTime s"
  "autoplayElapsedTime (pushListener l s) = autoplayElapsedTime s"
  "pending (pushListener l s) = pending s"
  "timer_counter (pushListener l s) = timer_counter s"
  "registered (pushListener l s) = registered s"
  "observing (pushListener l s) = observing s"
  "resizeTimer (pushListener l s) = resizeTimer s"
  "rafQueue (pushListener l s) = rafQueue s"
  "cachedWindowWidth (pushListener l s) = cachedWindowWidth s"
  "menu_cc_open (pushListener l s) = menu_cc_open s"
  by (simp_all add: pushListener_def)

lemma setupDropdownLabel_frame [simp]:
  "tabLinks (setupDropdownLabel s) = tabLinks s"
  "tabPanes (setupDropdownLabel s) = tabPanes s"
  "currentActiveIndex (setupDropdownLabel s) = currentActiveIndex s"
  "autoplayEnabled (setupDropdownLabel s) = autoplayEnabled s"
  "autoplayDuration (setupDropdownLabel s) = autoplayDuration s"
  "autoplayHoverPause (setupDropdownLabel s) = autoplayHoverPause s"
  "dropdownToggle (setupDropdownLabel s) = dropdownToggle s"
  "dropdownText (setupDropdownLabel s) = dropdownText s"
  "isMobileDropdown (setupDropdownLabel s) = isMobileDropdown s"
  "toggleButton (setupDropdownLabel s) = toggleButton s"
  "autoplayTimer (setupDropdownLabel s) = autoplayTimer s"
  "autoplayObserver (setupDropdownLabel s) = autoplayObserver s"
  "isAutoplayPaused (setupDropdownLabel s) = isAutoplayPaused s"
  "autoplayStartTime (setupDropdownLabel s) = autoplayStartTime s"
  "autoplayElapsedTime (setupDropdownLabel s) = autoplayElapsedTime s"
  "pending (setupDropdownLabel s) = pending s"
  "timer_counter (setupDropdownLabel s) = timer_counter s"
  "registered (setupDropdownLabel s) = registered s"
  "observing (setupDropdownLabel s) = observing s"
  "resizeTimer (setupDropdownLabel s) = resizeTimer s"
  "eventListeners (setupDropdownLabel s) = eventListeners s"
  "rafQueue (setupDropdownLabel s) = rafQueue s"
  "cachedWindowWidth (setupDropdownLabel s) = cachedWindowWidth s"
  "menu_cc_open (setupDropdownLabel s) = menu_cc_open s"
  by (simp_all add: setupDropdownLabel_def Let_def split: option.splits)

lemma setupMobileDropdown_frame [simp]:
  "tabLinks (setupMobileDropdown s) = tabLinks s"
  "tabPanes (setupMobileDropdown s) = tabPanes s"
  "currentActiveIndex (setupMobileDropdown s) = currentActiveIndex s"
  "autoplayEnabled (setupMobileDropdown s) = autoplayEnabled s"
  "autoplayDuration (setupMobileDropdown s) = autoplayDuration s"
  "autoplayHoverPause (setupMobileDropdown s) = autoplayHoverPause s"
  "dropdownToggle (setupMobileDropdown s) = dropdownToggle s"
  "dropdownText (setupMobileDropdown s) = dropdownText s"
  "isMobileDropdown (setupMobileDropdown s) = isMobileDropdown s"
  "toggleButton (setupMobileDropdown s) = toggleButton s"
  "autoplayTimer (setupMobileDropdown s) = autoplayTimer s"
  "autoplayObserver (setupMobileDropdown s) = autoplayObserver s"
  "isAutoplayPaused (setupMobileDropdown s) = isAutoplayPaused s"
  "autoplayStartTime (setupMobileDropdown s) = autoplayStartTime s"
  "autoplayElapsedTime (setupMobileDropdown s) = autoplayElapsedTime s"
  "pending (setupMobileDropdown s) = pending s"
  "timer_counter (setupMobileDropdown s) = timer_counter s"
  "observing (setupMobileDropdown s) = observing s"
  "resizeTimer (setupMobileDropdown s) = resizeTimer s"
  "eventListeners (setupMobileDropdown s) = eventListeners s"
  "rafQueue (setupMobileDropdown s) = rafQueue s"
  "cachedWindowWidth (setupMobileDropdown s) = cachedWindowWidth s"
  "menu_cc_open (setupMobileDropdown s) = menu_cc_open s"
  by (simp_all add: setupMobileDropdown_def Let_def)

lemma setupMobileDropdown_opt_frame [simp]:
  "tabLinks (setupMobileDropdown_opt s) = tabLinks s"
  "tabPanes (setupMobileDropdown_opt s) = tabPanes s"
  "currentActiveIndex (setupMobileDropdown_opt s) = currentActiveIndex s"
  "autoplayEnabled (setupMobileDropdown_opt s) = autoplayEnabled s"
  "autoplayDuration (setupMobileDropdown_opt s) = autoplayDuration s"
  "autoplayHoverPause (setupMobileDropdown_opt s) = autoplayHoverPause s"
  "dropdownToggle (setupMobileDropdown_opt s) = dropdownToggle s"
  "dropdownText (setupMobileDropdown_opt s) = dropdownText s"
  "isMobileDropdown (setupMobileDropdown_opt s) = isMobileDropdown s"
  "toggleButton (setupMobileDropdown_opt s) = toggleButton s"
  "autoplayTimer (setupMobileDropdown_opt s) = autoplayTimer s"
  "autoplayObserver (setupMobileDropdown_opt s) = autoplayObserver s"
  "isAutoplayPaused (setupMobileDropdown_opt s) = isAutoplayPaused s"
  "autoplayStartTime (setupMobileDropdown_opt s) = autoplayStartTime s"
  "autoplayElapsedTime (setupMobileDropdown_opt s) = autoplayElapsedTime s"
  "pending (setupMobileDropdown_opt s) = pending s"
  "timer_counter (setupMobileDropdown_opt s) = timer_counter s"
  "observing (setupMobileDropdown_opt s) = observing s"
  "resizeTimer (setupMobileDropdown_opt s) = resizeTimer s"
  "rafQueue (setupMobileDropdown_opt s) = rafQueue s"
  "cachedWindowWidth (setupMobileDropdown_opt s) = cachedWindowWidth s"
  "menu_cc_open (setupMobileDropdown_opt s) = menu_cc_open s"
  by (simp_all add: setupMobileDropdown_opt_def Let_def)

lemma setupAutoplayProgressBars_frame [simp]:
  "tabLinks (setupAutoplayProgressBars s) = tabLinks s"
  "tabPanes (setupAutoplayProgressBars s) = tabPanes s"
  "currentActiveIndex (setupAutoplayProgressBars s) = currentActiveIndex s"
  "autoplayEnabled (setupAutoplayProgressBars s) = autoplayEnabled s"
  "autoplayDuration (setupAutoplayProgressBars s) = autoplayDuration s"
  "autoplayHoverPause (setupAutoplayProgressBars s) = autoplayHoverPause s"
  "dropdownToggle (setupAutoplayProgressBars s) = dropdownToggle s"
  "dropdownText (setupAutoplayProgressBars s) = dropdownText s"
  "isMobileDropdown (setupAutoplayProgressBars s) = isMobileDropdown s"
  "toggleButton (setupAutoplayProgressBars s) = toggleButton s"
  "autoplayTimer (setupAutoplayProgressBars s) = autoplayTimer s"
  "autoplayObserver (setupAutoplayProgressBars s) = autoplayObserver s"
  "isAutoplayPaused (setupAutoplayProgressBars s) = isAutoplayPaused s"
  "autoplayStartTime (setupAutoplayProgressBars s) = autoplayStartTime s"
  "autoplayElapsedTime (setupAutoplayProgressBars s) = autoplayElapsedTime s"
  "pending (setupAutoplayProgressBars s) = pending s"
  "timer_counter (setupAutoplayProgressBars s) = timer_counter s"
  "registered (setupAutoplayProgressBars s) = registered s"
  "observing (setupAutoplayProgressBars s) = observing s"
  "resizeTimer (setupAutoplayProgressBars s) = resizeTimer s"
  "eventListeners (setupAutoplayProgressBars s) = eventListeners s"
  "rafQueue (setupAutoplayProgressBars s) = rafQueue s"
  "cachedWindowWidth (setupAutoplayProgressBars s) = cachedWindowWidth s"
  "menu_cc_open (setupAutoplayProgressBars s) = menu_cc_open s"
  by (simp_all add: setupAutoplayProgressBars_def)

lemma setupAutoplayObserver_frame [simp]:
  "tabLinks (setupAutoplayObserver s) = tabLinks s"
  "tabPanes (setupAutoplayObserver s) = tabPanes s"
  "currentActiveIndex (setupAutoplayObserver s) = currentActiveIndex s"
  "autoplayEnabled (setupAutoplayObserver s) = autoplayEnabled s"
  "autoplayDuration (setupAutoplayObserver s) = autoplayDuration s"
  "autoplayHoverPause (setupAutoplayObserver s) = autoplayHoverPause s"
  "dropdownToggle (setupAutoplayObserver s) = dropdownToggle s"
  "dropdownText (setupAutoplayObserver s) = dropdownText s"
  "isMobileDropdown (setupAutoplayObserver s) = isMobileDropdown s"
  "toggleButton (setupAutoplayObserver s) = toggleButton s"
  "autoplayTimer (setupAutoplayObserver s) = autoplayTimer s"
  "isAutoplayPaused (setupAutoplayObserver s) = isAutoplayPaused s"
  "autoplayStartTime (setupAutoplayObserver s) = autoplayStartTime s"
  "autoplayElapsedTime (setupAutoplayObserver s) = autoplayElapsedTime s"
  "pending (setupAutoplayObserver s) = pending s"
  "timer_counter (setupAutoplayObserver s) = timer_counter s"
  "registered (setupAutoplayObserver s) = registered s"
  "resizeTimer (setupAutoplayObserver s) = resizeTimer s"
  "eventListeners (setupAutoplayObserver s) = eventListeners s"
  "rafQueue (setupAutoplayObserver s) = rafQueue s"
  "cachedWindowWidth (setupAutoplayObserver s) = cachedWindowWidth s"
  "menu_cc_open (setupAutoplayObserver s) = menu_cc_open s"
  by (simp_all add: setupAutoplayObserver_def)

lemma setupAutoplayHoverPause_frame [simp]:
  "tabLinks (setupAutoplayHoverPause s) = tabLinks s"
  "tabPanes (setupAutoplayHoverPause s) = tabPanes s"
  "currentActiveIndex (setupAutoplayHoverPause s) = currentActiveIndex s"
  "autoplayEnabled (setupAutoplayHoverPause s) = autoplayEnabled s"
  "autoplayDuration (setupAutoplayHoverPause s) = autoplayDuration s"
  "autoplayHoverPause (setupAutoplayHoverPause s) = autoplayHoverPause s"
  "dropdownToggle (setupAutoplayHoverPause s) = dropdownToggle s"
  "dropdownText (setupAutoplayHoverPause s) = dropdownText s"
  "isMobileDropdown (setupAutoplayHoverPause s) = isMobileDropdown s"
  "toggleButton (setupAutoplayHoverPause s) = toggleButton s"
  "autoplayTimer (setupAutoplayHoverPause s) = autoplayTimer s"
  "autoplayObserver (setupAutoplayHoverPause s) = autoplayObserver s"
  "isAutoplayPaused (setupAutoplayHoverPause s) = isAutoplayPaused s"
  "autoplayStartTime (setupAutoplayHoverPause s) = autoplayStartTime s"
  "autoplayElapsedTime (setupAutoplayHoverPause s) = autoplayElapsedTime s"
  "pending (setupAutoplayHoverPause s) = pending s"
  "timer_counter (setupAutoplayHoverPause s) = timer_counter s"
  "observing (setupAutoplayHoverPause s) = observing s"
  "resizeTimer (setupAutoplayHoverPause s) = resizeTimer s"
  "eventListeners (setupAutoplayHoverPause s) = eventListeners s"
  "rafQueue (setupAutoplayHoverPause s) = rafQueue s"
  "cachedWindowWidth (setupAutoplayHoverPause s) = cachedWindowWidth s"
  "menu_cc_open (setupAutoplayHoverPause s) = menu_cc_open s"
  by (simp_all add: setupAutoplayHoverPause_def)

lemma setupAutoplayHoverPause_opt_frame [simp]:
  "tabLinks (setupAutoplayHoverPause_opt s) = tabLinks s"
  "tabPanes (setupAutoplayHoverPause_opt s) = tabPanes s"
  "currentActiveIndex (setupAutoplayHoverPause_opt s) = currentActiveIndex s"
  "autoplayEnabled (setupAutoplayHoverPause_opt s) = autoplayEnabled s"
  "autoplayDuration (setupAutoplayHoverPause_opt s) = autoplayDuration s"
  "autoplayHoverPause (setupAutoplayHoverPause_opt s) = autoplayHoverPause s"
  "dropdownToggle (setupAutoplayHoverPause_opt s) = dropdownToggle s"
  "dropdownText (setupAutoplayHoverPause_opt s) = dropdownText s"
  "isMobileDropdown (setupAutoplayHoverPause_opt s) = isMobileDropdown s"
  "toggleButton (setupAutoplayHoverPause_opt s) = toggleButton s"
  "autoplayTimer (setupAutoplayHoverPause_opt s) = autoplayTimer s"
  "autoplayObserver (setupAutoplayHoverPause_opt s) = autoplayObserver s"
  "isAutoplayPaused (setupAutoplayHoverPause_opt s) = isAutoplayPaused s"
  "autoplayStartTime (setupAutoplayHoverPause_opt s) = autoplayStartTime s"
  "autoplayElapsedTime (setupAutoplayHoverPause_opt s) = autoplayElapsedTime s"
  "pending (setupAutoplayHoverPause_opt s) = pending s"
  "timer_counter (setupAutoplayHoverPause_opt s) = timer_counter s"
  "observing (setupAutoplayHoverPause_opt s) = observing s"
  "resizeTimer (setupAutoplayHoverPause_opt s) = resizeTimer s"
  "rafQueue (setupAutoplayHoverPause_opt s) = rafQueue s"
  "cachedWindowWidth (setupAutoplayHoverPause_opt s) = cachedWindowWidth s"
  "menu_cc_open (setupAutoplayHoverPause_opt s) = menu_cc_open s"
  by (simp_all add: setupAutoplayHoverPause_opt_def Let_def)

lemma setupAutoplayToggle_frame [simp]:
  "tabLinks (setupAutoplayToggle s) = tabLinks s"
  "tabPanes (setupAutoplayToggle s) = tabPanes s"
  "currentActiveIndex (setupAutoplayToggle s) = currentActiveIndex s"
  "autoplayEnabled (setupAutoplayToggle s) = autoplayEnabled s"
  "autoplayDuration (setupAutoplayToggle s) = autoplayDuration s"
  "autoplayHoverPause (setupAutoplayToggle s) = autoplayHoverPause s"
  "dropdownToggle (setupAutoplayToggle s) = dropdownToggle s"
  "dropdownText (setupAutoplayToggle s) = dropdownText s"
  "isMobileDropdown (setupAutoplayToggle s) = isMobileDropdown s"
  "toggleButton (setupAutoplayToggle s) = toggleButton s"
  "autoplayTimer (setupAutoplayToggle s) = autoplayTimer s"
  "autoplayObserver (setupAutoplayToggle s) = autoplayObserver s"
  "isAutoplayPaused (setupAutoplayToggle s) = isAutoplayPaused s"
  "autoplayStartTime (setupAutoplayToggle s) = autoplayStartTime s"
  "autoplayElapsedTime (setupAutoplayToggle s) = autoplayElapsedTime s"
  "pending (setupAutoplayToggle s) = pending s"
  "timer_counter (setupAutoplayToggle s) = timer_counter s"
  "observing (setupAutoplayToggle s) = observing s"
  "resizeTimer (setupAutoplayToggle s) = resizeTimer s"
  "eventListeners (setupAutoplayToggle s) = eventListeners s"
  "rafQueue (setupAutoplayToggle s) = rafQueue s"
  "cachedWindowWidth (setupAutoplayToggle s) = cachedWindowWidth s"
  "menu_cc_open (setupAutoplayToggle s) = menu_cc_open s"
  by (simp_all add: setupAutoplayToggle_def)

lemma setupAutoplayToggle_opt_frame [simp]:
  "tabLinks (setupAutoplayToggle_opt s) = tabLinks s"
  "tabPanes (setupAutoplayToggle_opt s) = tabPanes s"
  "currentActiveIndex (setupAutoplayToggle_opt s) = currentActiveIndex s"
  "autoplayEnabled (setupAutoplayToggle_opt s) = autoplayEnabled s"
  "autoplayDuration (setupAutoplayToggle_opt s) = autoplayDuration s"
  "autoplayHoverPause (setupAutoplayToggle_opt s) = autoplayHoverPause s"
  "dropdownToggle (setupAutoplayToggle_opt s) = dropdownToggle s"
  "dropdownText (setupAutoplayToggle_opt s) = dropdownText s"
  "isMobileDropdown (setupAutoplayToggle_opt s) = isMobileDropdown s"
  "toggleButton (setupAutoplayToggle_opt s) = toggleButton s"
  "autoplayTimer (setupAutoplayToggle_opt s) = autoplayTimer s"
  "autoplayObserver (setupAutoplayToggle_opt s) = autoplayObserver s"
  "isAutoplayPaused (setupAutoplayToggle_opt s) = isAutoplayPaused s"
  "autoplayStartTime (setupAutoplayToggle_opt s) = autoplayStartTime s"
  "autoplayElapsedTime (setupAutoplayToggle_opt s) = autoplayElapsedTime s"
  "pending (setupAutoplayToggle_opt s) = pending s"
  "timer_counter (setupAutoplayToggle_opt s) = timer_counter s"
  "observing (setupAutoplayToggle_opt s) = observing s"
  "resizeTimer (setupAutoplayToggle_opt s) = resizeTimer s"
  "rafQueue (setupAutoplayToggle_opt s) = rafQueue s"
  "cachedWindowWidth (setupAutoplayToggle_opt s) = cachedWindowWidth s"
  "menu_cc_open (setupAutoplayToggle_opt s) = menu_cc_open s"
  by (simp_all add: setupAutoplayToggle_opt_def)

lemma setupKeyboardNav_frame [simp]:
  "tabLinks (setupKeyboardNav s) = tabLinks s"
  "tabPanes (setupKeyboardNav s) = tabPanes s"
  "currentActiveIndex (setupKeyboardNav s) = currentActiveIndex s"
  "autoplayEnabled (setupKeyboardNav s) = autoplayEnabled s"
  "autoplayDuration (setupKeyboardNav s) = autoplayDuration s"
  "autoplayHoverPause (setupKeyboardNav s) = autoplayHoverPause s"
  "dropdownToggle (setupKeyboardNav s) = dropdownToggle s"
  "dropdownText (setupKeyboardNav s) = dropdownText s"
  "isMobileDropdown (setupKeyboardNav s) = isMobileDropdown s"
  "toggleButton (setupKeyboardNav s) = toggleButton s"
  "autoplayTimer (setupKeyboardNav s) = autoplayTimer s"
  "autoplayObserver (setupKeyboardNav s) = autoplayObserver s"
  "isAutoplayPaused (setupKeyboardNav s) = isAutoplayPaused s"
  "autoplayStartTime (setupKeyboardNav s) = autoplayStartTime s"
  "autoplayElapsedTime (setupKeyboardNav s) = autoplayElapsedTime s"
  "pending (setupKeyboardNav s) = pending s"
  "timer_counter (setupKeyboardNav s) = timer_counter s"
  "observing (setupKeyboardNav s) = observing s"
  "resizeTimer (setupKeyboardNav s) = resizeTimer s"
  "eventListeners (setupKeyboardNav s) = eventListeners s"
  "rafQueue (setupKeyboardNav s) = rafQueue s"
  "cachedWindowWidth (setupKeyboardNav s) = cachedWindowWidth s"
  "menu_cc_open (setupKeyboardNav s) = menu_cc_open s"
  unfolding setupKeyboardNav_def by (rule foldl_frame, simp split: prod.splits)+

lemma setupKeyboardNav_opt_frame [simp]:
  "tabLinks (setupKeyboardNav_opt s) = tabLinks s"
  "tabPanes (setupKeyboardNav_opt s) = tabPanes s"
  "currentActiveIndex (setupKeyboardNav_opt s) = currentActiveIndex s"
  "autoplayEnabled (setupKeyboardNav_opt s) = autoplayEnabled s"
  "autoplayDuration (setupKeyboardNav_opt s) = autoplayDuration s"
  "autoplayHoverPause (setupKeyboardNav_opt s) = autoplayHoverPause s"
  "dropdownToggle (setupKeyboardNav_opt s) = dropdownToggle s"
  "dropdownText (setupKeyboardNav_opt s) = dropdownText s"
  "isMobileDropdown (setupKeyboardNav_opt s) = isMobileDropdown s"
  "toggleButton (setupKeyboardNav_opt s) = toggleButton s"
  "autoplayTimer (setupKeyboardNav_opt s) = autoplayTimer s"
  "autoplayObserver (setupKeyboardNav_opt s) = autoplayObserver s"
  "isAutoplayPaused (setupKeyboardNav_opt s) = isAutoplayPaused s"
  "autoplayStartTime (setupKeyboardNav_opt s) = autoplayStartTime s"
  "autoplayElapsedTime (setupKeyboardNav_opt s) = autoplayElapsedTime s"
  "pending (setupKeyboardNav_opt s) = pending s"
  "timer_counter (setupKeyboardNav_opt s) = timer_counter s"
  "observing (setupKeyboardNav_opt s) = observing s"
  "resizeTimer (setupKeyboardNav_opt s) = resizeTimer s"
  "rafQueue (setupKeyboardNav_opt s) = rafQueue s"
  "cachedWindowWidth (setupKeyboardNav_opt s) = cachedWindowWidth s"
  "menu_cc_open (setupKeyboardNav_opt s) = menu_cc_open s"
  unfolding setupKeyboardNav_opt_def by (rule foldl_frame, simp split: prod.splits)+

lemma setupClickHandlers_frame [simp]:
  "tabLinks (setupClickHandlers s) = tabLinks s"
  "tabPanes (setupClickHandlers s) = tabPanes s"
  "currentActiveIndex (setupClickHandlers s) = currentActiveIndex s"
  "autoplayEnabled (setupClickHandlers s) = autoplayEnabled s"
  "autoplayDuration (setupClickHandlers s) = autoplayDuration s"
  "autoplayHoverPause (setupClickHandlers s) = autoplayHoverPause s"
  "dropdownToggle (setupClickHandlers s) = dropdownToggle s"
  "dropdownText (setupClickHandlers s) = dropdownText s"
  "isMobileDropdown (setupClickHandlers s) = isMobileDropdown s"
  "toggleButton (setupClickHandlers s) = toggleButton s"
  "autoplayTimer (setupClickHandlers s) = autoplayTimer s"
  "autoplayObserver (setupClickHandlers s) = autoplayObserver s"
  "isAutoplayPaused (setupClickHandlers s) = isAutoplayPaused s"
  "autoplayStartTime (setupClickHandlers s) = autoplayStartTime s"
  "autoplayElapsedTime (setupClickHandlers s) = autoplayElapsedTime s"
  "pending (setupClickHandlers s) = pending s"
  "timer_counter (setupClickHandlers s) = timer_counter s"
  "observing (setupClickHandlers s) = observing s"
  "resizeTimer (setupClickHandlers s) = resizeTimer s"
  "eventListeners (setupClickHandlers s) = eventListeners s"
  "rafQueue (setupClickHandlers s) = rafQueue s"
  "cachedWindowWidth (setupClickHandlers s) = cachedWindowWidth s"
  "menu_cc_open (setupClickHandlers s) = menu_cc_open s"
  unfolding setupClickHandlers_def by (rule foldl_frame, simp split: prod.splits)+

lemma setupClickHandlers_opt_frame [simp]:
  "tabLinks (setupClickHandlers_opt s) = tabLinks s"
  "tabPanes (setupClickHandlers_opt s) = tabPanes s"
  "currentActiveIndex (setupClickHandlers_opt s) = currentActiveIndex s"
  "autoplayEnabled (setupClickHandlers_opt s) = autoplayEnabled s"
  "autoplayDuration (setupClickHandlers_opt s) = autoplayDuration s"
  "autoplayHoverPause (setupClickHandlers_opt s) = autoplayHoverPause s"
  "dropdownToggle (setupClickHandlers_opt s) = dropdownToggle s"
  "dropdownText (setupClickHandlers_opt s) = dropdownText s"
  "isMobileDropdown (setupClickHandlers_opt s) = isMobileDropdown s"
  "toggleButton (setupClickHandlers_opt s) = toggleButton s"
  "autoplayTimer (setupClickHandlers_opt s) = autoplayTimer s"
  "autoplayObserver (setupClickHandlers_opt s) = autoplayObserver s"
  "isAutoplayPaused (setupClickHandlers_opt s) = isAutoplayPaused s"
  "autoplayStartTime (setupClickHandlers_opt s) = autoplayStartTime s"
  "autoplayElapsedTime (setupClickHandlers_opt s) = autoplayElapsedTime s"
  "pending (setupClickHandlers_opt s) = pending s"
  "timer_counter (setupClickHandlers_opt s) = timer_counter s"
  "observing (setupClickHandlers_opt s) = observing s"
  "resizeTimer (setupClickHandlers_opt s) = resizeTimer s"
  "rafQueue (setupClickHandlers_opt s) = rafQueue s"
  "cachedWindowWidth (setupClickHandlers_opt s) = cachedWindowWidth s"
  "menu_cc_open (setupClickHandlers_opt s) = menu_cc_open s"
  unfolding setupClickHandlers_opt_def by (rule foldl_frame, simp split: prod.splits)+

lemma setupResizeHandler_frame [simp]:
  "tabLinks (setupResizeHandler s) = tabLinks s"
  "tabPanes (setupResizeHandler s) = tabPanes s"
  "currentActiveIndex (setupResizeHandler s) = currentActiveIndex s"
  "autoplayEnabled (setupResizeHandler s) = autoplayEnabled s"
  "autoplayDuration (setupResizeHandler s) = autoplayDuration s"
  "autoplayHoverPause (setupResizeHandler s) = autoplayHoverPause s"
  "dropdownToggle (setupResizeHandler s) = dropdownToggle s"
  "dropdownText (setupResizeHandler s) = dropdownText s"
  "isMobileDropdown (setupResizeHandler s) = isMobileDropdown s"
  "toggleButton (setupResizeHandler s) = toggleButton s"
  "autoplayTimer (setupResizeHandler s) = autoplayTimer s"
  "autoplayObserver (setupResizeHandler s) = autoplayObserver s"
  "isAutoplayPaused (setupResizeHandler s) = isAutoplayPaused s"
  "autoplayStartTime (setupResizeHandler s) = autoplayStartTime s"
  "autoplayElapsedTime (setupResizeHandler s) = autoplayElapsedTime s"
  "pending (setupResizeHandler s) = pending s"
  "timer_counter (setupResizeHandler s) = timer_counter s"
  "observing (setupResizeHandler s) = observing s"
  "resizeTimer (setupResizeHandler s) = resizeTimer s"
  "rafQueue (setupResizeHandler s) = rafQueue s"
  "cachedWindowWidth (setupResizeHandler s) = cachedWindowWidth s"
  "menu_cc_open (setupResizeHandler s) = menu_cc_open s"
  by (simp_all add: setupResizeHandler_def)

subsection \<open>The initial active index\<close>

lemma findIndex_eq:
  "findIndex P xs = (if list_ex P xs then int (first_pos P xs) else - 1)"
  by (induction xs) (auto simp: first_pos_def Let_def)

lemma first_pos_first_index: "list_ex P xs \<Longrightarrow> first_index P xs (first_pos P xs)"
  by (induction xs) (auto simp: first_index_def first_pos_def)

lemma findInitialActiveIndex_eq:
  "findInitialActiveIndex env links =
     (if location_hash env \<noteq> []
         \<and> list_ex (\<lambda>link. link_id link = drop 1 (location_hash env)) links
      then int (first_pos (\<lambda>link. link_id link = drop 1 (location_hash env)) links)
      else if list_ex cc_active links then int (first_pos cc_active links)
      else 0)"
  by (simp add: findInitialActiveIndex_def findIndex_eq Let_def)

lemma findInitialActiveIndex_valid:
  assumes "links \<noteq> []"
  shows "0 \<le> findInitialActiveIndex env links"
    and "findInitialActiveIndex env links < int (length links)"
  using assms first_pos_first_index [of cc_active links]
        first_pos_first_index [of "\<lambda>link. link_id link = drop 1 (location_hash env)" links]
  by (auto simp: findInitialActiveIndex_eq first_index_def)

lemma index_init:
  assumes "tabLinks s \<noteq> []"
  shows "currentActiveIndex (init env s) = findInitialActiveIndex env (tabLinks s)"
    and "currentActiveIndex (init_opt env s) = findInitialActiveIndex env (tabLinks s)"
  using findInitialActiveIndex_valid [OF assms, of env]
  by (simp_all add: init_def init_opt_def Let_def index_setActiveTab)

text \<open>C8. A component that mounts starts with the active index chosen in this order:
  when \<open>window.location.hash\<close> is not empty and its fragment (the hash without its first
  character) is the id of a tab link, the first such link; otherwise, when a tab link
  has the active class in the markup, the first such link; otherwise 0. This is so in
  tabs.js and in part_000.\<close>

theorem initial_index_priority:
  assumes "mountable a s0"
  shows "map_option currentActiveIndex (initTabsComponent env a s0) =
           Some (if location_hash env \<noteq> []
                    \<and> list_ex (\<lambda>link. link_id link = drop 1 (location_hash env)) (tabLinks s0)
                 then int (first_pos (\<lambda>link. link_id link = drop 1 (location_hash env))
                             (tabLinks s0))
                 else if list_ex cc_active (tabLinks s0)
                 then int (first_pos cc_active (tabLinks s0))
                 else 0)
       \<and> map_option currentActiveIndex (initTabsComponent_opt env a s0) =
           Some (if location_hash env \<noteq> []
                    \<and> list_ex (\<lambda>link. link_id link = drop 1 (location_hash env)) (tabLinks s0)
                 then int (first_pos (\<lambda>link. link_id link = drop 1 (location_hash env))
                             (tabLinks s0))
                 else if list_ex cc_active (tabLinks s0)
                 then int (first_pos cc_active (tabLinks s0))
                 else 0)"
proof -
  have links: "tabLinks (declare_state a s0) = tabLinks s0"
    by (simp add: declare_state_def)
  have ne: "tabLinks s0 \<noteq> []"
    using assms by (simp add: mountable_def)
  show ?thesis
    using assms ne
    by (simp add: initTabsComponent_def initTabsComponent_opt_def index_init links
          findInitialActiveIndex_eq)
qed

theorem initial_index_priority_witness:
  "map_option currentActiveIndex
     (initTabsComponent (at_hash ''#b'') autoplay_attrs three_tabs_third_active) = Some 1
   \<and> map_option currentActiveIndex
     (initTabsComponent_opt (at_hash ''#b'') autoplay_attrs three_tabs_third_active) = Some 1
   \<and> map_option currentActiveIndex
     (initTabsComponent (at_hash ''#x'') autoplay_attrs three_tabs_third_active) = Some 2
   \<and> map_option currentActiveIndex
     (initTabsComponent (at_hash []) autoplay_attrs three_tabs) = Some 0"
proof -
  have m: "mountable autoplay_attrs three_tabs_third_active" "mountable autoplay_attrs three_tabs"
    by code_simp+
  have v: "(if location_hash (at_hash ''#b'') \<noteq> []
               \<and> list_ex (\<lambda>link. link_id link = drop 1 (location_hash (at_hash ''#b'')))
                    (tabLinks three_tabs_third_active)
            then int (first_pos (\<lambda>link. link_id link = drop 1 (location_hash (at_hash ''#b'')))
                        (tabLinks three_tabs_third_active))
            else if list_ex cc_active (tabLinks three_tabs_third_active)
            then int (first_pos cc_active (tabLinks three_tabs_third_active))
            else 0) = 1"
    "(if location_hash (at_hash ''#x'') \<noteq> []
               \<and> list_ex (\<lambda>link. link_id link = drop 1 (location_hash (at_hash ''#x'')))
                    (tabLinks three_tabs_third_active)
            then int (first_pos (\<lambda>link. link_id link = drop 1 (location_hash (at_hash ''#x'')))
                        (tabLinks three_tabs_third_active))
            else if list_ex cc_active (tabLinks three_tabs_third_active)
            then int (first_pos cc_active (tabLinks three_tabs_third_active))
            else 0) = 2"
    "(if location_hash (at_hash []) \<noteq> []
               \<and> list_ex (\<lambda>link. link_id link = drop 1 (location_hash (at_hash [])))
                    (tabLinks three_tabs)
            then int (first_pos (\<lambda>link. link_id link = drop 1 (location_hash (at_hash [])))
                        (tabLinks three_tabs))
            else if list_ex cc_active (tabLinks three_tabs)
            then int (first_pos cc_active (tabLinks three_tabs))
            else 0) = 0"
    by code_simp+
  show ?thesis
    using initial_index_priority [OF m(1), of "at_hash ''#b''"]
          initial_index_priority [OF m(1), of "at_hash ''#x''"]
          initial_index_priority [OF m(2), of "at_hash []"]
    by (simp only: v)
qed

subsection \<open>What holds after every event\<close>

text \<open>Every handler is built from a few functions: a property that they keep is kept
  by every event. tabs.js first.\<close>

lemma observerCallback_keeps:
  assumes "I s"
    and "\<And>s. I s \<Longrightarrow> I (pauseAutoplay env s)"
    and "\<And>s. I s \<Longrightarrow> I (resumeAutoplay env s)"
  shows "I (observerCallback env entries s)"
  using assms(1) unfolding observerCallback_def
  by (induction entries arbitrary: s) (simp_all add: assms(2,3))

lemma dropdown_keeps:
  assumes "I s"
    and "\<And>s. I s \<Longrightarrow> I (closeDropdown s)"
    and "\<And>s. I s \<Longrightarrow> I (openDropdown s)"
  shows "I (toggleDropdown s)" and "I (outsideClickHandler b s)" and "I (escapeHandler key s)"
  using assms by (simp_all add: toggleDropdown_def outsideClickHandler_def escapeHandler_def)

lemma handle_keeps:
  assumes "I s"
    and set: "\<And>i s. I s \<Longrightarrow> I (setActiveTab env i s)"
    and pause: "\<And>s. I s \<Longrightarrow> I (pauseAutoplay env s)"
    and resume: "\<And>s. I s \<Longrightarrow> I (resumeAutoplay env s)"
    and close: "\<And>s. I s \<Longrightarrow> I (closeDropdown s)"
    and "open": "\<And>s. I s \<Longrightarrow> I (openDropdown s)"
    and expire: "\<And>s i. I s \<Longrightarrow> I (s\<lparr>pending := filter (\<lambda>t. fst t \<noteq> i) (pending s)\<rparr>)"
  shows "I (handle env ev s)"
proof -
  note drop = dropdown_keeps [of I, OF _ close "open"]
  show ?thesis
  proof (cases ev)
    case (Click tgt)
    then show ?thesis
      using assms(1)
      by (cases tgt)
         (auto simp: on_def clickHandler_def toggleHandler_def intro!: set pause resume drop)
  next
    case (KeyDown tgt key)
    then show ?thesis
      using assms(1)
      by (cases tgt)
         (auto simp: on_def keydownHandler_def intro!: drop set split: option.splits)
  next
    case MouseEnter
    then show ?thesis using assms(1) by (simp add: on_def pause)
  next
    case MouseLeave
    then show ?thesis using assms(1) by (simp add: on_def resume)
  next
    case (Intersect entries)
    then show ?thesis
      using assms(1) observerCallback_keeps [of I, OF _ pause resume] by simp
  next
    case (TimerFire cb k)
    then show ?thesis
      using assms(1)
      by (cases cb) (auto simp: fire_def autoAdvance_def Let_def intro!: set expire)
  next
    case HashChange
    then show ?thesis
      using assms(1) by (auto simp: on_def hashChangeHandler_def Let_def intro!: set)
  next
    case Resize
    then show ?thesis using assms(1) by simp
  next
    case AnimationFrame
    then show ?thesis using assms(1) by simp
  qed
qed

text \<open>part_000 has three more: the resize handler, its timer callback and the
  animation frame callbacks.\<close>

lemma animationFrame_keeps:
  assumes "I s"
    and "\<And>s q. I s \<Longrightarrow> I (s\<lparr>rafQueue := q\<rparr>)"
    and "\<And>s i v. I s \<Longrightarrow>
           I (s\<lparr>tabLinks := (tabLinks s)[i := (tabLinks s ! i)\<lparr>progress_animation := v\<rparr>]\<rparr>)"
  shows "I (animationFrame s)"
proof -
  have step: "\<And>s cb. I s \<Longrightarrow> I (runRaf cb s)"
    subgoal for s cb by (cases cb) (simp_all add: assms(2,3))
    done
  have "\<And>s. I s \<Longrightarrow> I (foldl (\<lambda>s cb. runRaf cb s) s q)" for q
    by (induction q) (simp_all add: step)
  then show ?thesis
    using assms(1,2) by (simp add: animationFrame_def)
qed

lemma handle_opt_keeps:
  assumes "I s"
    and set: "\<And>i s. I s \<Longrightarrow> I (setActiveTab_opt env i s)"
    and pause: "\<And>s. I s \<Longrightarrow> I (pauseAutoplay env s)"
    and resume: "\<And>s. I s \<Longrightarrow> I (resumeAutoplay env s)"
    and close: "\<And>s. I s \<Longrightarrow> I (closeDropdown s)"
    and "open": "\<And>s. I s \<Longrightarrow> I (openDropdown s)"
    and expire: "\<And>s i. I s \<Longrightarrow> I (s\<lparr>pending := filter (\<lambda>t. fst t \<noteq> i) (pending s)\<rparr>)"
    and resize: "\<And>s. I s \<Longrightarrow> I (resizeHandler s)"
    and settle: "\<And>s. I s \<Longrightarrow> I (resizeSettle env s)"
    and raf: "\<And>s q. I s \<Longrightarrow> I (s\<lparr>rafQueue := q\<rparr>)"
    and anim: "\<And>s i v. I s \<Longrightarrow>
           I (s\<lparr>tabLinks := (tabLinks s)[i := (tabLinks s ! i)\<lparr>progress_animation := v\<rparr>]\<rparr>)"
  shows "I (handle_opt env ev s)"
proof -
  note drop = dropdown_keeps [of I, OF _ close "open"]
  show ?thesis
  proof (cases ev)
    case (Click tgt)
    then show ?thesis
      using assms(1)
      by (cases tgt)
         (auto simp: on_def clickHandler_opt_def toggleHandler_def
               intro!: set pause resume drop)
  next
    case (KeyDown tgt key)
    then show ?thesis
      using assms(1)
      by (cases tgt)
         (auto simp: on_def keydownHandler_opt_def intro!: drop set split: option.splits)
  next
    case MouseEnter
    then show ?thesis using assms(1) by (simp add: on_def pause)
  next
    case MouseLeave
    then show ?thesis using assms(1) by (simp add: on_def resume)
  next
    case (Intersect entries)
    then show ?thesis
      using assms(1) observerCallback_keeps [of I, OF _ pause resume] by simp
  next
    case (TimerFire cb k)
    then show ?thesis
      using assms(1)
      by (cases cb) (auto simp: fire_def autoAdvance_opt_def Let_def intro!: set expire settle)
  next
    case HashChange
    then show ?thesis
      using assms(1) by (auto simp: on_def hashChangeHandler_opt_def Let_def intro!: set)
  next
    case Resize
    then show ?thesis using assms(1) by (simp add: on_def resize)
  next
    case AnimationFrame
    then show ?thesis
      using animationFrame_keeps [of I, OF assms(1) raf anim] by simp
  qed
qed

lemma foldl_keeps: "(\<And>s x. I s \<Longrightarrow> I (f s x)) \<Longrightarrow> I s \<Longrightarrow> I (foldl f s xs)"
  by (induction xs arbitrary: s) simp_all

lemma init_keeps:
  assumes "I s"
    and listen: "\<And>s l. I s \<Longrightarrow> I (addEventListener l s)"
    and label: "\<And>s. I s \<Longrightarrow> I (setupDropdownLabel s)"
    and css: "\<And>s. I s \<Longrightarrow> I (setupAutoplayProgressBars s)"
    and obs: "\<And>s. I s \<Longrightarrow> I (setupAutoplayObserver s)"
    and set: "\<And>i s. I s \<Longrightarrow> I (setActiveTab env i s)"
    and start: "\<And>s. I s \<Longrightarrow> I (startAutoplay env s)"
  shows "I (init env s)"
proof -
  have a: "\<And>s. I s \<Longrightarrow> I (setupMobileDropdown s)"
    by (simp add: setupMobileDropdown_def Let_def listen label)
  have b: "\<And>s. I s \<Longrightarrow> I (setupAutoplayHoverPause s)"
    by (simp add: setupAutoplayHoverPause_def listen)
  have c: "\<And>s. I s \<Longrightarrow> I (setupAutoplayToggle s)"
    by (simp add: setupAutoplayToggle_def listen)
  have d: "\<And>s. I s \<Longrightarrow> I (setupClickHandlers s)"
    unfolding setupClickHandlers_def
    by (rule foldl_keeps) (auto simp: listen)
  have e: "\<And>s. I s \<Longrightarrow> I (setupKeyboardNav s)"
    unfolding setupKeyboardNav_def
    by (rule foldl_keeps) (auto simp: listen)
  show ?thesis
    unfolding init_def Let_def
    using assms(1) by (auto intro!: listen start e d set c b obs css a)
qed

lemma init_opt_keeps:
  assumes "I s"
    and listen: "\<And>s l. I s \<Longrightarrow> I (addEventListener l s)"
    and push: "\<And>s l. I s \<Longrightarrow> I (pushListener l s)"
    and label: "\<And>s. I s \<Longrightarrow> I (setupDropdownLabel s)"
    and css: "\<And>s. I s \<Longrightarrow> I (setupAutoplayProgressBars s)"
    and obs: "\<And>s. I s \<Longrightarrow> I (setupAutoplayObserver s)"
    and set: "\<And>i s. I s \<Longrightarrow> I (setActiveTab_opt env i s)"
    and start: "\<And>s. I s \<Longrightarrow> I (startAutoplay env s)"
  shows "I (init_opt env s)"
proof -
  have both: "\<And>s l. I s \<Longrightarrow> I (pushListener l (addEventListener l s))"
    by (simp add: listen push)
  have a: "\<And>s. I s \<Longrightarrow> I (setupMobileDropdown_opt s)"
    by (simp add: setupMobileDropdown_opt_def Let_def both label)
  have b: "\<And>s. I s \<Longrightarrow> I (setupAutoplayHoverPause_opt s)"
    by (simp add: setupAutoplayHoverPause_opt_def Let_def listen push)
  have c: "\<And>s. I s \<Longrightarrow> I (setupAutoplayToggle_opt s)"
    by (simp add: setupAutoplayToggle_opt_def both)
  have d: "\<And>s. I s \<Longrightarrow> I (setupClickHandlers_opt s)"
    unfolding setupClickHandlers_opt_def
    by (rule foldl_keeps) (auto simp: both)
  have e: "\<And>s. I s \<Longrightarrow> I (setupKeyboardNav_opt s)"
    unfolding setupKeyboardNav_opt_def
    by (rule foldl_keeps) (auto simp: both)
  have f: "\<And>s. I s \<Longrightarrow> I (setupResizeHandler s)"
    by (simp add: setupResizeHandler_def both)
  show ?thesis
    unfolding init_opt_def Let_def
    using assms(1) by (auto intro!: both start f e d set c b obs css a)
qed

subsection \<open>Every reachable state keeps the bookkeeping of timers\<close>

lemma timers_ok_expire:
  "timers_ok s \<Longrightarrow> timers_ok (s\<lparr>pending := filter (\<lambda>t. fst t \<noteq> i) (pending s)\<rparr>)"
  unfolding timers_ok_def timers_of_def
  by (auto simp: filter_empty_conv distinct_map_filter)

lemma timers_ok_resizeHandler: "timers_ok s \<Longrightarrow> timers_ok (resizeHandler s)"
  unfolding timers_ok_def timers_of_def resizeHandler_def clearTimeout_def setTimeout_def Let_def
  by (auto simp: filter_empty_conv distinct_map_filter split: option.splits)

lemma timers_ok_declare_state:
  "timers_ok (declare_state a s0)"
  "timers_ok ((declare_state a s0)\<lparr>cachedWindowWidth := w, resizeTimer := None,
                                     eventListeners := [], rafQueue := []\<rparr>)"
  by (simp_all add: timers_ok_def timers_of_def declare_state_def)

lemma timers_ok_cleanup: "timers_ok s \<Longrightarrow> timers_ok (cleanup s)"
proof -
  assume ok: "timers_ok s"
  let ?s1 = "foldl (\<lambda>s l. removeEventListener l s) s (eventListeners s)"
  have "timers_ok ?s1"
    using ok by (rule foldl_keeps [rotated]) (simp add: timers_ok_cong [of "removeEventListener _ _"])
  then have "timers_ok (if autoplayObserver ?s1 then ?s1\<lparr>observing := False\<rparr> else ?s1)"
    by (simp add: timers_ok_def timers_of_def)
  then have "timers_ok (stopAutoplay (if autoplayObserver ?s1 then ?s1\<lparr>observing := False\<rparr> else ?s1))"
    using timers_ok_stopAutoplay by blast
  then show ?thesis
    unfolding cleanup_def Let_def clearTimeout_def
    by (auto simp: timers_ok_expire split: option.splits)
qed

lemma timers_ok_reachable: "reachable s \<Longrightarrow> timers_ok s"
proof (induction rule: reachable.induct)
  case (mounted env a s0 s)
  then have s: "s = init env (declare_state a s0)"
    by (simp add: initTabsComponent_def split: if_splits)
  show ?case
    unfolding s
    by (rule init_keeps [of timers_ok, OF timers_ok_declare_state(1)])
       (simp_all add: timers_ok_setActiveTab timers_ok_startAutoplay
          timers_ok_cong [of "addEventListener _ _"] timers_ok_cong [of "setupDropdownLabel _"]
          timers_ok_cong [of "setupAutoplayProgressBars _"]
          timers_ok_cong [of "setupAutoplayObserver _"])
next
  case (event s env ev)
  then show ?case
    by (intro handle_keeps [of timers_ok])
       (simp_all add: timers_ok_setActiveTab timers_ok_pauseAutoplay timers_ok_resumeAutoplay
          timers_ok_expire timers_ok_cong [of "closeDropdown _"] timers_ok_cong [of "openDropdown _"])
qed

lemma timers_ok_reachable_opt: "reachable_opt s \<Longrightarrow> timers_ok s"
proof (induction rule: reachable_opt.induct)
  case (mounted_opt env a s0 s)
  then have s: "s = init_opt env ((declare_state a s0)\<lparr>cachedWindowWidth := innerWidth env,
                     resizeTimer := None, eventListeners := [], rafQueue := []\<rparr>)"
    by (simp add: initTabsComponent_opt_def split: if_splits)
  show ?case
    unfolding s
    by (rule init_opt_keeps [of timers_ok, OF timers_ok_declare_state(2)])
       (simp_all add: timers_ok_setActiveTab timers_ok_startAutoplay
          timers_ok_cong [of "addEventListener _ _"] timers_ok_cong [of "pushListener _ _"]
          timers_ok_cong [of "setupDropdownLabel _"]
          timers_ok_cong [of "setupAutoplayProgressBars _"]
          timers_ok_cong [of "setupAutoplayObserver _"])
next
  case (event_opt s env ev)
  have raf: "\<And>s q. timers_ok s \<Longrightarrow> timers_ok (s\<lparr>rafQueue := q\<rparr>)"
    and anim: "\<And>s i v. timers_ok s \<Longrightarrow>
           timers_ok (s\<lparr>tabLinks := (tabLinks s)[i := (tabLinks s ! i)\<lparr>progress_animation := v\<rparr>]\<rparr>)"
    and settle: "\<And>s. timers_ok s \<Longrightarrow> timers_ok (resizeSettle env s)"
    by (simp_all add: timers_ok_def timers_of_def resizeSettle_def)
  from event_opt.IH show ?case
    by (intro handle_opt_keeps [of timers_ok])
       (simp_all add: timers_ok_setActiveTab timers_ok_pauseAutoplay timers_ok_resumeAutoplay
          timers_ok_expire timers_ok_resizeHandler raf anim settle
          timers_ok_cong [of "closeDropdown _"] timers_ok_cong [of "openDropdown _"])
next
  case (cleaned s)
  then show ?case by (simp add: timers_ok_cleanup)
qed

subsection \<open>Reachable states of the demo pages\<close>

lemma reachable_run: "reachable s \<Longrightarrow> reachable (run evs s)"
proof (induction evs arbitrary: s)
  case Nil
  then show ?case by simp
next
  case (Cons p evs)
  then show ?case by (cases p) (simp add: reachable.event)
qed

lemma reachable_opt_run: "reachable_opt s \<Longrightarrow> reachable_opt (run_opt evs s)"
proof (induction evs arbitrary: s)
  case Nil
  then show ?case by simp
next
  case (Cons p evs)
  then show ?case by (cases p) (simp add: reachable_opt.event_opt)
qed

lemma demo_initTabsComponent:
  "mountable a s0 \<Longrightarrow> initTabsComponent (at_time 0) a s0 = Some (demo_mounted a s0)"
  "mountable a s0 \<Longrightarrow> initTabsComponent_opt (at_time 0) a s0 = Some (demo_mounted_opt a s0)"
  by (simp_all add: initTabsComponent_def initTabsComponent_opt_def demo_mounted_def
        demo_mounted_opt_def at_time_def)

lemma demo_reachable:
  "mountable a s0 \<Longrightarrow> reachable (demo_mounted a s0)"
  "mountable a s0 \<Longrightarrow> reachable_opt (demo_mounted_opt a s0)"
  by (blast intro: reachable.mounted reachable_opt.mounted_opt demo_initTabsComponent)+

lemma demo_mountable:
  "mountable autoplay_attrs three_tabs" "mountable plain_attrs three_tabs"
  "mountable plain_attrs two_tabs_one_pane" "mountable autoplay_attrs three_tabs_third_active"
  by code_simp+

subsection \<open>At most one autoplay timer\<close>

lemma at_most_one:
  assumes "timers_ok s"
  shows "length (timers_of AutoAdvance s) \<le> 1"
proof -
  let ?ids = "map fst (timers_of AutoAdvance s)"
  have d: "distinct ?ids"
    using assms by (simp add: timers_ok_def timers_of_def distinct_map_filter)
  have same: "\<forall>i \<in> set ?ids. autoplayTimer s = Some i"
    using assms by (auto simp: timers_ok_def timers_of_def)
  have "length ?ids \<le> 1"
  proof (cases ?ids)
    case Nil
    then show ?thesis by simp
  next
    case (Cons i rest)
    with d same have "rest = []" by (cases rest) auto
    with Cons show ?thesis by simp
  qed
  then show ?thesis by simp
qed

text \<open>C5. In every reachable state of a component (tabs.js or part_000) at most one
  autoplay timer is live. Cancelling (\<open>stopAutoplay\<close>) leaves none, and every function
  that schedules one (\<open>startAutoplay\<close>, \<open>restartAutoplay\<close>, \<open>resumeAutoplay\<close>, \<open>setActiveTab\<close>)
  leaves at most one, since it cancels first.\<close>

theorem at_most_one_autoplay_timer:
  assumes "reachable s \<or> reachable_opt s"
  shows "length (timers_of AutoAdvance s) \<le> 1
       \<and> timers_of AutoAdvance (stopAutoplay s) = []
       \<and> length (timers_of AutoAdvance (startAutoplay env s)) \<le> 1
       \<and> length (timers_of AutoAdvance (restartAutoplay env s)) \<le> 1
       \<and> length (timers_of AutoAdvance (restartAutoplay_opt env s)) \<le> 1
       \<and> length (timers_of AutoAdvance (resumeAutoplay env s)) \<le> 1
       \<and> length (timers_of AutoAdvance (setActiveTab env index s)) \<le> 1
       \<and> length (timers_of AutoAdvance (setActiveTab_opt env index s)) \<le> 1"
proof -
  from assms have ok: "timers_ok s"
    by (auto dest: timers_ok_reachable timers_ok_reachable_opt)
  from timers_ok_stopAutoplay [OF ok] have stop: "timers_of AutoAdvance (stopAutoplay s) = []"
    by simp
  show ?thesis
    by (intro conjI at_most_one stop ok timers_ok_startAutoplay timers_ok_restartAutoplay
          timers_ok_resumeAutoplay timers_ok_setActiveTab)
qed

theorem at_most_one_autoplay_timer_witness:
  "length (timers_of AutoAdvance
     (run [(at_time 2000, MouseEnter), (at_time 9000, MouseLeave), (at_time 9500, Click (OverlayEl 2))]
        (demo_mounted autoplay_attrs three_tabs))) \<le> 1
   \<and> length (timers_of AutoAdvance (startAutoplay (at_time 9900)
     (run [(at_time 2000, MouseEnter), (at_time 9000, MouseLeave), (at_time 9500, Click (OverlayEl 2))]
        (demo_mounted autoplay_attrs three_tabs)))) \<le> 1
   \<and> length (timers_of AutoAdvance (setActiveTab_opt (at_time 9900) 1
     (run_opt [(at_time 2000, Resize), (at_time 9500, Click (OverlayEl 2))]
        (demo_mounted_opt autoplay_attrs three_tabs)))) \<le> 1"
proof -
  have a: "reachable (run [(at_time 2000, MouseEnter), (at_time 9000, MouseLeave),
                (at_time 9500, Click (OverlayEl 2))] (demo_mounted autoplay_attrs three_tabs))"
    by (intro reachable_run demo_reachable demo_mountable)
  have b: "reachable_opt (run_opt [(at_time 2000, Resize), (at_time 9500, Click (OverlayEl 2))]
                (demo_mounted_opt autoplay_attrs three_tabs))"
    by (intro reachable_opt_run demo_reachable demo_mountable)
  show ?thesis
    using at_most_one_autoplay_timer [OF disjI1 [OF a], of "at_time 9900" 1]
          at_most_one_autoplay_timer [OF disjI2 [OF b], of "at_time 9900" 1]
    by blast
qed

subsection \<open>Switching tabs and the autoplay cycle\<close>

lemma timer_setActiveTab_paused:
  assumes "isAutoplayPaused s"
  shows "autoplayTimer (setActiveTab env index s) = autoplayTimer s"
    and "autoplayTimer (setActiveTab_opt env index s) = autoplayTimer s"
  using assms
  by (cases "0 \<le> index \<and> index < int (length (tabLinks s))";
      auto simp: setActiveTab_valid setActiveTab_invalid Let_def)+

lemma auto_delays_paused: "timers_ok s \<Longrightarrow> isAutoplayPaused s \<Longrightarrow> auto_delays s = []"
  by (simp add: timers_ok_def auto_delays_def)

text \<open>C4. In a reachable state of an autoplay-enabled component and for a valid index,
  \<open>setActiveTab(index)\<close> sets the elapsed time to 0. While paused it schedules nothing: no
  autoplay timer is live afterwards and \<open>autoplayTimer\<close> stays \<open>null\<close>. While running, the
  one live autoplay timer afterwards has the full duration as its delay. This is so in
  tabs.js and in part_000.\<close>

theorem setActiveTab_resets_cycle:
  assumes "reachable s \<or> reachable_opt s" "autoplayEnabled s"
    and "0 \<le> index" "index < int (length (tabLinks s))"
  shows "autoplayElapsedTime (setActiveTab env index s) = 0
       \<and> auto_delays (setActiveTab env index s)
           = (if isAutoplayPaused s then [] else [durationMs s])
       \<and> (isAutoplayPaused s \<longrightarrow> autoplayTimer (setActiveTab env index s) = None)
       \<and> autoplayElapsedTime (setActiveTab_opt env index s) = 0
       \<and> auto_delays (setActiveTab_opt env index s)
           = (if isAutoplayPaused s then [] else [durationMs s])
       \<and> (isAutoplayPaused s \<longrightarrow> autoplayTimer (setActiveTab_opt env index s) = None)"
proof -
  from assms(1) have ok: "timers_ok s"
    by (auto dest: timers_ok_reachable timers_ok_reachable_opt)
  have none: "isAutoplayPaused s \<Longrightarrow> autoplayTimer s = None"
    using ok by (simp add: timers_ok_def)
  show ?thesis
    using assms(2-4) none auto_delays_paused [OF ok]
    by (simp add: elapsed_setActiveTab auto_delays_setActiveTab [OF ok] timer_setActiveTab_paused)
qed

theorem setActiveTab_resets_cycle_witness:
  "autoplayElapsedTime (setActiveTab (at_time 3000) 1
      (run [(at_time 2000, MouseEnter)] (demo_mounted autoplay_attrs three_tabs))) = 0
   \<and> auto_delays (setActiveTab (at_time 3000) 1
      (run [(at_time 2000, MouseEnter)] (demo_mounted autoplay_attrs three_tabs))) = []
   \<and> autoplayTimer (setActiveTab (at_time 3000) 1
      (run [(at_time 2000, MouseEnter)] (demo_mounted autoplay_attrs three_tabs))) = None
   \<and> autoplayElapsedTime (setActiveTab_opt (at_time 3000) 1
      (demo_mounted_opt autoplay_attrs three_tabs)) = 0
   \<and> auto_delays (setActiveTab_opt (at_time 3000) 1
      (demo_mounted_opt autoplay_attrs three_tabs)) = [5000]"
proof -
  let ?p = "run [(at_time 2000, MouseEnter)] (demo_mounted autoplay_attrs three_tabs)"
  let ?r = "demo_mounted_opt autoplay_attrs three_tabs"
  have rp: "reachable ?p"
    by (intro reachable_run demo_reachable demo_mountable)
  have rr: "reachable_opt ?r"
    by (intro demo_reachable demo_mountable)
  have p: "autoplayEnabled ?p" "isAutoplayPaused ?p" "(1::int) < int (length (tabLinks ?p))"
    by code_simp+
  have r: "autoplayEnabled ?r" "\<not> isAutoplayPaused ?r" "(1::int) < int (length (tabLinks ?r))"
    "durationMs ?r = 5000"
    by code_simp+
  show ?thesis
    using setActiveTab_resets_cycle [OF disjI1 [OF rp] p(1) _ p(3), of "at_time 3000"]
          setActiveTab_resets_cycle [OF disjI2 [OF rr] r(1) _ r(3), of "at_time 3000"]
    by (simp only: p(2) r(2) r(4) if_True if_False simp_thms)
qed

subsection \<open>Pause and resume\<close>

lemma elapsed_pauseAutoplay:
  "autoplayElapsedTime (pauseAutoplay env s) =
     (if autoplayEnabled s
      then (case autoplayStartTime s of
              None \<Rightarrow> autoplayElapsedTime s
            | Some t \<Rightarrow> autoplayElapsedTime s + (now env - t))
      else autoplayElapsedTime s)"
  by (simp add: pauseAutoplay_def Let_def split: option.splits)

text \<open>C3. In a reachable state of an autoplay-enabled component with a cycle running
  since \<open>t0\<close> (\<open>autoplayStartTime\<close>), let \<open>e\<close> be the elapsed time at the pause as the code
  measures it: the elapsed time recorded before plus \<open>now - t0\<close>. After \<open>pauseAutoplay\<close>
  and then \<open>resumeAutoplay\<close>, whenever the resume comes, the one live autoplay timer has
  the delay \<open>durationMs - e\<close>. The functions are the same in tabs.js and part_000.\<close>

theorem pause_resume_remaining:
  assumes "reachable s \<or> reachable_opt s" "autoplayEnabled s" "autoplayStartTime s = Some t0"
  shows "auto_delays (resumeAutoplay env2 (pauseAutoplay env1 s))
           = [durationMs s - of_int (autoplayElapsedTime s + (now env1 - t0))]"
proof -
  from assms(1) have ok: "timers_ok s"
    by (auto dest: timers_ok_reachable timers_ok_reachable_opt)
  have ok': "timers_ok (pauseAutoplay env1 s)"
    using ok by (rule timers_ok_pauseAutoplay)
  have en: "autoplayEnabled (pauseAutoplay env1 s)"
    using assms(2) by simp
  have dur: "durationMs (pauseAutoplay env1 s) = durationMs s"
    by (simp add: durationMs_def)
  show ?thesis
    using auto_delays_resumeAutoplay [OF ok' en, of env2] assms(2,3)
    by (simp add: dur elapsed_pauseAutoplay)
qed

theorem pause_resume_remaining_witness:
  "auto_delays (resumeAutoplay (at_time 9000) (pauseAutoplay (at_time 2000)
      (demo_mounted autoplay_attrs three_tabs))) = [3000]"
proof -
  let ?s = "demo_mounted autoplay_attrs three_tabs"
  have r: "reachable ?s"
    by (intro demo_reachable demo_mountable)
  have s: "autoplayEnabled ?s" "autoplayStartTime ?s = Some 0"
    "durationMs ?s - of_int (autoplayElapsedTime ?s + (now (at_time 2000) - 0)) = 3000"
    by code_simp+
  show ?thesis
    using pause_resume_remaining [OF disjI1 [OF r] s(1,2), of "at_time 9000" "at_time 2000"]
    by (simp only: s(3))
qed

subsection \<open>What the handlers leave as it is\<close>

lemma clickHandler_frame [simp]:
  "autoplayEnabled (clickHandler env i s) = autoplayEnabled s"
  "autoplayDuration (clickHandler env i s) = autoplayDuration s"
  "autoplayHoverPause (clickHandler env i s) = autoplayHoverPause s"
  "dropdownToggle (clickHandler env i s) = dropdownToggle s"
  "dropdownText (clickHandler env i s) = dropdownText s"
  "isMobileDropdown (clickHandler env i s) = isMobileDropdown s"
  "toggleButton (clickHandler env i s) = toggleButton s"
  "autoplayObserver (clickHandler env i s) = autoplayObserver s"
  "isAutoplayPaused (clickHandler env i s) = isAutoplayPaused s"
  "registered (clickHandler env i s) = registered s"
  "observing (clickHandler env i s) = observing s"
  "resizeTimer (clickHandler env i s) = resizeTimer s"
  "eventListeners (clickHandler env i s) = eventListeners s"
  "rafQueue (clickHandler env i s) = rafQueue s"
  "cachedWindowWidth (clickHandler env i s) = cachedWindowWidth s"
  by (simp_all add: clickHandler_def)

lemma clickHandler_opt_frame [simp]:
  "autoplayEnabled (clickHandler_opt env i s) = autoplayEnabled s"
  "autoplayDuration (clickHandler_opt env i s) = autoplayDuration s"
  "autoplayHoverPause (clickHandler_opt env i s) = autoplayHoverPause s"
  "dropdownToggle (clickHandler_opt env i s) = dropdownToggle s"
  "dropdownText (clickHandler_opt env i s) = dropdownText s"
  "isMobileDropdown (clickHandler_opt env i s) = isMobileDropdown s"
  "toggleButton (clickHandler_opt env i s) = toggleButton s"
  "autoplayObserver (clickHandler_opt env i s) = autoplayObserver s"
  "isAutoplayPaused (clickHandler_opt env i s) = isAutoplayPaused s"
  "registered (clickHandler_opt env i s) = registered s"
  "observing (clickHandler_opt env i s) = observing s"
  "resizeTimer (clickHandler_opt env i s) = resizeTimer s"
  "eventListeners (clickHandler_opt env i s) = eventListeners s"
  "cachedWindowWidth (clickHandler_opt env i s) = cachedWindowWidth s"
  by (simp_all add: clickHandler_opt_def)

lemma keydownHandler_frame [simp]:
  "autoplayEnabled (keydownHandler env key s) = autoplayEnabled s"
  "autoplayDuration (keydownHandler env key s) = autoplayDuration s"
  "autoplayHoverPause (keydownHandler env key s) = autoplayHoverPause s"
  "dropdownToggle (keydownHandler env key s) = dropdownToggle s"
  "dropdownText (keydownHandler env key s) = dropdownText s"
  "isMobileDropdown (keydownHandler env key s) = isMobileDropdown s"
  "toggleButton (keydownHandler env key s) = toggleButton s"
  "autoplayObserver (keydownHandler env key s) = autoplayObserver s"
  "isAutoplayPaused (keydownHandler env key s) = isAutoplayPaused s"
  "registered (keydownHandler env key s) = registered s"
  "observing (keydownHandler env key s) = observing s"
  "resizeTimer (keydownHandler env key s) = resizeTimer s"
  "eventListeners (keydownHandler env key s) = eventListeners s"
  "rafQueue (keydownHandler env key s) = rafQueue s"
  "cachedWindowWidth (keydownHandler env key s) = cachedWindowWidth s"
  by (simp_all add: keydownHandler_def split: option.splits)

lemma keydownHandler_opt_frame [simp]:
  "autoplayEnabled (keydownHandler_opt env key s) = autoplayEnabled s"
  "autoplayDuration (keydownHandler_opt env key s) = autoplayDuration s"
  "autoplayHoverPause (keydownHandler_opt env key s) = autoplayHoverPause s"
  "dropdownToggle (keydownHandler_opt env key s) = dropdownToggle s"
  "dropdownText (keydownHandler_opt env key s) = dropdownText s"
  "isMobileDropdown (keydownHandler_opt env key s) = isMobileDropdown s"
  "toggleButton (keydownHandler_opt env key s) = toggleButton s"
  "autoplayObserver (keydownHandler_opt env key s) = autoplayObserver s"
  "isAutoplayPaused (keydownHandler_opt env key s) = isAutoplayPaused s"
  "registered (keydownHandler_opt env key s) = registered s"
  "observing (keydownHandler_opt env key s) = observing s"
  "resizeTimer (keydownHandler_opt env key s) = resizeTimer s"
  "eventListeners (keydownHandler_opt env key s) = eventListeners s"
  "cachedWindowWidth (keydownHandler_opt env key s) = cachedWindowWidth s"
  by (simp_all add: keydownHandler_opt_def split: option.splits)

lemma hashChangeHandler_frame [simp]:
  "autoplayEnabled (hashChangeHandler env s) = autoplayEnabled s"
  "autoplayDuration (hashChangeHandler env s) = autoplayDuration s"
  "autoplayHoverPause (hashChangeHandler env s) = autoplayHoverPause s"
  "dropdownToggle (hashChangeHandler env s) = dropdownToggle s"
  "dropdownText (hashChangeHandler env s) = dropdownText s"
  "isMobileDropdown (hashChangeHandler env s) = isMobileDropdown s"
  "toggleButton (hashChangeHandler env s) = toggleButton s"
  "autoplayObserver (hashChangeHandler env s) = autoplayObserver s"
  "isAutoplayPaused (hashChangeHandler env s) = isAutoplayPaused s"
  "registered (hashChangeHandler env s) = registered s"
  "observing (hashChangeHandler env s) = observing s"
  "resizeTimer (hashChangeHandler env s) = resizeTimer s"
  "eventListeners (hashChangeHandler env s) = eventListeners s"
  "rafQueue (hashChangeHandler env s) = rafQueue s"
  "cachedWindowWidth (hashChangeHandler env s) = cachedWindowWidth s"
  by (simp_all add: hashChangeHandler_def Let_def)

lemma hashChangeHandler_opt_frame [simp]:
  "autoplayEnabled (hashChangeHandler_opt env s) = autoplayEnabled s"
  "autoplayDuration (hashChangeHandler_opt env s) = autoplayDuration s"
  "autoplayHoverPause (hashChangeHandler_opt env s) = autoplayHoverPause s"
  "dropdownToggle (hashChangeHandler_opt env s) = dropdownToggle s"
  "dropdownText (hashChangeHandler_opt env s) = dropdownText s"
  "isMobileDropdown (hashChangeHandler_opt env s) = isMobileDropdown s"
  "toggleButton (hashChangeHandler_opt env s) = toggleButton s"
  "autoplayObserver (hashChangeHandler_opt env s) = autoplayObserver s"
  "isAutoplayPaused (hashChangeHandler_opt env s) = isAutoplayPaused s"
  "registered (hashChangeHandler_opt env s) = registered s"
  "observing (hashChangeHandler_opt env s) = observing s"
  "resizeTimer (hashChangeHandler_opt env s) = resizeTimer s"
  "eventListeners (hashChangeHandler_opt env s) = eventListeners s"
  "cachedWindowWidth (hashChangeHandler_opt env s) = cachedWindowWidth s"
  by (simp_all add: hashChangeHandler_opt_def Let_def)

lemma autoAdvance_frame [simp]:
  "autoplayEnabled (autoAdvance env s) = autoplayEnabled s"
  "autoplayDuration (autoAdvance env s) = autoplayDuration s"
  "autoplayHoverPause (autoAdvance env s) = autoplayHoverPause s"
  "dropdownToggle (autoAdvance env s) = dropdownToggle s"
  "dropdownText (autoAdvance env s) = dropdownText s"
  "isMobileDropdown (autoAdvance env s) = isMobileDropdown s"
  "toggleButton (autoAdvance env s) = toggleButton s"
  "autoplayObserver (autoAdvance env s) = autoplayObserver s"
  "isAutoplayPaused (autoAdvance env s) = isAutoplayPaused s"
  "registered (autoAdvance env s) = registered s"
  "observing (autoAdvance env s) = observing s"
  "resizeTimer (autoAdvance env s) = resizeTimer s"
  "eventListeners (autoAdvance env s) = eventListeners s"
  "rafQueue (autoAdvance env s) = rafQueue s"
  "cachedWindowWidth (autoAdvance env s) = cachedWindowWidth s"
  by (simp_all add: autoAdvance_def)

lemma autoAdvance_opt_frame [simp]:
  "autoplayEnabled (autoAdvance_opt env s) = autoplayEnabled s"
  "autoplayDuration (autoAdvance_opt env s) = autoplayDuration s"
  "autoplayHoverPause (autoAdvance_opt env s) = autoplayHoverPause s"
  "dropdownToggle (autoAdvance_opt env s) = dropdownToggle s"
  "dropdownText (autoAdvance_opt env s) = dropdownText s"
  "isMobileDropdown (autoAdvance_opt env s) = isMobileDropdown s"
  "toggleButton (autoAdvance_opt env s) = toggleButton s"
  "autoplayObserver (autoAdvance_opt env s) = autoplayObserver s"
  "isAutoplayPaused (autoAdvance_opt env s) = isAutoplayPaused s"
  "registered (autoAdvance_opt env s) = registered s"
  "observing (autoAdvance_opt env s) = observing s"
  "resizeTimer (autoAdvance_opt env s) = resizeTimer s"
  "eventListeners (autoAdvance_opt env s) = eventListeners s"
  "cachedWindowWidth (autoAdvance_opt env s) = cachedWindowWidth s"
  by (simp_all add: autoAdvance_opt_def)

lemma outsideClickHandler_frame [simp]:
  "tabLinks (outsideClickHandler b s) = tabLinks s"
  "tabPanes (outsideClickHandler b s) = tabPanes s"
  "currentActiveIndex (outsideClickHandler b s) = currentActiveIndex s"
  "autoplayEnabled (outsideClickHandler b s) = autoplayEnabled s"
  "autoplayDuration (outsideClickHandler b s) = autoplayDuration s"
  "autoplayHoverPause (outsideClickHandler b s) = autoplayHoverPause s"
  "dropdownToggle (outsideClickHandler b s) = dropdownToggle s"
  "dropdownText (outsideClickHandler b s) = dropdownText s"
  "isMobileDropdown (outsideClickHandler b s) = isMobileDropdown s"
  "toggleButton (outsideClickHandler b s) = toggleButton s"
  "autoplayTimer (outsideClickHandler b s) = autoplayTimer s"
  "autoplayObserver (outsideClickHandler b s) = autoplayObserver s"
  "isAutoplayPaused (outsideClickHandler b s) = isAutoplayPaused s"
  "autoplayStartTime (outsideClickHandler b s) = autoplayStartTime s"
  "autoplayElapsedTime (outsideClickHandler b s) = autoplayElapsedTime s"
  "pending (outsideClickHandler b s) = pending s"
  "timer_counter (outsideClickHandler b s) = timer_counter s"
  "registered (outsideClickHandler b s) = registered s"
  "observing (outsideClickHandler b s) = observing s"
  "resizeTimer (outsideClickHandler b s) = resizeTimer s"
  "eventListeners (outsideClickHandler b s) = eventListeners s"
  "rafQueue (outsideClickHandler b s) = rafQueue s"
  "cachedWindowWidth (outsideClickHandler b s) = cachedWindowWidth s"
  by (simp_all add: outsideClickHandler_def)

lemma escapeHandler_frame [simp]:
  "tabLinks (escapeHandler key s) = tabLinks s"
  "tabPanes (escapeHandler key s) = tabPanes s"
  "currentActiveIndex (escapeHandler key s) = currentActiveIndex s"
  "autoplayEnabled (escapeHandler key s) = autoplayEnabled s"
  "autoplayDuration (escapeHandler key s) = autoplayDuration s"
  "autoplayHoverPause (escapeHandler key s) = autoplayHoverPause s"
  "dropdownToggle (escapeHandler key s) = dropdownToggle s"
  "dropdownText (escapeHandler key s) = dropdownText s"
  "isMobileDropdown (escapeHandler key s) = isMobileDropdown s"
  "toggleButton (escapeHandler key s) = toggleButton s"
  "autoplayTimer (escapeHandler key s) = autoplayTimer s"
  "autoplayObserver (escapeHandler key s) = autoplayObserver s"
  "isAutoplayPaused (escapeHandler key s) = isAutoplayPaused s"
  "autoplayStartTime (escapeHandler key s) = autoplayStartTime s"
  "autoplayElapsedTime (escapeHandler key s) = autoplayElapsedTime s"
  "pending (escapeHandler key s) = pending s"
  "timer_counter (escapeHandler key s) = timer_counter s"
  "registered (escapeHandler key s) = registered s"
  "observing (escapeHandler key s) = observing s"
  "resizeTimer (escapeHandler key s) = resizeTimer s"
  "eventListeners (escapeHandler key s) = eventListeners s"
  "rafQueue (escapeHandler key s) = rafQueue s"
  "cachedWindowWidth (escapeHandler key s) = cachedWindowWidth s"
  by (simp_all add: escapeHandler_def)

lemma resizeHandler_frame [simp]:
  "tabLinks (resizeHandler s) = tabLinks s"
  "tabPanes (resizeHandler s) = tabPanes s"
  "currentActiveIndex (resizeHandler s) = currentActiveIndex s"
  "autoplayEnabled (resizeHandler s) = autoplayEnabled s"
  "autoplayDuration (resizeHandler s) = autoplayDuration s"
  "autoplayHoverPause (resizeHandler s) = autoplayHoverPause s"
  "dropdownToggle (resizeHandler s) = dropdownToggle s"
  "dropdownText (resizeHandler s) = dropdownText s"
  "isMobileDropdown (resizeHandler s) = isMobileDropdown s"
  "toggleButton (resizeHandler s) = toggleButton s"
  "autoplayTimer (resizeHandler s) = autoplayTimer s"
  "autoplayObserver (resizeHandler s) = autoplayObserver s"
  "isAutoplayPaused (resizeHandler s) = isAutoplayPaused s"
  "autoplayStartTime (resizeHandler s) = autoplayStartTime s"
  "autoplayElapsedTime (resizeHandler s) = autoplayElapsedTime s"
  "registered (resizeHandler s) = registered s"
  "observing (resizeHandler s) = observing s"
  "eventListeners (resizeHandler s) = eventListeners s"
  "rafQueue (resizeHandler s) = rafQueue s"
  "cachedWindowWidth (resizeHandler s) = cachedWindowWidth s"
  "menu_cc_open (resizeHandler s) = menu_cc_open s"
  by (simp_all add: resizeHandler_def clearTimeout_def setTimeout_def Let_def split: option.splits)

lemma resizeSettle_frame [simp]:
  "tabLinks (resizeSettle env s) = tabLinks s"
  "tabPanes (resizeSettle env s) = tabPanes s"
  "currentActiveIndex (resizeSettle env s) = currentActiveIndex s"
  "autoplayEnabled (resizeSettle env s) = autoplayEnabled s"
  "autoplayDuration (resizeSettle env s) = autoplayDuration s"
  "autoplayHoverPause (resizeSettle env s) = autoplayHoverPause s"
  "dropdownToggle (resizeSettle env s) = dropdownToggle s"
  "dropdownText (resizeSettle env s) = dropdownText s"
  "isMobileDropdown (resizeSettle env s) = isMobileDropdown s"
  "toggleButton (resizeSettle env s) = toggleButton s"
  "autoplayTimer (resizeSettle env s) = autoplayTimer s"
  "autoplayObserver (resizeSettle env s) = autoplayObserver s"
  "isAutoplayPaused (resizeSettle env s) = isAutoplayPaused s"
  "autoplayStartTime (resizeSettle env s) = autoplayStartTime s"
  "autoplayElapsedTime (resizeSettle env s) = autoplayElapsedTime s"
  "pending (resizeSettle env s) = pending s"
  "timer_counter (resizeSettle env s) = timer_counter s"
  "registered (resizeSettle env s) = registered s"
  "observing (resizeSettle env s) = observing s"
  "resizeTimer (resizeSettle env s) = resizeTimer s"
  "eventListeners (resizeSettle env s) = eventListeners s"
  "rafQueue (resizeSettle env s) = rafQueue s"
  "menu_cc_open (resizeSettle env s) = menu_cc_open s"
  by (simp_all add: resizeSettle_def)

lemma runRaf_frame [simp]:
  "tabPanes (runRaf cb s) = tabPanes s"
  "currentActiveIndex (runRaf cb s) = currentActiveIndex s"
  "autoplayEnabled (runRaf cb s) = autoplayEnabled s"
  "autoplayDuration (runRaf cb s) = autoplayDuration s"
  "autoplayHoverPause (runRaf cb s) = autoplayHoverPause s"
  "dropdownToggle (runRaf cb s) = dropdownToggle s"
  "dropdownText (runRaf cb s) = dropdownText s"
  "isMobileDropdown (runRaf cb s) = isMobileDropdown s"
  "toggleButton (runRaf cb s) = toggleButton s"
  "autoplayTimer (runRaf cb s) = autoplayTimer s"
  "autoplayObserver (runRaf cb s) = autoplayObserver s"
  "isAutoplayPaused (runRaf cb s) = isAutoplayPaused s"
  "autoplayStartTime (runRaf cb s) = autoplayStartTime s"
  "autoplayElapsedTime (runRaf cb s) = autoplayElapsedTime s"
  "pending (runRaf cb s) = pending s"
  "timer_counter (runRaf cb s) = timer_counter s"
  "registered (runRaf cb s) = registered s"
  "observing (runRaf cb s) = observing s"
  "resizeTimer (runRaf cb s) = resizeTimer s"
  "eventListeners (runRaf cb s) = eventListeners s"
  "cachedWindowWidth (runRaf cb s) = cachedWindowWidth s"
  "menu_cc_open (runRaf cb s) = menu_cc_open s"
  by (cases cb; simp)+

lemma animationFrame_frame [simp]:
  "tabPanes (animationFrame s) = tabPanes s"
  "currentActiveIndex (animationFrame s) = currentActiveIndex s"
  "autoplayEnabled (animationFrame s) = autoplayEnabled s"
  "autoplayDuration (animationFrame s) = autoplayDuration s"
  "autoplayHoverPause (animationFrame s) = autoplayHoverPause s"
  "dropdownToggle (animationFrame s) = dropdownToggle s"
  "dropdownText (animationFrame s) = dropdownText s"
  "isMobileDropdown (animationFrame s) = isMobileDropdown s"
  "toggleButton (animationFrame s) = toggleButton s"
  "autoplayTimer (animationFrame s) = autoplayTimer s"
  "autoplayObserver (animationFrame s) = autoplayObserver s"
  "isAutoplayPaused (animationFrame s) = isAutoplayPaused s"
  "autoplayStartTime (animationFrame s) = autoplayStartTime s"
  "autoplayElapsedTime (animationFrame s) = autoplayElapsedTime s"
  "pending (animationFrame s) = pending s"
  "timer_counter (animationFrame s) = timer_counter s"
  "registered (animationFrame s) = registered s"
  "observing (animationFrame s) = observing s"
  "resizeTimer (animationFrame s) = resizeTimer s"
  "eventListeners (animationFrame s) = eventListeners s"
  "cachedWindowWidth (animationFrame s) = cachedWindowWidth s"
  "menu_cc_open (animationFrame s) = menu_cc_open s"
  unfolding animationFrame_def by (rule trans [OF foldl_frame]; simp)+

lemma toggleHandler_frame [simp]:
  "tabLinks (toggleHandler env s) = tabLinks s"
  "tabPanes (toggleHandler env s) = tabPanes s"
  "currentActiveIndex (toggleHandler env s) = currentActiveIndex s"
  "autoplayEnabled (toggleHandler env s) = autoplayEnabled s"
  "autoplayDuration (toggleHandler env s) = autoplayDuration s"
  "autoplayHoverPause (toggleHandler env s) = autoplayHoverPause s"
  "dropdownToggle (toggleHandler env s) = dropdownToggle s"
  "dropdownText (toggleHandler env s) = dropdownText s"
  "isMobileDropdown (toggleHandler env s) = isMobileDropdown s"
  "toggleButton (toggleHandler env s) = toggleButton s"
  "autoplayObserver (toggleHandler env s) = autoplayObserver s"
  "registered (toggleHandler env s) = registered s"
  "observing (toggleHandler env s) = observing s"
  "resizeTimer (toggleHandler env s) = resizeTimer s"
  "eventListeners (toggleHandler env s) = eventListeners s"
  "rafQueue (toggleHandler env s) = rafQueue s"
  "cachedWindowWidth (toggleHandler env s) = cachedWindowWidth s"
  "menu_cc_open (toggleHandler env s) = menu_cc_open s"
  by (simp_all add: toggleHandler_def)

lemma observerCallback_frame [simp]:
  "tabLinks (observerCallback env entries s) = tabLinks s"
  "tabPanes (observerCallback env entries s) = tabPanes s"
  "currentActiveIndex (observerCallback env entries s) = currentActiveIndex s"
  "autoplayEnabled (observerCallback env entries s) = autoplayEnabled s"
  "autoplayDuration (observerCallback env entries s) = autoplayDuration s"
  "autoplayHoverPause (observerCallback env entries s) = autoplayHoverPause s"
  "dropdownToggle (observerCallback env entries s) = dropdownToggle s"
  "dropdownText (observerCallback env entries s) = dropdownText s"
  "isMobileDropdown (observerCallback env entries s) = isMobileDropdown s"
  "toggleButton (observerCallback env entries s) = toggleButton s"
  "autoplayObserver (observerCallback env entries s) = autoplayObserver s"
  "registered (observerCallback env entries s) = registered s"
  "observing (observerCallback env entries s) = observing s"
  "resizeTimer (observerCallback env entries s) = resizeTimer s"
  "eventListeners (observerCallback env entries s) = eventListeners s"
  "rafQueue (observerCallback env entries s) = rafQueue s"
  "cachedWindowWidth (observerCallback env entries s) = cachedWindowWidth s"
  "menu_cc_open (observerCallback env entries s) = menu_cc_open s"
  unfolding observerCallback_def by (rule foldl_frame, simp)+

subsection \<open>The paused flag\<close>

lemma paused_observerCallback:
  assumes "autoplayEnabled s"
  shows "isAutoplayPaused (observerCallback env entries s)
           = (if entries = [] then isAutoplayPaused s else \<not> last entries)"
proof (induction entries rule: rev_induct)
  case Nil
  then show ?case by (simp add: observerCallback_def)
next
  case (snoc x xs)
  have step: "observerCallback env (xs @ [x]) s
                = (if x then resumeAutoplay env (observerCallback env xs s)
                   else pauseAutoplay env (observerCallback env xs s))"
    by (simp add: observerCallback_def)
  show ?case
    using assms by (simp add: step paused_resumeAutoplay paused_pauseAutoplay)
qed

lemma paused_fire:
  "isAutoplayPaused (fire cb k (autoAdvance env) s) = isAutoplayPaused s"
  "isAutoplayPaused (fire cb k (autoAdvance_opt env) s) = isAutoplayPaused s"
  "isAutoplayPaused (fire cb k (resizeSettle env) s) = isAutoplayPaused s"
  by (simp_all add: fire_def Let_def)

text \<open>C2, as amended. In an autoplay-enabled component the paused flag is what the
  last call of pause or resume wrote, whichever source made it: an observer callback
  writes whether its last entry does not intersect, pointer enter writes true and
  pointer leave false (where hover pause is wired), a click on the toggle button writes
  the negation of the flag, and no other event changes the flag. So a source that
  turns off resumes autoplay even while another source is still on. This is so in
  tabs.js and in part_000.\<close>

theorem paused_is_last_write:
  assumes "autoplayEnabled s"
  shows "isAutoplayPaused (handle env ev s)
           = (case last_write ev s of None \<Rightarrow> isAutoplayPaused s | Some b \<Rightarrow> b)
       \<and> isAutoplayPaused (handle_opt env ev s)
           = (case last_write ev s of None \<Rightarrow> isAutoplayPaused s | Some b \<Rightarrow> b)"
proof (cases ev)
  case (Click tgt)
  then show ?thesis
    using assms
    by (cases tgt)
       (auto simp: on_def toggleHandler_def paused_resumeAutoplay paused_pauseAutoplay)
next
  case (KeyDown tgt key)
  then show ?thesis by (cases tgt) (auto simp: on_def)
next
  case MouseEnter
  then show ?thesis using assms by (auto simp: on_def paused_pauseAutoplay)
next
  case MouseLeave
  then show ?thesis using assms by (auto simp: on_def paused_resumeAutoplay)
next
  case (Intersect entries)
  then show ?thesis using assms by (auto simp: paused_observerCallback)
next
  case (TimerFire cb k)
  then show ?thesis by (cases cb) (simp_all add: paused_fire)
next
  case HashChange
  then show ?thesis by (auto simp: on_def)
next
  case Resize
  then show ?thesis by (auto simp: on_def)
next
  case AnimationFrame
  then show ?thesis by simp
qed

theorem paused_is_last_write_witness:
  "\<not> isAutoplayPaused (handle (at_time 3000) MouseLeave
       (run [(at_time 1000, Intersect [False]), (at_time 2000, MouseEnter)]
          (demo_mounted autoplay_attrs three_tabs)))
   \<and> \<not> isAutoplayPaused (handle_opt (at_time 3000) MouseLeave
       (run [(at_time 1000, Intersect [False]), (at_time 2000, MouseEnter)]
          (demo_mounted autoplay_attrs three_tabs)))"
proof -
  let ?s = "run [(at_time 1000, Intersect [False]), (at_time 2000, MouseEnter)]
              (demo_mounted autoplay_attrs three_tabs)"
  have s: "autoplayEnabled ?s" "last_write MouseLeave ?s = Some False"
    by code_simp+
  show ?thesis
    using paused_is_last_write [OF s(1), of "at_time 3000" MouseLeave]
    by (simp only: s(2) option.case simp_thms)
qed

text \<open>The claim as stated fails: the component leaves the viewport, the pointer
  enters it and leaves it again. The pointer leave resumes autoplay, so the flag is
  false while the out-of-viewport source is still on.\<close>

theorem paused_flag_is_not_the_disjunction:
  "autoplayEnabled (fst (run_tracked
       [(at_time 1000, Intersect [False]), (at_time 2000, MouseEnter), (at_time 3000, MouseLeave)]
       (demo_mounted autoplay_attrs three_tabs, no_sources)))
   \<and> \<not> isAutoplayPaused (fst (run_tracked
       [(at_time 1000, Intersect [False]), (at_time 2000, MouseEnter), (at_time 3000, MouseLeave)]
       (demo_mounted autoplay_attrs three_tabs, no_sources)))
   \<and> out_of_viewport (snd (run_tracked
       [(at_time 1000, Intersect [False]), (at_time 2000, MouseEnter), (at_time 3000, MouseLeave)]
       (demo_mounted autoplay_attrs three_tabs, no_sources)))
   \<and> sources_paused
       (fst (run_tracked
         [(at_time 1000, Intersect [False]), (at_time 2000, MouseEnter), (at_time 3000, MouseLeave)]
         (demo_mounted autoplay_attrs three_tabs, no_sources)))
       (snd (run_tracked
         [(at_time 1000, Intersect [False]), (at_time 2000, MouseEnter), (at_time 3000, MouseLeave)]
         (demo_mounted autoplay_attrs three_tabs, no_sources)))
   \<and> auto_delays (fst (run_tracked
       [(at_time 1000, Intersect [False]), (at_time 2000, MouseEnter), (at_time 3000, MouseLeave)]
       (demo_mounted autoplay_attrs three_tabs, no_sources))) = [4000]
   \<and> \<not> isAutoplayPaused (fst (run_tracked_opt
       [(at_time 1000, Intersect [False]), (at_time 2000, MouseEnter), (at_time 3000, MouseLeave)]
       (demo_mounted_opt autoplay_attrs three_tabs, no_sources)))
   \<and> sources_paused
       (fst (run_tracked_opt
         [(at_time 1000, Intersect [False]), (at_time 2000, MouseEnter), (at_time 3000, MouseLeave)]
         (demo_mounted_opt autoplay_attrs three_tabs, no_sources)))
       (snd (run_tracked_opt
         [(at_time 1000, Intersect [False]), (at_time 2000, MouseEnter), (at_time 3000, MouseLeave)]
         (demo_mounted_opt autoplay_attrs three_tabs, no_sources)))"
  by code_simp

subsection \<open>Cleanup (part_000)\<close>

lemma listeners_recorded_cong:
  "registered s' = registered s \<Longrightarrow> eventListeners s' = eventListeners s \<Longrightarrow>
   observing s' = observing s \<Longrightarrow> autoplayObserver s' = autoplayObserver s \<Longrightarrow>
   listeners_recorded s' = listeners_recorded s"
  by (simp add: listeners_recorded_def)

lemma listeners_recorded_both:
  "listeners_recorded s \<Longrightarrow> listeners_recorded (pushListener l (addEventListener l s))"
  by (auto simp: listeners_recorded_def pushListener_def addEventListener_def)

lemma listeners_recorded_setup:
  assumes "listeners_recorded s"
  shows "listeners_recorded (setupMobileDropdown_opt s)"
    and "listeners_recorded (setupAutoplayProgressBars s)"
    and "listeners_recorded (setupAutoplayObserver s)"
    and "listeners_recorded (setupAutoplayHoverPause_opt s)"
    and "listeners_recorded (setupAutoplayToggle_opt s)"
    and "listeners_recorded (setupClickHandlers_opt s)"
    and "listeners_recorded (setupKeyboardNav_opt s)"
    and "listeners_recorded (setupResizeHandler s)"
proof -
  have label: "listeners_recorded (setupDropdownLabel s)"
    using assms listeners_recorded_cong [of "setupDropdownLabel s" s] by simp
  show "listeners_recorded (setupMobileDropdown_opt s)"
    using assms label
    by (simp add: setupMobileDropdown_opt_def Let_def listeners_recorded_both)
  show "listeners_recorded (setupAutoplayProgressBars s)"
    using assms listeners_recorded_cong [of "setupAutoplayProgressBars s" s] by simp
  show "listeners_recorded (setupAutoplayObserver s)"
    using assms by (simp add: setupAutoplayObserver_def listeners_recorded_def)
  show "listeners_recorded (setupAutoplayHoverPause_opt s)"
    using assms
    by (auto simp: setupAutoplayHoverPause_opt_def Let_def listeners_recorded_def
          pushListener_def addEventListener_def)
  show "listeners_recorded (setupAutoplayToggle_opt s)"
    using assms by (simp add: setupAutoplayToggle_opt_def listeners_recorded_both)
  show "listeners_recorded (setupClickHandlers_opt s)"
    unfolding setupClickHandlers_opt_def
    using assms by (rule foldl_keeps [rotated]) (auto simp: listeners_recorded_both)
  show "listeners_recorded (setupKeyboardNav_opt s)"
    unfolding setupKeyboardNav_opt_def
    using assms by (rule foldl_keeps [rotated]) (auto simp: listeners_recorded_both)
  show "listeners_recorded (setupResizeHandler s)"
    using assms by (simp add: setupResizeHandler_def listeners_recorded_both)
qed

lemma listeners_recorded_init_opt:
  assumes "listeners_recorded s"
  shows "listeners_recorded (init_opt env s)"
proof -
  have set: "\<And>i s. listeners_recorded s \<Longrightarrow> listeners_recorded (setActiveTab_opt env i s)"
    using listeners_recorded_cong [of "setActiveTab_opt env _ _"] by simp
  have start: "\<And>s. listeners_recorded s \<Longrightarrow> listeners_recorded (startAutoplay env s)"
    using listeners_recorded_cong [of "startAutoplay env _"] by simp
  show ?thesis
    unfolding init_opt_def Let_def
    using assms
    by (auto intro!: listeners_recorded_both start set listeners_recorded_setup)
qed

lemma filter_removeAll: "filter P (removeAll l xs) = filter (\<lambda>x. x \<noteq> l \<and> P x) xs"
  by (induction xs) auto

lemma registered_removed:
  "registered (foldl (\<lambda>s l. removeEventListener l s) s ls)
     = filter (\<lambda>l. l \<notin> set ls) (registered s)"
proof (induction ls arbitrary: s)
  case Nil
  then show ?case by simp
next
  case (Cons l ls)
  have "registered (foldl (\<lambda>s l. removeEventListener l s) (removeEventListener l s) ls)
          = filter (\<lambda>x. x \<notin> set ls) (registered (removeEventListener l s))"
    by (rule Cons.IH)
  also have "\<dots> = filter (\<lambda>x. x \<noteq> l \<and> x \<notin> set ls) (registered s)"
    by (simp add: removeEventListener_def filter_removeAll)
  also have "\<dots> = filter (\<lambda>x. x \<notin> set (l # ls)) (registered s)"
    by (rule filter_cong) auto
  finally show ?case by simp
qed

lemma cleanup_listeners:
  assumes "listeners_recorded s"
  shows "registered (cleanup s) = []" and "\<not> observing (cleanup s)"
    and "eventListeners (cleanup s) = eventListeners s"
    and "autoplayObserver (cleanup s) = autoplayObserver s"
proof -
  let ?s1 = "foldl (\<lambda>s l. removeEventListener l s) s (eventListeners s)"
  have frame: "observing ?s1 = observing s" "autoplayObserver ?s1 = autoplayObserver s"
    "eventListeners ?s1 = eventListeners s"
    by (rule foldl_frame, simp)+
  have reg: "registered ?s1 = []"
    using assms by (auto simp: registered_removed listeners_recorded_def filter_empty_conv)
  show "registered (cleanup s) = []"
    using reg by (simp add: cleanup_def Let_def clearTimeout_def split: option.splits)
  show "\<not> observing (cleanup s)"
    using assms frame
    by (auto simp: cleanup_def Let_def clearTimeout_def listeners_recorded_def
          split: option.splits)
  show "eventListeners (cleanup s) = eventListeners s"
    using frame by (simp add: cleanup_def Let_def clearTimeout_def split: option.splits)
  show "autoplayObserver (cleanup s) = autoplayObserver s"
    using frame by (simp add: cleanup_def Let_def clearTimeout_def split: option.splits)
qed

lemma listeners_recorded_reachable_opt: "reachable_opt s \<Longrightarrow> listeners_recorded s"
proof (induction rule: reachable_opt.induct)
  case (mounted_opt env a s0 s)
  then have s: "s = init_opt env ((declare_state a s0)\<lparr>cachedWindowWidth := innerWidth env,
                     resizeTimer := None, eventListeners := [], rafQueue := []\<rparr>)"
    by (simp add: initTabsComponent_opt_def split: if_splits)
  show ?case
    unfolding s
    by (rule listeners_recorded_init_opt) (simp add: listeners_recorded_def declare_state_def)
next
  case (event_opt s env ev)
  have keep: "\<And>s' s. listeners_recorded s \<Longrightarrow> registered s' = registered s \<Longrightarrow>
                eventListeners s' = eventListeners s \<Longrightarrow> observing s' = observing s \<Longrightarrow>
                autoplayObserver s' = autoplayObserver s \<Longrightarrow> listeners_recorded s'"
    using listeners_recorded_cong by blast
  from event_opt.IH show ?case
    by (rule handle_opt_keeps [of listeners_recorded]) (erule keep; simp)+
next
  case (cleaned s)
  then show ?case
    using cleanup_listeners [of s] by (simp add: listeners_recorded_def)
qed

lemma cleanup_timers:
  assumes "timers_ok s"
  shows "pending (cleanup s) = []"
proof -
  let ?s1 = "foldl (\<lambda>s l. removeEventListener l s) s (eventListeners s)"
  have frame: "pending ?s1 = pending s" "autoplayTimer ?s1 = autoplayTimer s"
    "resizeTimer ?s1 = resizeTimer s"
    by (rule foldl_frame, simp)+
  have left: "t \<in> set (pending s) \<and> autoplayTimer s \<noteq> Some (fst t)
                \<and> resizeTimer s \<noteq> Some (fst t)"
    if "t \<in> set (pending (cleanup s))" for t
  proof -
    have "0 < fst t" if "t \<in> set (pending s)"
      using that assms by (auto simp: timers_ok_def)
    with that show ?thesis
      using frame
      by (auto simp: cleanup_def stopAutoplay_def clearTimeout_def truthy_def Let_def
            split: option.splits if_splits)
  qed
  have "t \<notin> set (pending (cleanup s))" for t
  proof
    assume "t \<in> set (pending (cleanup s))"
    from left [OF this] assms show False
      by (cases "fst (snd t)") (auto simp: timers_ok_def)
  qed
  then show ?thesis by (cases "pending (cleanup s)") auto
qed

text \<open>With no listener registered, no observer observing and no timer live, no event
  of a listener, a timer or the observer reaches any code.\<close>

lemma silent_handle_opt:
  assumes "registered s = []" "\<not> observing s" "pending s = []" "ui_event ev"
  shows "handle_opt env ev s = s"
proof (cases ev)
  case (Click tgt)
  then show ?thesis using assms by (cases tgt) (simp_all add: on_def)
next
  case (KeyDown tgt key)
  then show ?thesis using assms by (cases tgt) (simp_all add: on_def)
next
  case (TimerFire cb k)
  then show ?thesis using assms by (cases cb) (simp_all add: fire_def)
qed (use assms in \<open>simp_all add: on_def\<close>)

lemma silent_run_opt:
  assumes "registered s = []" "\<not> observing s" "pending s = []"
    and "list_all (\<lambda>(env, ev). ui_event ev) evs"
  shows "run_opt evs s = s"
  using assms(4)
proof (induction evs)
  case Nil
  then show ?case by simp
next
  case (Cons p evs)
  then show ?case
    using assms(1-3) by (cases p) (simp add: silent_handle_opt)
qed

text \<open>C6. After \<open>cleanup\<close> of a reachable component of part_000 no timer of the
  component is live (the autoplay timer and the resize debounce timer are cancelled),
  the observer observes no more and no listener is registered; and whatever clicks,
  keydowns, pointer enters and leaves, resizes, hash changes, observer entries and
  timer expiries follow, the state stays what \<open>cleanup\<close> left. (tabs.js has no
  cleanup.)\<close>

theorem cleanup_silences:
  assumes "reachable_opt s" "list_all (\<lambda>(env, ev). ui_event ev) evs"
  shows "run_opt evs (cleanup s) = cleanup s
       \<and> pending (cleanup s) = []
       \<and> registered (cleanup s) = []
       \<and> \<not> observing (cleanup s)"
proof -
  have t: "pending (cleanup s) = []"
    using assms(1) by (intro cleanup_timers timers_ok_reachable_opt)
  have l: "registered (cleanup s) = []" "\<not> observing (cleanup s)"
    using assms(1) by (intro cleanup_listeners listeners_recorded_reachable_opt; assumption)+
  from silent_run_opt [OF l t assms(2)] t l show ?thesis by simp
qed

theorem cleanup_silences_witness:
  "run_opt [(at_time 20000, TimerFire AutoAdvance 0), (at_time 20001, TimerFire ResizeSettle 0),
            (at_time 20002, Click (OverlayEl 1)), (at_time 20003, MouseLeave),
            (at_time 20004, Intersect [True]), (at_hash ''#c'', HashChange),
            (at_time 20005, KeyDown (OverlayEl 0) ''ArrowRight''), (at_time 20006, Resize)]
     (cleanup (run_opt [(at_time 2000, Resize), (at_time 2500, Click (OverlayEl 2))]
                 (demo_mounted_opt autoplay_attrs three_tabs)))
   = cleanup (run_opt [(at_time 2000, Resize), (at_time 2500, Click (OverlayEl 2))]
                 (demo_mounted_opt autoplay_attrs three_tabs))
   \<and> pending (cleanup (run_opt [(at_time 2000, Resize), (at_time 2500, Click (OverlayEl 2))]
                 (demo_mounted_opt autoplay_attrs three_tabs))) = []"
proof -
  let ?s = "run_opt [(at_time 2000, Resize), (at_time 2500, Click (OverlayEl 2))]
              (demo_mounted_opt autoplay_attrs three_tabs)"
  let ?evs = "[(at_time 20000, TimerFire AutoAdvance 0), (at_time 20001, TimerFire ResizeSettle 0),
            (at_time 20002, Click (OverlayEl 1)), (at_time 20003, MouseLeave),
            (at_time 20004, Intersect [True]), (at_hash ''#c'', HashChange),
            (at_time 20005, KeyDown (OverlayEl 0) ''ArrowRight''), (at_time 20006, Resize)]"
  have r: "reachable_opt ?s"
    by (intro reachable_opt_run demo_reachable demo_mountable)
  have e: "list_all (\<lambda>(env, ev). ui_event ev) ?evs"
    by simp
  show ?thesis
    using cleanup_silences [OF r e] by blast
qed

subsection \<open>The two files agree\<close>

lemma startTime_pauseAutoplay:
  "autoplayStartTime (pauseAutoplay env s)
     = (if autoplayEnabled s then None else autoplayStartTime s)"
  by (simp add: pauseAutoplay_def Let_def split: option.splits)

lemma startTime_resumeAutoplay:
  "autoplayStartTime (resumeAutoplay env s)
     = (if autoplayEnabled s then Some (now env) else autoplayStartTime s)"
  by (simp add: resumeAutoplay_def Let_def startAutoplay_startTime)

lemma startTime_restartAutoplay:
  "autoplayStartTime (restartAutoplay env s)
     = (if autoplayEnabled s \<and> \<not> isAutoplayPaused s then Some (now env)
        else autoplayStartTime s)"
  "autoplayStartTime (restartAutoplay_opt env s)
     = (if autoplayEnabled s \<and> \<not> isAutoplayPaused s then Some (now env)
        else autoplayStartTime s)"
  by (simp_all add: restartAutoplay_def restartAutoplay_opt_def Let_def startAutoplay_startTime)

lemma startTime_setActiveTab:
  "autoplayStartTime (setActiveTab env index s)
     = (if 0 \<le> index \<and> index < int (length (tabLinks s))
           \<and> autoplayEnabled s \<and> \<not> isAutoplayPaused s
        then Some (now env) else autoplayStartTime s)"
  "autoplayStartTime (setActiveTab_opt env index s)
     = (if 0 \<le> index \<and> index < int (length (tabLinks s))
           \<and> autoplayEnabled s \<and> \<not> isAutoplayPaused s
        then Some (now env) else autoplayStartTime s)"
  by (cases "0 \<le> index \<and> index < int (length (tabLinks s))";
      auto simp: setActiveTab_valid setActiveTab_invalid Let_def startTime_restartAutoplay)+

lemma auto_delays_pauseAutoplay_if:
  "timers_ok s \<Longrightarrow>
   auto_delays (pauseAutoplay env s) = (if autoplayEnabled s then [] else auto_delays s)"
  by (simp add: auto_delays_pauseAutoplay) (simp add: pauseAutoplay_def)

lemma auto_delays_resumeAutoplay_if:
  "timers_ok s \<Longrightarrow>
   auto_delays (resumeAutoplay env s)
     = (if autoplayEnabled s then [durationMs s - of_int (autoplayElapsedTime s)]
        else auto_delays s)"
  by (simp add: auto_delays_resumeAutoplay) (simp add: resumeAutoplay_def)

lemma length_of_strip:
  "strip_animation xs = strip_animation ys \<Longrightarrow> length xs = length ys"
  by (metis length_strip)

lemma core_pauseAutoplay:
  assumes "core c = core opt" "timers_ok c" "timers_ok opt"
  shows "core (pauseAutoplay env c) = core (pauseAutoplay env opt)"
  using assms
  by (auto simp: core_def paused_pauseAutoplay elapsed_pauseAutoplay startTime_pauseAutoplay
        auto_delays_pauseAutoplay_if split: option.splits)

lemma core_resumeAutoplay:
  assumes "core c = core opt" "timers_ok c" "timers_ok opt"
  shows "core (resumeAutoplay env c) = core (resumeAutoplay env opt)"
  using assms
  by (simp add: core_def paused_resumeAutoplay startTime_resumeAutoplay
        auto_delays_resumeAutoplay_if durationMs_def)

lemma strip_updateTabLinks:
  "strip_animation (updateTabLinks index xs) = updateTabLinks index (strip_animation xs)"
  by (rule nth_equalityI) (simp_all add: strip_animation_def nth_updateTabLinks)

lemma core_setActiveTab:
  assumes "core c = core opt" "timers_ok c" "timers_ok opt"
  shows "core (setActiveTab env index c) = core (setActiveTab_opt env index opt)"
proof -
  from assms(1) have eq:
    "strip_animation (tabLinks c) = strip_animation (tabLinks opt)"
    "tabPanes c = tabPanes opt" "currentActiveIndex c = currentActiveIndex opt"
    "isAutoplayPaused c = isAutoplayPaused opt"
    "autoplayElapsedTime c = autoplayElapsedTime opt"
    "autoplayStartTime c = autoplayStartTime opt"
    "autoplayEnabled c = autoplayEnabled opt" "autoplayDuration c = autoplayDuration opt"
    "autoplayHoverPause c = autoplayHoverPause opt" "isMobileDropdown c = isMobileDropdown opt"
    "dropdownToggle c = dropdownToggle opt" "toggleButton c = toggleButton opt"
    "observing c = observing opt" "auto_delays c = auto_delays opt"
    "set (registered c) - {WindowResize} = set (registered opt) - {WindowResize}"
    by (simp_all add: core_def)
  have len: "length (tabLinks c) = length (tabLinks opt)"
    using eq(1) by (rule length_of_strip)
  have links: "strip_animation (tabLinks (setActiveTab env index c))
                 = strip_animation (tabLinks (setActiveTab_opt env index opt))"
    by (simp add: strip_setActiveTab strip_updateTabLinks len eq(1))
  have panes: "tabPanes (setActiveTab env index c) = tabPanes (setActiveTab_opt env index opt)"
    by (simp add: panes_setActiveTab len eq(2))
  have idx: "currentActiveIndex (setActiveTab env index c)
               = currentActiveIndex (setActiveTab_opt env index opt)"
    by (simp add: index_setActiveTab len eq(3))
  have el: "autoplayElapsedTime (setActiveTab env index c)
              = autoplayElapsedTime (setActiveTab_opt env index opt)"
    by (simp add: elapsed_setActiveTab len eq(5,7))
  have st: "autoplayStartTime (setActiveTab env index c)
              = autoplayStartTime (setActiveTab_opt env index opt)"
    by (simp add: startTime_setActiveTab len eq(4,6,7))
  have ad: "auto_delays (setActiveTab env index c)
              = auto_delays (setActiveTab_opt env index opt)"
    by (simp add: auto_delays_setActiveTab assms(2,3) len eq(4,7,8,14) durationMs_def)
  show ?thesis
    unfolding core_def
    by (simp only: links panes idx el st ad setActiveTab_frame setActiveTab_opt_frame eq)
qed

lemma handles_ok_cong:
  "pending s' = pending s \<Longrightarrow> timer_counter s' = timer_counter s \<Longrightarrow>
   resizeTimer s' = resizeTimer s \<Longrightarrow> handles_ok s' = handles_ok s"
  by (simp add: handles_ok_def)

lemma handles_ok_expire:
  "handles_ok s \<Longrightarrow> handles_ok (s\<lparr>pending := filter (\<lambda>t. fst t \<noteq> i) (pending s)\<rparr>)"
  by (auto simp: handles_ok_def)

lemma handles_ok_stopAutoplay: "handles_ok s \<Longrightarrow> handles_ok (stopAutoplay s)"
  by (auto simp: handles_ok_def stopAutoplay_def clearTimeout_def Let_def split: option.splits)

lemma handles_ok_startAutoplay:
  "handles_ok s \<Longrightarrow> handles_ok (startAutoplay env s)"
  by (auto simp: handles_ok_def startAutoplay_def stopAutoplay_def clearTimeout_def
        setTimeout_def Let_def split: option.splits)

lemma handles_ok_pauseAutoplay: "handles_ok s \<Longrightarrow> handles_ok (pauseAutoplay env s)"
  by (auto simp: handles_ok_def pauseAutoplay_def updateToggleButton_def stopAutoplay_def
        clearTimeout_def Let_def split: option.splits)

lemma handles_ok_resumeAutoplay: "handles_ok s \<Longrightarrow> handles_ok (resumeAutoplay env s)"
proof -
  assume ok: "handles_ok s"
  let ?s1 = "s\<lparr>isAutoplayPaused := False, component_autoplay_paused := False\<rparr>"
  have "handles_ok ?s1" using ok by (simp add: handles_ok_def)
  then have "handles_ok (startAutoplay env ?s1)" by (rule handles_ok_startAutoplay)
  moreover have "handles_ok (updateToggleButton (startAutoplay env ?s1))
                   = handles_ok (startAutoplay env ?s1)"
    by (rule handles_ok_cong) simp_all
  ultimately show ?thesis
    using ok by (simp add: resumeAutoplay_def Let_def)
qed

lemma handles_ok_setActiveTab_opt:
  assumes "handles_ok s"
  shows "handles_ok (setActiveTab_opt env index s)"
proof (cases "0 \<le> index \<and> index < int (length (tabLinks s))")
  case False
  then show ?thesis using assms by (auto simp: setActiveTab_invalid)
next
  case True
  let ?s5 = "closeDropdownIfOpen (updateDropdownText index
               (s\<lparr>tabLinks := updateTabLinks index (tabLinks s),
                  tabPanes := updateTabPanes index (tabPanes s),
                  currentActiveIndex := index\<rparr>))"
  let ?s6 = "restartAnimation_opt (?s5\<lparr>autoplayElapsedTime := 0\<rparr>)"
  have "handles_ok ?s5" "handles_ok (?s5\<lparr>autoplayElapsedTime := 0\<rparr>)" "handles_ok ?s6"
    using assms handles_ok_cong [of ?s5 s]
      handles_ok_cong [of "?s5\<lparr>autoplayElapsedTime := 0\<rparr>" s] handles_ok_cong [of ?s6 s]
    by simp_all
  then show ?thesis
    using True
    by (simp add: setActiveTab_valid Let_def restartAutoplay_opt_def handles_ok_startAutoplay)
qed

lemma handles_ok_resizeHandler: "timers_ok s \<Longrightarrow> handles_ok (resizeHandler s)"
  unfolding timers_ok_def handles_ok_def resizeHandler_def clearTimeout_def setTimeout_def Let_def
  by (fastforce split: option.splits)

text \<open>The timers and handles of part_000 stay in order under every event.\<close>

lemma handle_opt_timers:
  assumes "timers_ok s \<and> handles_ok s"
  shows "timers_ok (handle_opt env ev s) \<and> handles_ok (handle_opt env ev s)"
proof -
  have raf: "\<And>s q. timers_ok s \<and> handles_ok s \<Longrightarrow>
               timers_ok (s\<lparr>rafQueue := q\<rparr>) \<and> handles_ok (s\<lparr>rafQueue := q\<rparr>)"
    and anim: "\<And>s i v. timers_ok s \<and> handles_ok s \<Longrightarrow>
           timers_ok (s\<lparr>tabLinks := (tabLinks s)[i := (tabLinks s ! i)\<lparr>progress_animation := v\<rparr>]\<rparr>)
           \<and> handles_ok (s\<lparr>tabLinks := (tabLinks s)[i := (tabLinks s ! i)\<lparr>progress_animation := v\<rparr>]\<rparr>)"
    and settle: "\<And>s. timers_ok s \<and> handles_ok s \<Longrightarrow>
           timers_ok (resizeSettle env s) \<and> handles_ok (resizeSettle env s)"
    and drop: "\<And>s. timers_ok s \<and> handles_ok s \<Longrightarrow>
           timers_ok (closeDropdown s) \<and> handles_ok (closeDropdown s)"
      "\<And>s. timers_ok s \<and> handles_ok s \<Longrightarrow>
           timers_ok (openDropdown s) \<and> handles_ok (openDropdown s)"
    by (simp_all add: timers_ok_def timers_of_def handles_ok_def resizeSettle_def)
  from assms show ?thesis
    by (rule handle_opt_keeps [of "\<lambda>s. timers_ok s \<and> handles_ok s"])
       (simp_all add: timers_ok_setActiveTab timers_ok_pauseAutoplay timers_ok_resumeAutoplay
          timers_ok_expire timers_ok_resizeHandler handles_ok_setActiveTab_opt
          handles_ok_pauseAutoplay handles_ok_resumeAutoplay handles_ok_expire
          handles_ok_resizeHandler raf anim settle drop)
qed

lemma handle_timers: "timers_ok s \<Longrightarrow> timers_ok (handle env ev s)"
  by (rule handle_keeps [of timers_ok])
     (simp_all add: timers_ok_setActiveTab timers_ok_pauseAutoplay timers_ok_resumeAutoplay
        timers_ok_expire timers_ok_cong [of "closeDropdown _"] timers_ok_cong [of "openDropdown _"])

lemma core_fields:
  assumes "core c = core opt"
  shows "strip_animation (tabLinks c) = strip_animation (tabLinks opt)"
    and "length (tabLinks c) = length (tabLinks opt)"
    and "currentActiveIndex c = currentActiveIndex opt"
    and "isAutoplayPaused c = isAutoplayPaused opt"
    and "observing c = observing opt"
    and "auto_delays c = auto_delays opt"
    and "l \<noteq> WindowResize \<Longrightarrow> (l \<in> set (registered c)) = (l \<in> set (registered opt))"
proof -
  show 1: "strip_animation (tabLinks c) = strip_animation (tabLinks opt)"
    using assms by (simp add: core_def)
  show "length (tabLinks c) = length (tabLinks opt)"
    using 1 by (rule length_of_strip)
  show "currentActiveIndex c = currentActiveIndex opt" "isAutoplayPaused c = isAutoplayPaused opt"
    "observing c = observing opt" "auto_delays c = auto_delays opt"
    using assms by (simp_all add: core_def)
  have "set (registered c) - {WindowResize} = set (registered opt) - {WindowResize}"
    using assms by (simp add: core_def)
  then show "l \<noteq> WindowResize \<Longrightarrow> (l \<in> set (registered c)) = (l \<in> set (registered opt))"
    by blast
qed

lemma core_dropdown [simp]:
  "core (closeDropdown s) = core s" "core (openDropdown s) = core s"
  "core (toggleDropdown s) = core s" "core (outsideClickHandler b s) = core s"
  "core (escapeHandler key s) = core s" "core (resizeSettle env s) = core s"
  by (simp_all add: core_def auto_delays_def timers_of_def)

lemma timers_dropdown [simp]:
  "timers_ok (closeDropdown s) = timers_ok s" "timers_ok (openDropdown s) = timers_ok s"
  "timers_ok (toggleDropdown s) = timers_ok s" "timers_ok (outsideClickHandler b s) = timers_ok s"
  "timers_ok (escapeHandler key s) = timers_ok s"
  by (rule timers_ok_cong; simp)+

lemma findIndex_strip:
  "findIndex (\<lambda>link. link_id link = h) (strip_animation xs)
     = findIndex (\<lambda>link. link_id link = h) xs"
  by (induction xs) (simp_all add: strip_animation_def)

lemma strip_animationFrame: "strip_animation (tabLinks (animationFrame s)) = strip_animation (tabLinks s)"
proof -
  have step: "strip_animation (tabLinks (runRaf cb s)) = strip_animation (tabLinks s)" for cb s
    by (cases cb) (simp_all add: strip_update)
  have "strip_animation (tabLinks (foldl (\<lambda>s cb. runRaf cb s) s q)) = strip_animation (tabLinks s)"
    for q s
    by (induction q arbitrary: s) (simp_all add: step)
  then show ?thesis by (simp add: animationFrame_def)
qed

lemma core_animationFrame: "core (animationFrame s) = core s"
  by (simp add: core_def strip_animationFrame auto_delays_def timers_of_def)

lemma filter_filter_keep:
  "(\<And>x. x \<in> set xs \<Longrightarrow> P x \<Longrightarrow> Q x) \<Longrightarrow> filter P (filter Q xs) = filter P xs"
  by (induction xs) auto

text \<open>Expiry. The one live autoplay timer goes; a resize timer that goes leaves the
  autoplay timer.\<close>

lemma expire_auto:
  assumes "timers_ok s" "k < length (timers_of AutoAdvance s)"
  shows "auto_delays (s\<lparr>pending := filter (\<lambda>t. fst t \<noteq> fst (timers_of AutoAdvance s ! k))
                                     (pending s)\<rparr>) = []"
proof -
  let ?t = "timers_of AutoAdvance s ! k"
  have "?t \<in> set (timers_of AutoAdvance s)"
    using assms(2) by simp
  then have t: "autoplayTimer s = Some (fst ?t)"
    using assms(1) by (auto simp: timers_ok_def timers_of_def)
  have "\<forall>x \<in> set (pending s). fst (snd x) = AutoAdvance \<longrightarrow> fst x = fst ?t"
    using assms(1) t by (auto simp: timers_ok_def)
  then show ?thesis
    by (auto simp: auto_delays_def timers_of_def filter_empty_conv)
qed

lemma expire_resize:
  assumes "timers_ok s" "k < length (timers_of ResizeSettle s)"
  shows "auto_delays (s\<lparr>pending := filter (\<lambda>t. fst t \<noteq> fst (timers_of ResizeSettle s ! k))
                                     (pending s)\<rparr>) = auto_delays s"
proof -
  let ?t = "timers_of ResizeSettle s ! k"
  have "?t \<in> set (timers_of ResizeSettle s)"
    using assms(2) by simp
  then have t: "?t \<in> set (pending s)" "fst (snd ?t) = ResizeSettle"
    by (auto simp: timers_of_def)
  have "fst x \<noteq> fst ?t" if "x \<in> set (pending s)" "fst (snd x) = AutoAdvance" for x
  proof
    assume "fst x = fst ?t"
    moreover have "inj_on fst (set (pending s))"
      using assms(1) by (simp add: timers_ok_def distinct_map)
    ultimately have "x = ?t"
      using that(1) t(1) by (auto dest: inj_onD)
    with that(2) t(2) show False by simp
  qed
  then have "filter (\<lambda>x. fst (snd x) = AutoAdvance) (filter (\<lambda>x. fst x \<noteq> fst ?t) (pending s))
               = filter (\<lambda>x. fst (snd x) = AutoAdvance) (pending s)"
    by (intro filter_filter_keep)
  then show ?thesis
    by (simp add: auto_delays_def timers_of_def)
qed

lemma auto_delays_resizeHandler:
  assumes "handles_ok s"
  shows "auto_delays (resizeHandler s) = auto_delays s"
proof -
  have "filter (\<lambda>x. fst (snd x) = AutoAdvance) (filter (\<lambda>x. fst x \<noteq> i) (pending s))
          = filter (\<lambda>x. fst (snd x) = AutoAdvance) (pending s)"
    if "resizeTimer s = Some i" for i
    using assms that by (intro filter_filter_keep) (auto simp: handles_ok_def)
  then show ?thesis
    by (auto simp: auto_delays_def timers_of_def resizeHandler_def clearTimeout_def
          setTimeout_def Let_def split: option.splits)
qed

lemma core_resizeHandler: "handles_ok s \<Longrightarrow> core (resizeHandler s) = core s"
  by (simp add: core_def auto_delays_resizeHandler)

lemma sim_pause_resume:
  assumes "sim c opt"
  shows "sim (pauseAutoplay env c) (pauseAutoplay env opt)"
    and "sim (resumeAutoplay env c) (resumeAutoplay env opt)"
  using assms core_pauseAutoplay [of c opt env] core_resumeAutoplay [of c opt env]
  by (simp_all add: sim_def timers_ok_pauseAutoplay timers_ok_resumeAutoplay
        handles_ok_pauseAutoplay handles_ok_resumeAutoplay)

lemma sim_observerCallback:
  "sim c opt \<Longrightarrow> sim (observerCallback env entries c) (observerCallback env entries opt)"
  unfolding observerCallback_def
  by (induction entries arbitrary: c opt) (simp_all add: sim_pause_resume)

lemma core_on_document [simp]:
  "core (on DocumentClick (outsideClickHandler b) s) = core s"
  "core (on DocumentKeydown (escapeHandler key) s) = core s"
  by (simp_all add: on_def)

lemma keyIndex_core: "core c = core opt \<Longrightarrow> keyIndex key c = keyIndex key opt"
  using core_fields(2,3) [of c opt] by (simp add: keyIndex_def)
lemma core_click:
  assumes "core c = core opt" "timers_ok c" "timers_ok opt"
  shows "core (handle env (Click tgt) c) = core (handle_opt env (Click tgt) opt)"
proof (cases tgt)
  case (OverlayEl i)
  then show ?thesis
    using assms(1) core_fields(7) [OF assms(1), of "OverlayClick i"]
      core_setActiveTab [OF assms(1-3), of env "int i"]
    by (simp add: on_def [of "OverlayClick i"] clickHandler_def clickHandler_opt_def)
next
  case DropdownToggleEl
  then show ?thesis using assms(1) by simp
next
  case AutoplayToggleEl
  then show ?thesis
    using assms core_fields(7) [OF assms(1), of AutoplayToggleClick]
      core_fields(4) [OF assms(1)] core_pauseAutoplay [OF assms, of env]
      core_resumeAutoplay [OF assms, of env]
    by (simp add: on_def [of AutoplayToggleClick] toggleHandler_def)
next
  case InsideEl
  then show ?thesis using assms(1) by simp
next
  case OutsideEl
  then show ?thesis using assms(1) by simp
qed
lemma core_keydown:
  assumes "core c = core opt" "timers_ok c" "timers_ok opt"
  shows "core (handle env (KeyDown tgt key) c) = core (handle_opt env (KeyDown tgt key) opt)"
proof (cases tgt)
  case (OverlayEl i)
  show ?thesis
  proof (cases "keyIndex key opt")
    case None
    then show ?thesis
      using OverlayEl assms(1) keyIndex_core [OF assms(1), of key]
      by (simp add: on_def [of "OverlayKeydown i"] keydownHandler_def keydownHandler_opt_def)
  next
    case (Some j)
    then show ?thesis
      using OverlayEl assms(1) keyIndex_core [OF assms(1), of key]
        core_fields(7) [OF assms(1), of "OverlayKeydown i"]
        core_setActiveTab [OF assms(1-3), of env j]
      by (simp add: on_def [of "OverlayKeydown i"] keydownHandler_def keydownHandler_opt_def)
  qed
qed (use assms(1) in simp_all)
lemma core_hover:
  assumes "core c = core opt" "timers_ok c" "timers_ok opt"
  shows "core (handle env MouseEnter c) = core (handle_opt env MouseEnter opt)"
    and "core (handle env MouseLeave c) = core (handle_opt env MouseLeave opt)"
  using assms core_fields(7) [OF assms(1), of ComponentMouseEnter]
    core_fields(7) [OF assms(1), of ComponentMouseLeave]
    core_pauseAutoplay [OF assms, of env] core_resumeAutoplay [OF assms, of env]
  by (simp_all add: on_def)
lemma core_intersect:
  assumes "sim c opt"
  shows "core (handle env (Intersect entries) c) = core (handle_opt env (Intersect entries) opt)"
  using sim_observerCallback [OF assms, of env entries] assms
    core_fields(5) [of c opt]
  by (simp add: sim_def)
lemma core_fire_auto:
  assumes "core c = core opt" "timers_ok c" "timers_ok opt"
  shows "core (handle env (TimerFire AutoAdvance k) c)
           = core (handle_opt env (TimerFire AutoAdvance k) opt)"
proof -
  let ?c' = "c\<lparr>pending := filter (\<lambda>t. fst t \<noteq> fst (timers_of AutoAdvance c ! k)) (pending c)\<rparr>"
  let ?o' = "opt\<lparr>pending := filter (\<lambda>t. fst t \<noteq> fst (timers_of AutoAdvance opt ! k))
                              (pending opt)\<rparr>"
  have len: "length (timers_of AutoAdvance c) = length (timers_of AutoAdvance opt)"
    using core_fields(6) [OF assms(1)] by (auto simp: auto_delays_def dest: map_eq_imp_length_eq)
  show ?thesis
  proof (cases "k < length (timers_of AutoAdvance c)")
    case False
    then have "handle env (TimerFire AutoAdvance k) c = c"
      "handle_opt env (TimerFire AutoAdvance k) opt = opt"
      using len by (simp_all add: fire_def timers_of_def)
    then show ?thesis using assms(1) by simp
  next
    case True
    have fired: "handle env (TimerFire AutoAdvance k) c = autoAdvance env ?c'"
      "handle_opt env (TimerFire AutoAdvance k) opt = autoAdvance_opt env ?o'"
      using True len by (simp_all add: fire_def timers_of_def Let_def)
    have d: "auto_delays ?c' = []" "auto_delays ?o' = []"
      using expire_auto [OF assms(2) True] expire_auto [OF assms(3), of k] True len by simp_all
    have core': "core ?c' = core ?o'"
      using assms(1) unfolding core_def by (simp add: d)
    have ok': "timers_ok ?c'" "timers_ok ?o'"
      using assms(2,3) by (simp_all add: timers_ok_expire)
    have next_index: "js_rem (currentActiveIndex ?c' + 1) (int (length (tabLinks ?c')))
            = js_rem (currentActiveIndex ?o' + 1) (int (length (tabLinks ?o')))"
      using core_fields(2,3) [OF assms(1)] by simp
    show ?thesis
      unfolding fired autoAdvance_def autoAdvance_opt_def next_index
      by (rule core_setActiveTab [OF core' ok'])
  qed
qed
lemma core_fire_resize:
  assumes "core c = core opt" "timers_ok opt"
  shows "core (handle env (TimerFire ResizeSettle k) c)
           = core (handle_opt env (TimerFire ResizeSettle k) opt)"
proof (cases "k < length (timers_of ResizeSettle opt)")
  case False
  then have "handle_opt env (TimerFire ResizeSettle k) opt = opt"
    by (simp add: fire_def timers_of_def)
  then show ?thesis using assms(1) by simp
next
  case True
  let ?o' = "opt\<lparr>pending := filter (\<lambda>t. fst t \<noteq> fst (timers_of ResizeSettle opt ! k))
                                    (pending opt)\<rparr>"
  have "handle_opt env (TimerFire ResizeSettle k) opt = resizeSettle env ?o'"
    using True by (simp add: fire_def timers_of_def Let_def)
  moreover have "core ?o' = core opt"
    using expire_resize [OF assms(2) True] unfolding core_def by simp
  ultimately show ?thesis using assms(1) by simp
qed
lemma core_hashchange:
  assumes "core c = core opt" "timers_ok c" "timers_ok opt"
  shows "core (handle env HashChange c) = core (handle_opt env HashChange opt)"
proof -
  let ?h = "drop 1 (location_hash env)"
  have same: "findIndex (\<lambda>link. link_id link = ?h) (tabLinks c)
          = findIndex (\<lambda>link. link_id link = ?h) (tabLinks opt)"
    using core_fields(1) [OF assms(1)] findIndex_strip [of ?h "tabLinks c"]
      findIndex_strip [of ?h "tabLinks opt"] by simp
  show ?thesis
    using assms(1) same core_fields(7) [OF assms(1), of WindowHashChange]
      core_setActiveTab [OF assms(1-3), of env "findIndex (\<lambda>link. link_id link = ?h) (tabLinks opt)"]
    by (simp add: on_def hashChangeHandler_def hashChangeHandler_opt_def Let_def)
qed
lemma core_resize_frame:
  assumes "core c = core opt" "handles_ok opt"
  shows "core (handle env Resize c) = core (handle_opt env Resize opt)"
    and "core (handle env AnimationFrame c) = core (handle_opt env AnimationFrame opt)"
  using assms by (simp_all add: on_def core_resizeHandler core_animationFrame)
lemma core_handle:
  assumes "sim c opt"
  shows "core (handle env ev c) = core (handle_opt env ev opt)"
proof -
  from assms have a: "core c = core opt" "timers_ok c" "timers_ok opt" "handles_ok opt"
    by (simp_all add: sim_def)
  show ?thesis
  proof (cases ev)
    case (TimerFire cb k)
    then show ?thesis
      by (cases cb) (simp_all only: core_fire_auto [OF a(1-3)] core_fire_resize [OF a(1,3)])
  qed (simp_all only: core_click [OF a(1-3)] core_keydown [OF a(1-3)] core_hover [OF a(1-3)]
         core_intersect [OF assms] core_hashchange [OF a(1-3)] core_resize_frame [OF a(1,4)])
qed

lemma sim_handle: "sim c opt \<Longrightarrow> sim (handle env ev c) (handle_opt env ev opt)"
  using core_handle [of c opt env ev] handle_timers [of c env ev] handle_opt_timers [of opt env ev]
  by (simp add: sim_def)

lemma sim_run: "sim c opt \<Longrightarrow> sim (run evs c) (run_opt evs opt)"
proof (induction evs arbitrary: c opt)
  case Nil
  then show ?case by simp
next
  case (Cons p evs)
  then show ?case by (cases p) (simp add: sim_handle)
qed

text \<open>Mounting: each setup function of part_000 registers what its twin in tabs.js
  registers, and records it.\<close>

lemma sim_left:
  "core c' = core c \<Longrightarrow> timers_ok c' = timers_ok c \<Longrightarrow> sim c' opt = sim c opt"
  by (simp add: sim_def)

lemma sim_right:
  "core o' = core opt \<Longrightarrow> timers_ok o' = timers_ok opt \<Longrightarrow> handles_ok o' = handles_ok opt \<Longrightarrow>
   sim c o' = sim c opt"
  by (simp add: sim_def)

lemma quiet_setup [simp]:
  "core (pushListener l s) = core s" "timers_ok (pushListener l s) = timers_ok s"
  "handles_ok (pushListener l s) = handles_ok s"
  "core (setupDropdownLabel s) = core s" "timers_ok (setupDropdownLabel s) = timers_ok s"
  "handles_ok (setupDropdownLabel s) = handles_ok s"
  "core (setupAutoplayProgressBars s) = core s"
  "timers_ok (setupAutoplayProgressBars s) = timers_ok s"
  "handles_ok (setupAutoplayProgressBars s) = handles_ok s"
  "timers_ok (addEventListener l s) = timers_ok s"
  "handles_ok (addEventListener l s) = handles_ok s"
  "timers_ok (setupAutoplayObserver s) = timers_ok s"
  "handles_ok (setupAutoplayObserver s) = handles_ok s"
  by (simp_all add: core_def auto_delays_def timers_of_def timers_ok_def handles_ok_def)

lemma quiet_setupResizeHandler [simp]:
  "core (setupResizeHandler s) = core s"
  "timers_ok (setupResizeHandler s) = timers_ok s"
  "handles_ok (setupResizeHandler s) = handles_ok s"
  by (auto simp: core_def setupResizeHandler_def auto_delays_def timers_of_def
        pushListener_def addEventListener_def timers_ok_def handles_ok_def)

lemma sim_add:
  assumes "sim c opt"
  shows "sim (addEventListener l c) (addEventListener l opt)"
proof -
  have "set (registered (addEventListener l s)) = insert l (set (registered s))" for s
    by (auto simp: addEventListener_def)
  then have "core (addEventListener l c) = core (addEventListener l opt)"
    using assms by (auto simp: sim_def core_def auto_delays_def timers_of_def)
  then show ?thesis using assms by (simp add: sim_def)
qed

lemma sim_both: "sim c opt \<Longrightarrow> sim (addEventListener l c) (pushListener l (addEventListener l opt))"
  using sim_add [of c opt l] sim_right [of "pushListener l (addEventListener l opt)"] by simp

lemma sim_config:
  assumes "sim c opt"
  shows "isMobileDropdown c = isMobileDropdown opt" "dropdownToggle c = dropdownToggle opt"
    "autoplayEnabled c = autoplayEnabled opt" "autoplayHoverPause c = autoplayHoverPause opt"
    "toggleButton c = toggleButton opt"
    "map overlay_tabindex (tabLinks c) = map overlay_tabindex (tabLinks opt)"
proof -
  have "map overlay_tabindex (strip_animation xs) = map overlay_tabindex xs" for xs
    by (simp add: strip_animation_def)
  then show "map overlay_tabindex (tabLinks c) = map overlay_tabindex (tabLinks opt)"
    using assms by (metis core_fields(1) sim_def)
qed (use assms in \<open>simp_all add: sim_def core_def\<close>)

lemma sim_setupMobileDropdown:
  "sim c opt \<Longrightarrow> sim (setupMobileDropdown c) (setupMobileDropdown_opt opt)"
  using sim_config(1,2) [of c opt]
    sim_left [of "setupDropdownLabel c" c] sim_right [of "setupDropdownLabel opt" opt]
  by (simp add: setupMobileDropdown_def setupMobileDropdown_opt_def Let_def sim_both)

lemma sim_setupAutoplayObserver:
  "sim c opt \<Longrightarrow> sim (setupAutoplayObserver c) (setupAutoplayObserver opt)"
  by (auto simp: sim_def core_def setupAutoplayObserver_def auto_delays_def timers_of_def
        timers_ok_def handles_ok_def)

lemma sim_setupAutoplayHoverPause:
  "sim c opt \<Longrightarrow> sim (setupAutoplayHoverPause c) (setupAutoplayHoverPause_opt opt)"
proof -
  assume s: "sim c opt"
  let ?o2 = "addEventListener ComponentMouseLeave (addEventListener ComponentMouseEnter opt)"
  have "sim (addEventListener ComponentMouseLeave (addEventListener ComponentMouseEnter c)) ?o2"
    using s by (intro sim_add)
  moreover have "sim c' (pushListener ComponentMouseLeave (pushListener ComponentMouseEnter ?o2))
                   = sim c' ?o2" for c'
    by (rule sim_right) simp_all
  ultimately show ?thesis
    using s sim_config(3,4) [OF s]
    by (simp add: setupAutoplayHoverPause_def setupAutoplayHoverPause_opt_def Let_def)
qed

lemma sim_setupAutoplayToggle:
  "sim c opt \<Longrightarrow> sim (setupAutoplayToggle c) (setupAutoplayToggle_opt opt)"
  using sim_config(3,5) [of c opt]
  by (auto simp: setupAutoplayToggle_def setupAutoplayToggle_opt_def sim_both)

lemma sim_overlay_loop:
  assumes "map overlay_tabindex xs = map overlay_tabindex ys" "sim c opt"
  shows "sim (foldl (\<lambda>s (i, link). if overlay_tabindex link = None then s
                                    else addEventListener (X i) s) c (enumerate n xs))
             (foldl (\<lambda>s (i, link). if overlay_tabindex link = None then s
                                    else pushListener (X i) (addEventListener (X i) s))
                opt (enumerate n ys))"
  using assms
proof (induction xs arbitrary: ys n c opt)
  case Nil
  then show ?case by simp
next
  case (Cons x xs)
  then obtain y ys' where ys: "ys = y # ys'" "overlay_tabindex x = overlay_tabindex y"
    "map overlay_tabindex xs = map overlay_tabindex ys'"
    by (cases ys) auto
  show ?case
    using Cons.prems(2) ys(2)
    by (auto simp: ys(1) intro!: Cons.IH [OF ys(3)] sim_both)
qed

lemma sim_setupHandlers:
  assumes "sim c opt"
  shows "sim (setupClickHandlers c) (setupClickHandlers_opt opt)"
    and "sim (setupKeyboardNav c) (setupKeyboardNav_opt opt)"
  unfolding setupClickHandlers_def setupClickHandlers_opt_def setupKeyboardNav_def
    setupKeyboardNav_opt_def
  by (rule sim_overlay_loop [OF sim_config(6) [OF assms] assms])+

lemma sim_setActiveTab: "sim c opt \<Longrightarrow> sim (setActiveTab env index c) (setActiveTab_opt env index opt)"
  using core_setActiveTab [of c opt env index]
  by (simp add: sim_def timers_ok_setActiveTab handles_ok_setActiveTab_opt)

lemma sim_startAutoplay: "sim c opt \<Longrightarrow> sim (startAutoplay env c) (startAutoplay env opt)"
  by (auto simp: sim_def core_def startAutoplay_startTime auto_delays_startAutoplay
        timers_ok_startAutoplay handles_ok_startAutoplay durationMs_def)

lemma findInitialActiveIndex_strip:
  "findInitialActiveIndex env (strip_animation xs) = findInitialActiveIndex env xs"
proof -
  have "findIndex cc_active (strip_animation xs) = findIndex cc_active xs"
    by (induction xs) (simp_all add: strip_animation_def)
  then show ?thesis
    unfolding findInitialActiveIndex_def findIndex_strip by simp
qed

lemma sim_init:
  assumes "sim c opt"
  shows "sim (init env c) (init_opt env opt)"
proof -
  let ?c5 = "setupAutoplayToggle (setupAutoplayHoverPause (setupAutoplayObserver
               (setupAutoplayProgressBars (setupMobileDropdown c))))"
  let ?o5 = "setupAutoplayToggle_opt (setupAutoplayHoverPause_opt (setupAutoplayObserver
               (setupAutoplayProgressBars (setupMobileDropdown_opt opt))))"
  have "sim (setupAutoplayProgressBars (setupMobileDropdown c))
            (setupAutoplayProgressBars (setupMobileDropdown_opt opt))"
    using sim_setupMobileDropdown [OF assms]
      sim_left [of "setupAutoplayProgressBars (setupMobileDropdown c)" "setupMobileDropdown c"]
      sim_right [of "setupAutoplayProgressBars (setupMobileDropdown_opt opt)"
                    "setupMobileDropdown_opt opt"]
    by simp
  then have s5: "sim ?c5 ?o5"
    by (intro sim_setupAutoplayToggle sim_setupAutoplayHoverPause sim_setupAutoplayObserver)
  have "findInitialActiveIndex env (tabLinks ?c5) = findInitialActiveIndex env (tabLinks ?o5)"
    using s5 findInitialActiveIndex_strip [of env "tabLinks ?c5"]
      findInitialActiveIndex_strip [of env "tabLinks ?o5"]
    by (simp add: sim_def core_def)
  then have s6: "sim (setActiveTab env (findInitialActiveIndex env (tabLinks ?c5)) ?c5)
                     (setActiveTab_opt env (findInitialActiveIndex env (tabLinks ?o5)) ?o5)"
    using sim_setActiveTab [OF s5] by simp
  let ?c8 = "setupKeyboardNav (setupClickHandlers
               (setActiveTab env (findInitialActiveIndex env (tabLinks ?c5)) ?c5))"
  let ?o8 = "setupKeyboardNav_opt (setupClickHandlers_opt
               (setActiveTab_opt env (findInitialActiveIndex env (tabLinks ?o5)) ?o5))"
  have s8: "sim ?c8 ?o8"
    using s6 by (intro sim_setupHandlers)
  have s9: "sim ?c8 (setupResizeHandler ?o8)"
    using s8 sim_right [of "setupResizeHandler ?o8" ?o8]
    by simp
  have en: "autoplayEnabled ?c8 = autoplayEnabled (setupResizeHandler ?o8)"
    using sim_config(3) [OF s9] .
  have s10: "sim (if autoplayEnabled ?c8 then startAutoplay env ?c8 else ?c8)
                 (if autoplayEnabled (setupResizeHandler ?o8)
                  then startAutoplay env (setupResizeHandler ?o8) else setupResizeHandler ?o8)"
    using s9 en sim_startAutoplay [OF s9] by simp
  show ?thesis
    unfolding init_def init_opt_def Let_def
    by (rule sim_both [OF s10])
qed

subsection \<open>tabs.js and part_000 agree\<close>

text \<open>The two files mount a page in related states: part_000 has, beyond tabs.js, its
  record of listeners, the resize listener, the cached width and the queue of
  animation frames.\<close>

lemma sim_declared:
  "sim (declare_state a s0)
       ((declare_state a s0)\<lparr>cachedWindowWidth := w, resizeTimer := None,
                              eventListeners := [], rafQueue := []\<rparr>)"
  by (simp add: sim_def core_def declare_state_def timers_ok_def handles_ok_def
        auto_delays_def timers_of_def)

lemma sim_mounted:
  assumes "initTabsComponent env a s0 = Some c" "initTabsComponent_opt env a s0 = Some opt"
  shows "sim c opt"
proof -
  have m: "mountable a s0"
    using assms(1) by (simp add: initTabsComponent_def split: if_split_asm)
  have c: "c = init env (declare_state a s0)"
    using assms(1) m by (simp add: initTabsComponent_def)
  have o: "opt = init_opt env
             ((declare_state a s0)\<lparr>cachedWindowWidth := innerWidth env, resizeTimer := None,
                                    eventListeners := [], rafQueue := []\<rparr>)"
    using assms(2) m by (simp add: initTabsComponent_opt_def)
  show ?thesis
    unfolding c o by (rule sim_init [OF sim_declared])
qed

lemma view_core: "core c = core opt \<Longrightarrow> view c = view opt"
  by (simp add: core_def view_def)

text \<open>Claim C10. tabs.js and part_000, mounted on the same page with the same
  configuration at the same time and given the same events at the same times (clicks
  and key presses on the tabs, the dropdown toggle and the autoplay toggle, the pointer
  entering and leaving, the entries of the intersection observer, timers firing, hash
  changes, resizes and animation frames), either both refuse to mount or are left
  with the same \<open>currentActiveIndex\<close>, the same \<open>isAutoplayPaused\<close> and the same
  \<open>autoplayElapsedTime\<close>.\<close>

theorem variants_agree:
  "map_option (\<lambda>s. view (run evs s)) (initTabsComponent env a s0)
     = map_option (\<lambda>s. view (run_opt evs s)) (initTabsComponent_opt env a s0)"
proof (cases "mountable a s0")
  case False
  then show ?thesis by (simp add: initTabsComponent_def initTabsComponent_opt_def)
next
  case True
  then obtain c opt where m: "initTabsComponent env a s0 = Some c"
    "initTabsComponent_opt env a s0 = Some opt"
    by (simp add: initTabsComponent_def initTabsComponent_opt_def)
  have "sim (run evs c) (run_opt evs opt)"
    using sim_mounted [OF m] by (rule sim_run)
  then have "view (run evs c) = view (run_opt evs opt)"
    by (intro view_core) (simp add: sim_def)
  then show ?thesis by (simp add: m)
qed

text \<open>The session on the autoplaying demo page leaves both files on the first tab,
  paused by the toggle 1500 ms into the cycle.\<close>

theorem variants_agree_witness:
  "map_option (\<lambda>s. view (run demo_session s))
       (initTabsComponent (at_time 0) autoplay_attrs three_tabs) = Some (0, True, 1500)
   \<and> map_option (\<lambda>s. view (run_opt demo_session s))
       (initTabsComponent_opt (at_time 0) autoplay_attrs three_tabs) = Some (0, True, 1500)"
proof -
  have c: "map_option (\<lambda>s. view (run demo_session s))
             (initTabsComponent (at_time 0) autoplay_attrs three_tabs) = Some (0, True, 1500)"
    by code_simp
  have "map_option (\<lambda>s. view (run_opt demo_session s))
          (initTabsComponent_opt (at_time 0) autoplay_attrs three_tabs)
        = map_option (\<lambda>s. view (run demo_session s))
            (initTabsComponent (at_time 0) autoplay_attrs three_tabs)"
    by (rule variants_agree [symmetric])
  also note c
  finally show ?thesis using c by simp
qed

end
